theory Spec2Isabelle
  imports Main "HOL-Library.Word"
begin

unbundle bit_operations_syntax

section \<open>Machine types\<close>

text \<open>
  The kernel is 32-bit x86 code. \<open>uint32_t\<close>, \<open>uint16_t\<close> and \<open>uint8_t\<close> are words, whose
  arithmetic wraps around as C's unsigned arithmetic does. C's \<open>int\<close> is modelled by \<open>int\<close>:
  signed overflow is undefined in C, so the model follows the code wherever the code has a
  meaning. A conversion between the two is written out (\<open>word_of_int\<close>, \<open>sint\<close>, \<open>uint\<close>).
\<close>

type_synonym u32 = "32 word"
type_synonym u16 = "16 word"
type_synonym u8 = "8 word"

section \<open>Intrusive lists (list.c)\<close>

text \<open>
  \<open>list_t\<close> is a doubly linked list threaded through nodes embedded in the task structures
  (\<open>run_node\<close>, \<open>wait_node\<close>, \<open>all_node\<close>). A list is modelled by the sequence of the tasks
  whose node it holds, first to last; \<open>count\<close> is its length. The C functions do not check
  membership: the sequence is exact when \<open>list_insert_last\<close> is given a node that is in no
  list and \<open>list_remove\<close> a node of the list, which is how the scheduler uses them.
  Given a node that is in no list, the C \<open>list_remove\<close> changes no link and still
  decrements \<open>count\<close>, while the sequence, and with it its length, stays as it is: there
  the model does not follow the code.
\<close>

definition list_init :: "'a list" where
  "list_init = []"

definition list_is_empty :: "'a list \<Rightarrow> bool" where
  "list_is_empty l = (l = [])"

definition list_count :: "'a list \<Rightarrow> int" where
  "list_count l = int (length l)"

definition list_first :: "'a list \<Rightarrow> 'a option" where
  "list_first l = (case l of [] \<Rightarrow> None | x # _ \<Rightarrow> Some x)"

definition list_insert_first :: "'a list \<Rightarrow> 'a \<Rightarrow> 'a list" where
  "list_insert_first l node = node # l"

definition list_insert_last :: "'a list \<Rightarrow> 'a \<Rightarrow> 'a list" where
  "list_insert_last l node = l @ [node]"

definition list_remove_first :: "'a list \<Rightarrow> 'a option \<times> 'a list" where
  "list_remove_first l = (case l of [] \<Rightarrow> (None, []) | x # xs \<Rightarrow> (Some x, xs))"

definition list_remove :: "'a list \<Rightarrow> 'a \<Rightarrow> 'a list" where
  "list_remove l remove_node = remove1 remove_node l"

section \<open>Tasks and the task manager (task.h, task.c)\<close>

text \<open>
  A \<open>task_t *\<close> points at \<open>task_manager.first_task\<close>, at \<open>task_manager.idle_task\<close> or at a
  slot of \<open>task_table\<close>; the null pointer is \<open>None\<close>.
\<close>

datatype task_ref = First_task | Idle_task | Table_task nat

datatype task_state =
  TASK_CREATED | TASK_RUNNING | TASK_SLEEP | TASK_READY | TASK_WAITING | TASK_ZOMBIE

text \<open>The fields of \<open>tss_t\<close> the kernel code writes (cpu.h).\<close>

record tss_t =
  esp0 :: u32
  ss0 :: u32
  cr3 :: u32
  eip :: u32
  eflags :: u32
  eax :: u32
  ecx :: u32
  edx :: u32
  ebx :: u32
  esp :: u32
  ebp :: u32
  esi :: u32
  edi :: u32
  es :: u32
  cs :: u32
  ss :: u32
  ds :: u32
  fs :: u32
  gs :: u32
  iomap :: u32

text \<open>
  \<open>syscall_frame_t\<close> (syscall.h): the registers pushed on the task's kernel stack on entry to a
  system call, at \<open>tss.esp0 - sizeof(syscall_frame_t)\<close>. The model keeps it with the task.
  Its fields carry the prefix \<open>f_\<close>, as \<open>tss_t\<close> has the same names.
\<close>

record syscall_frame_t =
  f_eflags :: u32
  f_gs :: u32
  f_fs :: u32
  f_es :: u32
  f_ds :: u32
  f_edi :: u32
  f_esi :: u32
  f_ebp :: u32
  f_ebx :: u32
  f_edx :: u32
  f_ecx :: u32
  f_eax :: u32
  f_eip :: u32
  f_cs :: u32
  f_esp :: u32
  f_ss :: u32

text \<open>
  \<open>task_t\<close>. \<open>name\<close> is the text of the \<open>char[32]\<close> array up to its terminator, so a free
  slot of the table (\<open>name[0] == 0\<close>) has the empty name. \<open>file_table\<close> holds, per descriptor,
  the index of the entry of the system file table it points at.
\<close>

record task_t =
  state :: task_state
  name :: string
  pid :: int
  parent :: "task_ref option"
  heap_start :: u32
  heap_end :: u32
  status :: int
  sleep_ticks :: int
  time_slice :: int
  slice_ticks :: int
  file_table :: "nat \<Rightarrow> nat option"
  tss :: tss_t
  tss_sel :: u16
  frame :: syscall_frame_t

text \<open>\<open>file_t\<close> (file.c): the reference count, and the bytes and position the loader reads.\<close>

record file_t =
  file_ref :: int
  file_data :: "u8 list"
  file_pos :: nat

text \<open>\<open>addr_alloc_t\<close> (memory.c): the physical page allocator and its bitmap, one bit per page.\<close>

record addr_alloc_t =
  alloc_start :: u32
  alloc_size :: u32
  page_size :: u32
  bitmap :: "bool list"

text \<open>
  The kernel's global state: \<open>task_manager\<close> and \<open>task_table\<close> (task.c), the access bytes of
  \<open>gdt_table\<close> (cpu.c), \<open>paddr_alloc\<close> and the words of physical memory that hold page
  directories and page tables (memory.c), the CR3 register, and the system file table with
  the files on disk (file.c and the file system).
  \<open>task_addr\<close> is the address of each task structure and \<open>kernel_page_dir\<close> that of the static
  kernel page directory: both are fixed at link time.
\<close>

record kernel =
  curr_task :: "task_ref option"
  ready_list :: "task_ref list"
  task_list :: "task_ref list"
  sleep_list :: "task_ref list"
  task_tab :: "task_ref \<Rightarrow> task_t"
  task_addr :: "task_ref \<Rightarrow> u32"
  app_code_sel :: int
  app_data_sel :: int
  gdt_table :: "u16 list"
  paddr_alloc :: addr_alloc_t
  pmem :: "u32 \<Rightarrow> u32"
  kernel_page_dir :: u32
  cr3_reg :: u32
  sys_files :: "file_t list"
  disk :: "string \<Rightarrow> u8 list option"

text \<open>A structure cleared by \<open>kernel_memset(p, 0, sizeof ...)\<close>.\<close>

definition zero_tss :: tss_t where
  "zero_tss = \<lparr>esp0 = 0, ss0 = 0, cr3 = 0, eip = 0, eflags = 0, eax = 0, ecx = 0, edx = 0,
     ebx = 0, esp = 0, ebp = 0, esi = 0, edi = 0, es = 0, cs = 0, ss = 0, ds = 0, fs = 0,
     gs = 0, iomap = 0\<rparr>"

definition zero_frame :: syscall_frame_t where
  "zero_frame = \<lparr>f_eflags = 0, f_gs = 0, f_fs = 0, f_es = 0, f_ds = 0, f_edi = 0, f_esi = 0,
     f_ebp = 0, f_ebx = 0, f_edx = 0, f_ecx = 0, f_eax = 0, f_eip = 0, f_cs = 0, f_esp = 0,
     f_ss = 0\<rparr>"

definition zero_task :: task_t where
  "zero_task = \<lparr>state = TASK_CREATED, name = [], pid = 0, parent = None, heap_start = 0,
     heap_end = 0, status = 0, sleep_ticks = 0, time_slice = 0, slice_ticks = 0,
     file_table = (\<lambda>_. None), tss = zero_tss, tss_sel = 0, frame = zero_frame\<rparr>"

definition OS_TICK_MS :: u32 where
  "OS_TICK_MS = 10"

definition TASK_NR :: nat where
  "TASK_NR = 128"

definition TASK_OFILE_NR :: nat where
  "TASK_OFILE_NR = 128"

definition TASK_NAME_SIZE :: nat where
  "TASK_NAME_SIZE = 32"

definition TASK_TIME_SLICE_DEFAULT :: int where
  "TASK_TIME_SLICE_DEFAULT = 10"

definition task_upd :: "task_ref \<Rightarrow> (task_t \<Rightarrow> task_t) \<Rightarrow> kernel \<Rightarrow> kernel" where
  "task_upd t f s = s\<lparr>task_tab := (task_tab s)(t := f (task_tab s t))\<rparr>"

subsection \<open>Ready and sleep queues\<close>

definition task_set_ready :: "task_ref \<Rightarrow> kernel \<Rightarrow> kernel" where
  "task_set_ready task s =
     (if task \<noteq> Idle_task
      then task_upd task (\<lambda>t. t\<lparr>state := TASK_READY\<rparr>)
             (s\<lparr>ready_list := list_insert_last (ready_list s) task\<rparr>)
      else s)"

definition task_set_block :: "task_ref \<Rightarrow> kernel \<Rightarrow> kernel" where
  "task_set_block task s =
     (if task \<noteq> Idle_task
      then s\<lparr>ready_list := list_remove (ready_list s) task\<rparr>
      else s)"

definition task_next_run :: "kernel \<Rightarrow> task_ref" where
  "task_next_run s =
     (if list_count (ready_list s) = 0 then Idle_task
      else (case list_first (ready_list s) of Some t \<Rightarrow> t | None \<Rightarrow> Idle_task))"

text \<open>\<open>ticks\<close> is a \<open>uint32_t\<close>, so \<open>ticks <= 0\<close> holds for 0 only; it is stored in an \<open>int\<close>.\<close>

definition task_set_sleep :: "task_ref \<Rightarrow> u32 \<Rightarrow> kernel \<Rightarrow> kernel" where
  "task_set_sleep task ticks s =
     (if ticks \<le> 0 then s
      else task_upd task (\<lambda>t. t\<lparr>sleep_ticks := sint ticks, state := TASK_SLEEP\<rparr>)
             (s\<lparr>sleep_list := list_insert_last (sleep_list s) task\<rparr>))"

definition task_set_wakeup :: "task_ref \<Rightarrow> kernel \<Rightarrow> kernel" where
  "task_set_wakeup task s = s\<lparr>sleep_list := list_remove (sleep_list s) task\<rparr>"

definition task_current :: "kernel \<Rightarrow> task_ref option" where
  "task_current s = curr_task s"

text \<open>
  \<open>switch_to_tss\<close> is the hardware task switch: the processor loads the registers of the
  target TSS, CR3 among them.
\<close>

definition task_switch_from_to :: "task_ref option \<Rightarrow> task_ref \<Rightarrow> kernel \<Rightarrow> kernel" where
  "task_switch_from_to from to s = s\<lparr>cr3_reg := cr3 (tss (task_tab s to))\<rparr>"

text \<open>
  Every function below that changes a queue runs between \<open>irq_enter_protection\<close> and
  \<open>irq_leave_protection\<close>, with interrupts off: its body is one step of the model. A caller
  of \<open>task_dispatch\<close> that was switched away continues after the call when it is dispatched
  again; in all of them but \<open>sys_wait\<close> nothing but \<open>irq_leave_protection\<close> follows the call.
\<close>

definition task_dispatch :: "kernel \<Rightarrow> kernel" where
  "task_dispatch s =
     (let to = task_next_run s in
      if Some to \<noteq> curr_task s
      then (let from = task_current s;
                s1 = s\<lparr>curr_task := Some to\<rparr>;
                s2 = task_upd to (\<lambda>t. t\<lparr>state := TASK_RUNNING\<rparr>) s1
            in task_switch_from_to from to s2)
      else s)"

text \<open>The functions that read \<open>task_current()\<close> dereference it; with no current task they do nothing here.\<close>

definition sys_yield :: "kernel \<Rightarrow> int \<times> kernel" where
  "sys_yield s =
     (if list_count (ready_list s) > 1
      then (case task_current s of
              None \<Rightarrow> (0, s)
            | Some cur \<Rightarrow> (0, task_dispatch (task_set_ready cur (task_set_block cur s))))
      else (0, s))"

text \<open>The body of the loop over the sleep queue, and the loop, which reads \<open>next\<close> before the body runs.\<close>

definition sleep_tick_one :: "task_ref \<Rightarrow> kernel \<Rightarrow> kernel" where
  "sleep_tick_one task s =
     (let s1 = task_upd task (\<lambda>t. t\<lparr>sleep_ticks := sleep_ticks t - 1\<rparr>) s
      in if sleep_ticks (task_tab s1 task) = 0
         then task_set_ready task (task_set_wakeup task s1)
         else s1)"

fun sleep_list_tick :: "task_ref list \<Rightarrow> kernel \<Rightarrow> kernel" where
  "sleep_list_tick [] s = s"
| "sleep_list_tick (task # rest) s = sleep_list_tick rest (sleep_tick_one task s)"

definition task_time_tick :: "kernel \<Rightarrow> kernel" where
  "task_time_tick s =
     (case task_current s of
        None \<Rightarrow> s
      | Some cur \<Rightarrow>
          (let s1 = task_upd cur (\<lambda>t. t\<lparr>slice_ticks := slice_ticks t - 1\<rparr>) s;
               s2 = (if slice_ticks (task_tab s1 cur) = 0
                     then task_set_ready cur (task_set_block cur
                            (task_upd cur (\<lambda>t. t\<lparr>slice_ticks := time_slice t\<rparr>) s1))
                     else s1);
               s3 = sleep_list_tick (sleep_list s2) s2
           in task_dispatch s3))"

definition sys_msleep_ticks :: "u32 \<Rightarrow> u32" where
  "sys_msleep_ticks ms =
     (let ms1 = (if ms < OS_TICK_MS then OS_TICK_MS else ms)
      in (ms1 + (OS_TICK_MS - 1)) div OS_TICK_MS)"

definition sys_msleep :: "u32 \<Rightarrow> kernel \<Rightarrow> kernel" where
  "sys_msleep ms s =
     (case curr_task s of
        None \<Rightarrow> s
      | Some cur \<Rightarrow>
          task_dispatch (task_set_sleep cur (sys_msleep_ticks ms) (task_set_block cur s)))"

section \<open>Counting semaphore (sem.c)\<close>

record sem_t =
  sem_cnt :: int
  sem_wait_list :: "task_ref list"

definition sem_init :: "int \<Rightarrow> sem_t" where
  "sem_init init_count = \<lparr>sem_cnt = init_count, sem_wait_list = list_init\<rparr>"

definition sem_wait :: "sem_t \<Rightarrow> kernel \<Rightarrow> sem_t \<times> kernel" where
  "sem_wait sem s =
     (if sem_cnt sem > 0 then (sem\<lparr>sem_cnt := sem_cnt sem - 1\<rparr>, s)
      else (case task_current s of
              None \<Rightarrow> (sem, s)
            | Some cur \<Rightarrow>
                (sem\<lparr>sem_wait_list := list_insert_last (sem_wait_list sem) cur\<rparr>,
                 task_dispatch (task_set_block cur s))))"

definition sem_notify :: "sem_t \<Rightarrow> kernel \<Rightarrow> sem_t \<times> kernel" where
  "sem_notify sem s =
     (if list_count (sem_wait_list sem) \<noteq> 0
      then (case list_remove_first (sem_wait_list sem) of
              (Some task, rest) \<Rightarrow>
                (sem\<lparr>sem_wait_list := rest\<rparr>, task_dispatch (task_set_ready task s))
            | (None, rest) \<Rightarrow> (sem, s))
      else (sem\<lparr>sem_cnt := sem_cnt sem + 1\<rparr>, s))"

definition sem_count :: "sem_t \<Rightarrow> int" where
  "sem_count sem = sem_cnt sem"

section \<open>Recursive mutex (mutex.c)\<close>

record mutex_t =
  owner :: "task_ref option"
  locked_count :: int
  wait_list :: "task_ref list"

definition mutex_init :: mutex_t where
  "mutex_init = \<lparr>owner = None, locked_count = 0, wait_list = list_init\<rparr>"

definition mutex_lock :: "mutex_t \<Rightarrow> kernel \<Rightarrow> mutex_t \<times> kernel" where
  "mutex_lock mutex s =
     (let cur = task_current s in
      if locked_count mutex = 0
      then (mutex\<lparr>locked_count := locked_count mutex + 1, owner := cur\<rparr>, s)
      else if owner mutex = cur
      then (mutex\<lparr>locked_count := locked_count mutex + 1\<rparr>, s)
      else (case cur of
              None \<Rightarrow> (mutex, s)
            | Some c \<Rightarrow>
                (mutex\<lparr>wait_list := list_insert_last (wait_list mutex) c\<rparr>,
                 task_dispatch (task_set_block c s))))"

definition mutex_unlock :: "mutex_t \<Rightarrow> kernel \<Rightarrow> mutex_t \<times> kernel" where
  "mutex_unlock mutex s =
     (let cur = task_current s in
      if owner mutex = cur
      then (let m1 = mutex\<lparr>locked_count := locked_count mutex - 1\<rparr> in
            if locked_count m1 = 0
            then (let m2 = m1\<lparr>owner := None\<rparr> in
                  if list_count (wait_list m2) \<noteq> 0
                  then (case list_remove_first (wait_list m2) of
                          (Some task, rest) \<Rightarrow>
                            (m2\<lparr>wait_list := rest, locked_count := 1, owner := Some task\<rparr>,
                             task_dispatch (task_set_ready task s))
                        | (None, rest) \<Rightarrow> (m2, s))
                  else (m2, s))
            else (m1, s))
      else (mutex, s))"

section \<open>TTY input (tty.c)\<close>

text \<open>
  \<open>tty_fifo_t\<close>: a ring buffer over an array of \<open>size\<close> bytes. The fields are \<open>buf\<close>, \<open>count\<close>,
  \<open>size\<close>, \<open>read\<close> and \<open>write\<close> in the source. \<open>buf\<close> is the array itself here; a store at an
  index outside of it, which no well-formed FIFO makes, leaves it as it is.
\<close>

record tty_fifo_t =
  fifo_buf :: "u8 list"
  fifo_count :: int
  fifo_size :: int
  fifo_read :: int
  fifo_write :: int

text \<open>
  \<open>tty_t\<close>: the output and the input FIFO, each with its semaphore. The flag words and the
  console index, which \<open>tty_in\<close> does not read, are left out.
\<close>

record tty_t =
  ofifo :: tty_fifo_t
  osem :: sem_t
  ififo :: tty_fifo_t
  isem :: sem_t

definition tty_fifo_init :: "u8 list \<Rightarrow> int \<Rightarrow> tty_fifo_t" where
  "tty_fifo_init b sz =
     \<lparr>fifo_buf = b, fifo_count = 0, fifo_size = sz, fifo_read = 0, fifo_write = 0\<rparr>"

definition tty_fifo_get :: "tty_fifo_t \<Rightarrow> int \<times> u8 option \<times> tty_fifo_t" where
  "tty_fifo_get fifo =
     (if fifo_count fifo \<le> 0 then (-1, None, fifo)
      else (let c = (if 0 \<le> fifo_read fifo \<and> nat (fifo_read fifo) < length (fifo_buf fifo)
                     then Some (fifo_buf fifo ! nat (fifo_read fifo)) else None);
                r = fifo_read fifo + 1;
                r1 = (if r \<ge> fifo_size fifo then 0 else r)
            in (0, c, fifo\<lparr>fifo_read := r1, fifo_count := fifo_count fifo - 1\<rparr>)))"

definition tty_fifo_put :: "tty_fifo_t \<Rightarrow> u8 \<Rightarrow> int \<times> tty_fifo_t" where
  "tty_fifo_put fifo c =
     (if fifo_count fifo \<ge> fifo_size fifo then (-1, fifo)
      else (let b = (if 0 \<le> fifo_write fifo
                     then (fifo_buf fifo)[nat (fifo_write fifo) := c] else fifo_buf fifo);
                w = fifo_write fifo + 1;
                w1 = (if w \<ge> fifo_size fifo then 0 else w)
            in (0, fifo\<lparr>fifo_buf := b, fifo_write := w1, fifo_count := fifo_count fifo + 1\<rparr>)))"

text \<open>
  \<open>tty_in\<close>, called by the keyboard interrupt handler with the byte typed. \<open>tty\<close> is
  \<open>tty_devs[curr_tty]\<close>, the focused TTY. The header that defines \<open>TTY_IBUF_SIZE\<close> is not
  among the sources: the capacity is the parameter \<open>ibuf_size\<close>. The result of
  \<open>tty_fifo_put\<close> is not looked at.
\<close>

definition tty_in :: "int \<Rightarrow> u8 \<Rightarrow> tty_t \<Rightarrow> kernel \<Rightarrow> tty_t \<times> kernel" where
  "tty_in ibuf_size ch tty s =
     (if sem_count (isem tty) \<ge> ibuf_size then (tty, s)
      else (let (err, fifo1) = tty_fifo_put (ififo tty) ch;
                (sem1, s1) = sem_notify (isem tty) s
            in (tty\<lparr>ififo := fifo1, isem := sem1\<rparr>, s1)))"

text \<open>
  What \<open>tty_open\<close> makes of the FIFOs and semaphores of a TTY, for buffers of
  \<open>TTY_OBUF_SIZE\<close> and \<open>TTY_IBUF_SIZE\<close> bytes.
\<close>

definition tty_open_dev :: "int \<Rightarrow> int \<Rightarrow> tty_t" where
  "tty_open_dev obuf_size ibuf_size =
     \<lparr>ofifo = tty_fifo_init (replicate (nat obuf_size) 0) obuf_size,
      osem = sem_init obuf_size,
      ififo = tty_fifo_init (replicate (nat ibuf_size) 0) ibuf_size,
      isem = sem_init 0\<rparr>"

text \<open>
  The bytes a FIFO holds, oldest first, and the FIFOs whose indices are consistent.
\<close>

definition fifo_contents :: "tty_fifo_t \<Rightarrow> u8 list" where
  "fifo_contents f =
     map (\<lambda>i. fifo_buf f ! nat ((fifo_read f + int i) mod fifo_size f)) [0..<nat (fifo_count f)]"

definition fifo_wf :: "tty_fifo_t \<Rightarrow> bool" where
  "fifo_wf f \<longleftrightarrow>
     0 < fifo_size f \<and> length (fifo_buf f) = nat (fifo_size f) \<and>
     0 \<le> fifo_read f \<and> fifo_read f < fifo_size f \<and>
     0 \<le> fifo_count f \<and> fifo_count f \<le> fifo_size f \<and>
     fifo_write f = (fifo_read f + fifo_count f) mod fifo_size f"

text \<open>
  A TTY whose input FIFO is full, 512 bytes typed and none read yet, while a reader has
  taken the semaphore for the first byte (\<open>sem_wait\<close> in \<open>tty_read\<close>) and has not yet called
  \<open>tty_fifo_get\<close>: the count of the semaphore is 511.
\<close>

definition full_tty :: tty_t where
  "full_tty =
     (tty_open_dev 512 512)
       \<lparr>ififo := \<lparr>fifo_buf = replicate 512 0x61, fifo_count = 512, fifo_size = 512,
                   fifo_read = 0, fifo_write = 0\<rparr>,
        isem := \<lparr>sem_cnt = 511, sem_wait_list = []\<rparr>\<rparr>"

section \<open>Physical pages and page tables (mmu.h, memory.c)\<close>

subsection \<open>Constants and helpers that are not among the sources\<close>

text \<open>
  Modelled from the spec: \<open>memory.h\<close> is missing. Pages are 4 KiB (\<open>MEM_PAGE_SIZE\<close>) and user
  space starts at \<open>0x80000000\<close> (\<open>MEMORY_TASK_BASE\<close>).
\<close>

definition MEM_PAGE_SIZE :: u32 where
  "MEM_PAGE_SIZE = 4096"

definition MEMORY_TASK_BASE :: u32 where
  "MEMORY_TASK_BASE = 0x80000000"

text \<open>
  Modelled from the spec: \<open>klib.h\<close> is missing. \<open>down2\<close> and \<open>up2\<close> round down and up to a
  multiple of \<open>bound\<close>, a power of two.
\<close>

definition down2 :: "u32 \<Rightarrow> u32 \<Rightarrow> u32" where
  "down2 sz bound = sz AND NOT (bound - 1)"

definition up2 :: "u32 \<Rightarrow> u32 \<Rightarrow> u32" where
  "up2 sz bound = (sz + bound - 1) AND NOT (bound - 1)"

text \<open>
  Modelled from the spec: \<open>bitmap.c\<close> is missing. \<open>bitmap_alloc_nbits\<close> finds the lowest run of
  \<open>count\<close> clear bits, sets them and returns the index of the first, or returns -1;
  \<open>bitmap_set_bit\<close> writes \<open>count\<close> bits from \<open>index\<close> on. Bits outside the bitmap are not
  written.
\<close>

fun bitmap_find_run :: "nat \<Rightarrow> bool list \<Rightarrow> nat \<Rightarrow> nat option" where
  "bitmap_find_run n [] i = None"
| "bitmap_find_run n (b # bs) i =
     (if n \<le> length (b # bs) \<and> list_all (\<lambda>x. \<not> x) (take n (b # bs)) then Some i
      else bitmap_find_run n bs (Suc i))"

definition bitmap_set_bit :: "bool list \<Rightarrow> nat \<Rightarrow> nat \<Rightarrow> bool \<Rightarrow> bool list" where
  "bitmap_set_bit bits index cnt b = fold (\<lambda>j bs. bs[j := b]) [index..<index + cnt] bits"

definition bitmap_alloc_nbits :: "bool list \<Rightarrow> nat \<Rightarrow> int \<times> bool list" where
  "bitmap_alloc_nbits bits cnt =
     (case bitmap_find_run cnt bits 0 of
        None \<Rightarrow> (-1, bits)
      | Some i \<Rightarrow> (int i, bitmap_set_bit bits i cnt True))"

subsection \<open>The page allocator\<close>

definition addr_alloc_page :: "nat \<Rightarrow> kernel \<Rightarrow> u32 \<times> kernel" where
  "addr_alloc_page page_count s =
     (let alloc = paddr_alloc s;
          (page_index, bits) = bitmap_alloc_nbits (bitmap alloc) page_count
      in if page_index \<ge> 0
         then (alloc_start alloc + word_of_int page_index * page_size alloc,
               s\<lparr>paddr_alloc := alloc\<lparr>bitmap := bits\<rparr>\<rparr>)
         else (0, s\<lparr>paddr_alloc := alloc\<lparr>bitmap := bits\<rparr>\<rparr>))"

definition addr_free_page :: "u32 \<Rightarrow> nat \<Rightarrow> kernel \<Rightarrow> kernel" where
  "addr_free_page addr page_count s =
     (let alloc = paddr_alloc s;
          page_index = (addr - alloc_start alloc) div page_size alloc
      in s\<lparr>paddr_alloc :=
             alloc\<lparr>bitmap := bitmap_set_bit (bitmap alloc) (unat page_index) page_count False\<rparr>\<rparr>)"

subsection \<open>Page directory and page table entries\<close>

text \<open>
  \<open>pmem\<close> gives the 32-bit word at a physical address; the kernel maps physical memory
  one to one, so a \<open>pde_t *\<close> or \<open>pte_t *\<close> is the address of the entry, and entry \<open>i\<close> of a
  table at \<open>p\<close> is the word at \<open>p + 4 * i\<close>. Only page directories and page tables are followed
  in \<open>pmem\<close>: the contents of data pages play no part in what is proved.
\<close>

definition PTE_P :: u32 where "PTE_P = 1"
definition PTE_W :: u32 where "PTE_W = 2"
definition PTE_U :: u32 where "PTE_U = 4"
definition PDE_P :: u32 where "PDE_P = 1"
definition PDE_W :: u32 where "PDE_W = 2"
definition PDE_U :: u32 where "PDE_U = 4"
definition PDE_CNT :: nat where "PDE_CNT = 1024"
definition PTE_CNT :: nat where "PTE_CNT = 1024"

definition pde_index :: "u32 \<Rightarrow> u32" where
  "pde_index vaddr = drop_bit 22 vaddr AND 0x3FF"

definition pte_index :: "u32 \<Rightarrow> u32" where
  "pte_index vaddr = drop_bit 12 vaddr AND 0x3FF"

definition entry_present :: "u32 \<Rightarrow> bool" where
  "entry_present v = (v AND 1 \<noteq> 0)"

definition pde_paddr :: "u32 \<Rightarrow> u32" where
  "pde_paddr v = push_bit 12 (drop_bit 12 v)"

definition pte_paddr :: "u32 \<Rightarrow> u32" where
  "pte_paddr v = push_bit 12 (drop_bit 12 v)"

definition get_pte_perm :: "u32 \<Rightarrow> u32" where
  "get_pte_perm v = v AND 0x1FF"

definition entry_addr :: "u32 \<Rightarrow> u32 \<Rightarrow> u32" where
  "entry_addr table i = table + 4 * i"

text \<open>\<open>kernel_memset(p, 0, MEM_PAGE_SIZE)\<close> on the words of a page.\<close>

definition clear_page :: "u32 \<Rightarrow> (u32 \<Rightarrow> u32) \<Rightarrow> (u32 \<Rightarrow> u32)" where
  "clear_page p m = (\<lambda>a. if a - p < MEM_PAGE_SIZE then 0 else m a)"

definition mmu_set_page_dir :: "u32 \<Rightarrow> kernel \<Rightarrow> kernel" where
  "mmu_set_page_dir paddr s = s\<lparr>cr3_reg := paddr\<rparr>"

text \<open>\<open>find_pte\<close> returns the address of the entry, 0 for the null pointer.\<close>

definition find_pte :: "u32 \<Rightarrow> u32 \<Rightarrow> bool \<Rightarrow> kernel \<Rightarrow> u32 \<times> kernel" where
  "find_pte page_dir vaddr alloc s =
     (let pde = entry_addr page_dir (pde_index vaddr) in
      if entry_present (pmem s pde)
      then (entry_addr (pde_paddr (pmem s pde)) (pte_index vaddr), s)
      else if \<not> alloc then (0, s)
      else (let (pg_paddr, s1) = addr_alloc_page 1 s in
            if pg_paddr = 0 then (0, s1)
            else (let m1 = (pmem s1)(pde := pg_paddr OR PDE_P OR PDE_W OR PDE_U);
                      m2 = clear_page pg_paddr m1
                  in (entry_addr pg_paddr (pte_index vaddr), s1\<lparr>pmem := m2\<rparr>))))"

text \<open>The loop of \<open>memory_create_map\<close> over \<open>count\<close> pages; the assertion that the entry is not yet present is not checked.\<close>

fun memory_create_map :: "u32 \<Rightarrow> u32 \<Rightarrow> u32 \<Rightarrow> nat \<Rightarrow> u32 \<Rightarrow> kernel \<Rightarrow> int \<times> kernel" where
  "memory_create_map page_dir vaddr paddr 0 perm s = (0, s)"
| "memory_create_map page_dir vaddr paddr (Suc n) perm s =
     (let (pte, s1) = find_pte page_dir vaddr True s in
      if pte = 0 then (-1, s1)
      else memory_create_map page_dir (vaddr + MEM_PAGE_SIZE) (paddr + MEM_PAGE_SIZE) n perm
             (s1\<lparr>pmem := (pmem s1)(pte := paddr OR perm OR PTE_P)\<rparr>))"

subsection \<open>Address spaces\<close>

definition copy_kernel_pdes :: "u32 \<Rightarrow> u32 \<Rightarrow> (u32 \<Rightarrow> u32) \<Rightarrow> (u32 \<Rightarrow> u32)" where
  "copy_kernel_pdes page_dir kdir m =
     fold (\<lambda>i m1. m1(entry_addr page_dir (of_nat i) := m1 (entry_addr kdir (of_nat i))))
       [0..<unat (pde_index MEMORY_TASK_BASE)] m"

definition memory_create_uvm :: "kernel \<Rightarrow> u32 \<times> kernel" where
  "memory_create_uvm s =
     (let (page_dir, s1) = addr_alloc_page 1 s in
      if page_dir = 0 then (0, s1)
      else (page_dir,
            s1\<lparr>pmem := copy_kernel_pdes page_dir (kernel_page_dir s1)
                          (clear_page page_dir (pmem s1))\<rparr>))"

text \<open>\<open>memory_destroy_uvm\<close>: the pages of one page table, the user half of a directory, and the directory.\<close>

definition destroy_ptes :: "u32 \<Rightarrow> kernel \<Rightarrow> kernel" where
  "destroy_ptes table s =
     fold (\<lambda>j s1. let pte = pmem s1 (entry_addr table (of_nat j)) in
                   if entry_present pte then addr_free_page (pte_paddr pte) 1 s1 else s1)
       [0..<PTE_CNT] s"

definition destroy_pdes :: "u32 \<Rightarrow> kernel \<Rightarrow> kernel" where
  "destroy_pdes page_dir s =
     fold (\<lambda>i s1. let pde = pmem s1 (entry_addr page_dir (of_nat i)) in
                   if entry_present pde
                   then addr_free_page (pde_paddr pde) 1 (destroy_ptes (pde_paddr pde) s1)
                   else s1)
       [unat (pde_index MEMORY_TASK_BASE)..<PDE_CNT] s"

definition memory_destroy_uvm :: "u32 \<Rightarrow> kernel \<Rightarrow> kernel" where
  "memory_destroy_uvm page_dir s = addr_free_page page_dir 1 (destroy_pdes page_dir s)"

text \<open>
  \<open>memory_copy_uvm\<close>: the two loops, which leave at the first failure (\<open>False\<close>), and the
  function. The copy of the page contents is not followed. The function returns a
  \<open>uint32_t\<close>: its \<open>return -1\<close> is the value \<open>0xFFFFFFFF\<close>.
\<close>

fun copy_ptes :: "u32 \<Rightarrow> u32 \<Rightarrow> nat \<Rightarrow> nat list \<Rightarrow> kernel \<Rightarrow> bool \<times> kernel" where
  "copy_ptes to_page_dir table i [] s = (True, s)"
| "copy_ptes to_page_dir table i (j # js) s =
     (let pte = pmem s (entry_addr table (of_nat j)) in
      if \<not> entry_present pte then copy_ptes to_page_dir table i js s
      else (let (page, s1) = addr_alloc_page 1 s in
            if page = 0 then (False, s1)
            else (let vaddr = push_bit 22 (of_nat i) OR push_bit 12 (of_nat j);
                      (err, s2) = memory_create_map to_page_dir vaddr page 1 (get_pte_perm pte) s1
                  in if err < 0 then (False, s2)
                     else copy_ptes to_page_dir table i js s2)))"

fun copy_pdes :: "u32 \<Rightarrow> u32 \<Rightarrow> nat list \<Rightarrow> kernel \<Rightarrow> bool \<times> kernel" where
  "copy_pdes to_page_dir page_dir [] s = (True, s)"
| "copy_pdes to_page_dir page_dir (i # rest) s =
     (let pde = pmem s (entry_addr page_dir (of_nat i)) in
      if \<not> entry_present pde then copy_pdes to_page_dir page_dir rest s
      else (case copy_ptes to_page_dir (pde_paddr pde) i [0..<PTE_CNT] s of
              (False, s1) \<Rightarrow> (False, s1)
            | (True, s1) \<Rightarrow> copy_pdes to_page_dir page_dir rest s1))"

definition memory_copy_uvm :: "u32 \<Rightarrow> kernel \<Rightarrow> u32 \<times> kernel" where
  "memory_copy_uvm page_dir s =
     (let (to_page_dir, s1) = memory_create_uvm s in
      if to_page_dir = 0 then (-1, s1)
      else (case copy_pdes to_page_dir page_dir [unat (pde_index MEMORY_TASK_BASE)..<PDE_CNT] s1 of
              (True, s2) \<Rightarrow> (to_page_dir, s2)
            | (False, s2) \<Rightarrow> (-1, memory_destroy_uvm to_page_dir s2)))"

definition memory_get_paddr :: "u32 \<Rightarrow> u32 \<Rightarrow> kernel \<Rightarrow> u32" where
  "memory_get_paddr page_dir vaddr s =
     (let (pte, s1) = find_pte page_dir vaddr False s in
      if pte = 0 then 0
      else pte_paddr (pmem s pte) + (vaddr AND (MEM_PAGE_SIZE - 1)))"

text \<open>
  \<open>memory_alloc_for_page_dir\<close>. The function returns a \<open>uint32_t\<close>: 0 when all pages are
  mapped, 0 as well when a page cannot be allocated, and \<open>0xFFFFFFFF\<close> (its \<open>return -1\<close>) when
  the mapping fails. The loop runs over the pages still to map; \<open>i\<close> counts those done.
\<close>

fun alloc_pages_loop :: "u32 \<Rightarrow> u32 \<Rightarrow> u32 \<Rightarrow> u32 \<Rightarrow> nat \<Rightarrow> nat \<Rightarrow> kernel \<Rightarrow> u32 \<times> kernel" where
  "alloc_pages_loop page_dir vaddr curr_vaddr perm i 0 s = (0, s)"
| "alloc_pages_loop page_dir vaddr curr_vaddr perm i (Suc n) s =
     (let (paddr, s1) = addr_alloc_page 1 s in
      if paddr = 0 then (0, s1)
      else (let (err, s2) = memory_create_map page_dir curr_vaddr paddr 1 perm s1 in
            if err < 0 then (-1, addr_free_page vaddr (i + 1) s2)
            else alloc_pages_loop page_dir vaddr (curr_vaddr + MEM_PAGE_SIZE) perm (Suc i) n s2))"

definition memory_alloc_for_page_dir :: "u32 \<Rightarrow> u32 \<Rightarrow> u32 \<Rightarrow> u32 \<Rightarrow> kernel \<Rightarrow> u32 \<times> kernel" where
  "memory_alloc_for_page_dir page_dir vaddr sz perm s =
     (let curr_vaddr = vaddr;
          page_count = sint (up2 sz MEM_PAGE_SIZE div MEM_PAGE_SIZE);
          vaddr1 = down2 vaddr MEM_PAGE_SIZE
      in alloc_pages_loop page_dir vaddr1 curr_vaddr perm 0 (nat page_count) s)"

text \<open>\<open>memory_alloc_page_for\<close> returns the result as an \<open>int\<close>. With no current task there is no directory to use.\<close>

definition memory_alloc_page_for :: "u32 \<Rightarrow> u32 \<Rightarrow> u32 \<Rightarrow> kernel \<Rightarrow> int \<times> kernel" where
  "memory_alloc_page_for addr sz perm s =
     (case task_current s of
        None \<Rightarrow> (-1, s)
      | Some cur \<Rightarrow>
          (let (r, s1) = memory_alloc_for_page_dir (cr3 (tss (task_tab s cur))) addr sz perm s
           in (sint r, s1)))"

definition memory_alloc_page :: "kernel \<Rightarrow> u32 \<times> kernel" where
  "memory_alloc_page s = addr_alloc_page 1 s"

definition memory_free_page :: "u32 \<Rightarrow> kernel \<Rightarrow> kernel" where
  "memory_free_page addr s =
     (if addr < MEMORY_TASK_BASE then addr_free_page addr 1 s
      else (case task_current s of
              None \<Rightarrow> s
            | Some cur \<Rightarrow>
                (let (pte, s1) = find_pte (cr3 (tss (task_tab s cur))) addr False s in
                 if pte = 0 then s1
                 else (let s2 = addr_free_page (pte_paddr (pmem s1 pte)) 1 s1
                       in s2\<lparr>pmem := (pmem s2)(pte := 0)\<rparr>))))"

subsection \<open>The heap: sbrk\<close>

text \<open>
  \<open>sys_sbrk\<close> returns a \<open>char *\<close>, here the address; \<open>(char *)-1\<close> is \<open>0xFFFFFFFF\<close>. \<open>incr\<close> is an
  \<open>int\<close>, asserted not to be negative. \<open>incr -= curr_size\<close> subtracts a \<open>uint32_t\<close>: the
  difference is taken in 32 bits and read back as an \<open>int\<close>.
\<close>

definition sys_sbrk :: "int \<Rightarrow> kernel \<Rightarrow> u32 \<times> kernel" where
  "sys_sbrk incr s =
     (case task_current s of
        None \<Rightarrow> (-1, s)
      | Some cur \<Rightarrow>
          (let task = task_tab s cur;
               pre_heap_end = heap_end task
           in if incr = 0 then (pre_heap_end, s)
              else (let start = heap_end task;
                        end1 = start + word_of_int incr;
                        start_offset = uint (start mod MEM_PAGE_SIZE)
                    in if start_offset \<noteq> 0 \<and> start_offset + incr \<le> uint MEM_PAGE_SIZE
                       then (pre_heap_end, task_upd cur (\<lambda>t. t\<lparr>heap_end := end1\<rparr>) s)
                       else (let curr_size = MEM_PAGE_SIZE - word_of_int start_offset;
                                 start1 = (if start_offset \<noteq> 0 then start + curr_size else start);
                                 incr1 = (if start_offset \<noteq> 0
                                          then sint (word_of_int incr - curr_size :: u32)
                                          else incr)
                             in if incr1 \<noteq> 0
                                then (let (err, s1) = memory_alloc_page_for start1 (end1 - start1)
                                                        (PTE_P OR PTE_U OR PTE_W) s
                                      in if err < 0 then (-1, s1)
                                         else (pre_heap_end,
                                               task_upd cur (\<lambda>t. t\<lparr>heap_end := end1\<rparr>) s1))
                                else (pre_heap_end,
                                      task_upd cur (\<lambda>t. t\<lparr>heap_end := end1\<rparr>) s)))))"

section \<open>Descriptor table (cpu.c)\<close>

text \<open>
  Of a descriptor of \<open>gdt_table\<close> the model keeps the \<open>attr\<close> word: a slot is free when it is 0.
\<close>

definition GDT_TABLE_SIZE :: nat where "GDT_TABLE_SIZE = 256"
definition KERNEL_SELECTOR_CS :: u32 where "KERNEL_SELECTOR_CS = 8"
definition KERNEL_SELECTOR_DS :: u32 where "KERNEL_SELECTOR_DS = 16"
definition SEG_P_PRESENT :: u16 where "SEG_P_PRESENT = 0x80"
definition SEG_DPL0 :: u16 where "SEG_DPL0 = 0"
definition SEG_TYPE_TSS :: u16 where "SEG_TYPE_TSS = 9"
definition SEG_CPL0 :: u32 where "SEG_CPL0 = 0"
definition SEG_CPL3 :: u32 where "SEG_CPL3 = 3"
definition EFLAGS_IF :: u32 where "EFLAGS_IF = 0x200"
definition EFLAGS_DEFAULT :: u32 where "EFLAGS_DEFAULT = 2"
definition TASK_FLAG_SYSTEM :: int where "TASK_FLAG_SYSTEM = 1"
definition SYSCALL_PARAM_COUNT :: u32 where "SYSCALL_PARAM_COUNT = 5"
definition sizeof_tss_t :: u32 where "sizeof_tss_t = 104"

definition segment_desc_set :: "u16 \<Rightarrow> u32 \<Rightarrow> u32 \<Rightarrow> u16 \<Rightarrow> kernel \<Rightarrow> kernel" where
  "segment_desc_set selector base limit attr s =
     (let attr1 = (if limit > 0xFFFFF then attr OR 0x8000 else attr);
          limit1 = (if limit > 0xFFFFF then limit div 0x1000 else limit)
      in s\<lparr>gdt_table := (gdt_table s)[unat (drop_bit 3 selector) :=
             attr1 OR ucast (push_bit 8 (drop_bit 16 limit1 AND 0xF))]\<rparr>)"

definition gdt_free_sel :: "int \<Rightarrow> kernel \<Rightarrow> kernel" where
  "gdt_free_sel sel s = s\<lparr>gdt_table := (gdt_table s)[nat (sel div 8) := 0]\<rparr>"

definition gdt_alloc_desc :: "kernel \<Rightarrow> int \<times> kernel" where
  "gdt_alloc_desc s =
     (case find (\<lambda>i. gdt_table s ! i = 0) [1..<GDT_TABLE_SIZE] of
        Some i \<Rightarrow> (int i * 8, s\<lparr>gdt_table := (gdt_table s)[i := SEG_P_PRESENT]\<rparr>)
      | None \<Rightarrow> (-1, s))"

section \<open>System file table (file.c)\<close>

definition zero_file :: file_t where
  "zero_file = \<lparr>file_ref = 0, file_data = [], file_pos = 0\<rparr>"

definition file_alloc :: "kernel \<Rightarrow> nat option \<times> kernel" where
  "file_alloc s =
     (case find (\<lambda>i. file_ref (sys_files s ! i) = 0) [0..<length (sys_files s)] of
        Some i \<Rightarrow> (Some i, s\<lparr>sys_files := (sys_files s)[i := zero_file\<lparr>file_ref := 1\<rparr>]\<rparr>)
      | None \<Rightarrow> (None, s))"

definition file_free :: "nat \<Rightarrow> kernel \<Rightarrow> kernel" where
  "file_free i s =
     (if i < length (sys_files s) \<and> file_ref (sys_files s ! i) \<noteq> 0
      then s\<lparr>sys_files := (sys_files s)[i := (sys_files s ! i)\<lparr>file_ref := file_ref (sys_files s ! i) - 1\<rparr>]\<rparr>
      else s)"

definition file_inc_ref :: "nat \<Rightarrow> kernel \<Rightarrow> kernel" where
  "file_inc_ref i s =
     (if i < length (sys_files s)
      then s\<lparr>sys_files := (sys_files s)[i := (sys_files s ! i)\<lparr>file_ref := file_ref (sys_files s ! i) + 1\<rparr>]\<rparr>
      else s)"

section \<open>Creating and releasing tasks (task.c)\<close>

text \<open>
  Modelled from the spec: \<open>klib.c\<close> is missing. \<open>kernel_strncpy\<close> into the 32 bytes of a task
  name leaves a terminated string of at most 31 characters.
\<close>

definition kernel_strncpy :: "string \<Rightarrow> nat \<Rightarrow> string" where
  "kernel_strncpy src sz = take (sz - 1) src"

text \<open>\<open>kernel_memset(task, 0, sizeof(task_t))\<close>; the system call frame lies on the kernel stack, not in the structure.\<close>

definition clear_task :: "task_ref \<Rightarrow> kernel \<Rightarrow> kernel" where
  "clear_task task s = task_upd task (\<lambda>t. zero_task\<lparr>frame := frame t\<rparr>) s"

definition tss_init_failed :: "int \<Rightarrow> u32 \<Rightarrow> kernel \<Rightarrow> int \<times> kernel" where
  "tss_init_failed sel kernel_stack s =
     (let s1 = gdt_free_sel sel s;
          s2 = (if kernel_stack \<noteq> 0 then memory_free_page kernel_stack s1 else s1)
      in (-1, s2))"

definition tss_init :: "task_ref \<Rightarrow> int \<Rightarrow> u32 \<Rightarrow> u32 \<Rightarrow> kernel \<Rightarrow> int \<times> kernel" where
  "tss_init task flag entry sp s =
     (let (sel, s1) = gdt_alloc_desc s in
      if sel < 0 then (-1, s1)
      else (let s2 = segment_desc_set (word_of_int sel) (task_addr s1 task) sizeof_tss_t
                       (SEG_P_PRESENT OR SEG_DPL0 OR SEG_TYPE_TSS) s1;
                s3 = task_upd task (\<lambda>t. t\<lparr>tss := zero_tss\<rparr>) s2;
                (kernel_stack, s4) = memory_alloc_page s3
            in if kernel_stack = 0 then tss_init_failed sel kernel_stack s4
               else (let code_sel = (if flag mod 2 = 1 then KERNEL_SELECTOR_CS OR SEG_CPL0
                                     else word_of_int (app_code_sel s4) OR SEG_CPL3);
                         data_sel = (if flag mod 2 = 1 then KERNEL_SELECTOR_DS OR SEG_CPL0
                                     else word_of_int (app_data_sel s4) OR SEG_CPL3);
                         s5 = task_upd task (\<lambda>t. t\<lparr>tss := (tss t)
                                \<lparr>eip := entry,
                                 esp := (if sp \<noteq> 0 then sp else kernel_stack + MEM_PAGE_SIZE),
                                 esp0 := kernel_stack + MEM_PAGE_SIZE,
                                 ss0 := KERNEL_SELECTOR_DS,
                                 eflags := EFLAGS_DEFAULT OR EFLAGS_IF,
                                 cs := code_sel, es := data_sel, ss := data_sel, ds := data_sel,
                                 fs := data_sel, gs := data_sel, iomap := 0\<rparr>\<rparr>) s4;
                         (page_dir, s6) = memory_create_uvm s5
                     in if page_dir = 0 then tss_init_failed sel kernel_stack s6
                        else (0, task_upd task (\<lambda>t. t\<lparr>tss := (tss t)\<lparr>cr3 := page_dir\<rparr>,
                                                     tss_sel := word_of_int sel\<rparr>) s6))))"

definition task_init :: "task_ref \<Rightarrow> string \<Rightarrow> int \<Rightarrow> u32 \<Rightarrow> u32 \<Rightarrow> kernel \<Rightarrow> int \<times> kernel" where
  "task_init task nm flag entry sp s =
     (let (err, s1) = tss_init task flag entry sp s in
      if err < 0 then (err, s1)
      else (let s2 = task_upd task (\<lambda>t. t\<lparr>name := kernel_strncpy nm TASK_NAME_SIZE,
                        state := TASK_CREATED, sleep_ticks := 0,
                        time_slice := TASK_TIME_SLICE_DEFAULT,
                        slice_ticks := TASK_TIME_SLICE_DEFAULT,
                        parent := None, heap_start := 0, heap_end := 0,
                        file_table := (\<lambda>_. None),
                        pid := sint (task_addr s1 task)\<rparr>) s1
            in (0, s2\<lparr>task_list := list_insert_last (task_list s2) task\<rparr>)))"

definition task_start :: "task_ref \<Rightarrow> kernel \<Rightarrow> kernel" where
  "task_start task s = task_set_ready task s"

definition task_uninit :: "task_ref \<Rightarrow> kernel \<Rightarrow> kernel" where
  "task_uninit task s =
     (let s1 = (if tss_sel (task_tab s task) \<noteq> 0
                then gdt_free_sel (uint (tss_sel (task_tab s task))) s else s);
          s2 = (if esp0 (tss (task_tab s1 task)) \<noteq> 0
                then memory_free_page (esp0 (tss (task_tab s1 task)) - MEM_PAGE_SIZE) s1 else s1);
          s3 = (if cr3 (tss (task_tab s2 task)) \<noteq> 0
                then memory_destroy_uvm (cr3 (tss (task_tab s2 task))) s2 else s2)
      in clear_task task s3)"

text \<open>
  \<open>task_table_mutex\<close> is taken and released around the scans of the table; no call of them
  is interrupted by another here, so the mutex is free when they start and when they end.
\<close>

definition alloc_task :: "kernel \<Rightarrow> task_ref option" where
  "alloc_task s =
     map_option Table_task (find (\<lambda>i. name (task_tab s (Table_task i)) = []) [0..<TASK_NR])"

definition free_task :: "task_ref \<Rightarrow> kernel \<Rightarrow> kernel" where
  "free_task task s = task_upd task (\<lambda>t. t\<lparr>name := []\<rparr>) s"

definition copy_opened_files :: "task_ref \<Rightarrow> task_ref \<Rightarrow> kernel \<Rightarrow> kernel" where
  "copy_opened_files parent_task child_task s =
     fold (\<lambda>i s1. case file_table (task_tab s1 parent_task) i of
                     None \<Rightarrow> s1
                   | Some file \<Rightarrow>
                       task_upd child_task
                         (\<lambda>t. t\<lparr>file_table := (file_table t)(i := Some file)\<rparr>)
                         (file_inc_ref file s1))
       [0..<TASK_OFILE_NR] s"

text \<open>
  \<open>sys_fork\<close>. The value of \<open>memory_copy_uvm\<close>, a \<open>uint32_t\<close>, is stored in \<open>tss.cr3\<close>, a
  \<open>uint32_t\<close>, and that is what the code compares with 0: the comparison is one of words.
\<close>

definition fork_failed :: "task_ref option \<Rightarrow> kernel \<Rightarrow> int \<times> kernel" where
  "fork_failed child_task s =
     (case child_task of
        None \<Rightarrow> (-1, s)
      | Some c \<Rightarrow> (-1, free_task c (task_uninit c s)))"

definition sys_fork :: "kernel \<Rightarrow> int \<times> kernel" where
  "sys_fork s =
     (case task_current s of
        None \<Rightarrow> (-1, s)
      | Some parent_task \<Rightarrow>
          (case alloc_task s of
             None \<Rightarrow> fork_failed None s
           | Some child_task \<Rightarrow>
               (let fr = frame (task_tab s parent_task);
                    (err, s1) = task_init child_task (name (task_tab s parent_task)) 0 (f_eip fr)
                                  (f_esp fr + 4 * SYSCALL_PARAM_COUNT) s
                in if err < 0 then fork_failed (Some child_task) s1
                   else (let s2 = copy_opened_files parent_task child_task s1;
                             s3 = task_upd child_task (\<lambda>t. t\<lparr>tss := (tss t)
                                    \<lparr>eax := 0, ebx := f_ebx fr, ecx := f_ecx fr, edx := f_edx fr,
                                     esi := f_esi fr, edi := f_edi fr, ebp := f_ebp fr,
                                     cs := f_cs fr, ds := f_ds fr, es := f_es fr, fs := f_fs fr,
                                     gs := f_gs fr, eflags := f_eflags fr\<rparr>,
                                    parent := Some parent_task\<rparr>) s2;
                             (dir, s4) = memory_copy_uvm (cr3 (tss (task_tab s3 parent_task))) s3;
                             s5 = task_upd child_task (\<lambda>t. t\<lparr>tss := (tss t)\<lparr>cr3 := dir\<rparr>\<rparr>) s4
                         in if cr3 (tss (task_tab s5 child_task)) < 0
                            then fork_failed (Some child_task) s5
                            else (let s6 = task_start child_task s5
                                  in (pid (task_tab s6 child_task), s6))))))"

text \<open>
  \<open>sys_wait\<close>: one pass of its endless loop. Either a zombie child is found and reaped, and
  the call returns its pid and stores its status, or the caller is blocked in state Waiting
  and another task is dispatched; the loop starts again when the caller runs again.
\<close>

datatype wait_result = Reaped int int | Waiting

definition sys_wait :: "kernel \<Rightarrow> wait_result \<times> kernel" where
  "sys_wait s =
     (case task_current s of
        None \<Rightarrow> (Waiting, s)
      | Some cur \<Rightarrow>
          (case find (\<lambda>i. parent (task_tab s (Table_task i)) = Some cur \<and>
                         state (task_tab s (Table_task i)) = TASK_ZOMBIE) [0..<TASK_NR] of
             Some i \<Rightarrow>
               (let task = Table_task i;
                    s1 = memory_destroy_uvm (cr3 (tss (task_tab s task))) s;
                    s2 = memory_free_page (esp0 (tss (task_tab s1 task)) - MEM_PAGE_SIZE) s1
                in (Reaped (pid (task_tab s task)) (status (task_tab s task)),
                    clear_task task s2))
           | None \<Rightarrow>
               (let s1 = task_set_block cur s;
                    s2 = task_upd cur (\<lambda>t. t\<lparr>state := TASK_WAITING\<rparr>) s1
                in (Waiting, task_dispatch s2))))"


section \<open>Descriptors of the current task (task.c)\<close>

definition task_file :: "int \<Rightarrow> kernel \<Rightarrow> nat option" where
  "task_file fd s =
     (if 0 \<le> fd \<and> fd < int TASK_OFILE_NR
      then (case task_current s of
              None \<Rightarrow> None
            | Some cur \<Rightarrow> file_table (task_tab s cur) (nat fd))
      else None)"

definition task_alloc_fd :: "nat \<Rightarrow> kernel \<Rightarrow> int \<times> kernel" where
  "task_alloc_fd file s =
     (case task_current s of
        None \<Rightarrow> (-1, s)
      | Some cur \<Rightarrow>
          (case find (\<lambda>i. file_table (task_tab s cur) i = None) [0..<TASK_OFILE_NR] of
             Some i \<Rightarrow> (int i, task_upd cur
                                  (\<lambda>t. t\<lparr>file_table := (file_table t)(i := Some file)\<rparr>) s)
           | None \<Rightarrow> (-1, s)))"

definition task_remove_fd :: "int \<Rightarrow> kernel \<Rightarrow> kernel" where
  "task_remove_fd fd s =
     (if 0 \<le> fd \<and> fd < int TASK_OFILE_NR
      then (case task_current s of
              None \<Rightarrow> s
            | Some cur \<Rightarrow> task_upd cur
                            (\<lambda>t. t\<lparr>file_table := (file_table t)(nat fd := None)\<rparr>) s)
      else s)"

section \<open>The file system calls the loader uses\<close>

text \<open>
  Modelled from the spec: \<open>fs.c\<close> is missing, and the specification gives the file system
  only as the \<open>open\<close>, \<open>read\<close>, \<open>lseek\<close> and \<open>close\<close> contract the image loader requires. A
  file is its bytes. \<open>sys_open\<close> fails with -1 for a name that is not on the disk, when the
  system file table is full and when the task has no free descriptor; else it gives the
  lowest free descriptor, positioned at 0. \<open>sys_read\<close> delivers the bytes that follow the
  position, at most \<open>len\<close> of them, returns their number and advances the position;
  \<open>sys_lseek\<close> sets the position; both fail with -1 on a descriptor that is not open.
  \<open>sys_close\<close> releases the descriptor and its entry of the system file table.
\<close>

definition sys_open :: "string \<Rightarrow> kernel \<Rightarrow> int \<times> kernel" where
  "sys_open fname s =
     (case disk s fname of
        None \<Rightarrow> (-1, s)
      | Some bytes \<Rightarrow>
          (case file_alloc s of
             (None, s1) \<Rightarrow> (-1, s1)
           | (Some file, s1) \<Rightarrow>
               (let (fd, s2) = task_alloc_fd file s1 in
                if fd < 0 then (-1, file_free file s2)
                else (fd, s2\<lparr>sys_files :=
                            (sys_files s2)[file := (sys_files s2 ! file)\<lparr>file_data := bytes\<rparr>]\<rparr>))))"

definition sys_read :: "int \<Rightarrow> nat \<Rightarrow> kernel \<Rightarrow> int \<times> u8 list \<times> kernel" where
  "sys_read fd len s =
     (case task_file fd s of
        None \<Rightarrow> (-1, [], s)
      | Some file \<Rightarrow>
          (let f = sys_files s ! file;
               bytes = take len (drop (file_pos f) (file_data f))
           in (int (length bytes), bytes,
               s\<lparr>sys_files := (sys_files s)[file := f\<lparr>file_pos := file_pos f + length bytes\<rparr>]\<rparr>)))"

definition sys_lseek :: "int \<Rightarrow> u32 \<Rightarrow> kernel \<Rightarrow> int \<times> kernel" where
  "sys_lseek fd offset s =
     (case task_file fd s of
        None \<Rightarrow> (-1, s)
      | Some file \<Rightarrow>
          (0, s\<lparr>sys_files := (sys_files s)[file := (sys_files s ! file)\<lparr>file_pos := unat offset\<rparr>]\<rparr>))"

definition sys_close :: "int \<Rightarrow> kernel \<Rightarrow> int \<times> kernel" where
  "sys_close fd s =
     (case task_file fd s of
        None \<Rightarrow> (-1, s)
      | Some file \<Rightarrow> (0, task_remove_fd fd (file_free file s)))"

section \<open>Bytes in physical memory\<close>

text \<open>
  \<open>pmem\<close> holds 32-bit words at the addresses that are multiples of 4. A byte written by
  \<open>kernel_memcpy\<close> or by \<open>sys_read\<close> replaces one byte lane of its word (little endian).
\<close>

definition store_byte :: "u32 \<Rightarrow> u8 \<Rightarrow> (u32 \<Rightarrow> u32) \<Rightarrow> (u32 \<Rightarrow> u32)" where
  "store_byte a b m =
     (let w = a AND NOT 3;
          sh = 8 * unat (a AND 3)
      in m(w := (m w AND NOT (push_bit sh 0xFF)) OR push_bit sh (ucast b)))"

definition store_bytes :: "u32 \<Rightarrow> u8 list \<Rightarrow> (u32 \<Rightarrow> u32) \<Rightarrow> (u32 \<Rightarrow> u32)" where
  "store_bytes a bs m =
     fold (\<lambda>i m1. store_byte (a + of_nat i) (bs ! i) m1) [0..<length bs] m"

definition word_bytes :: "u32 \<Rightarrow> u8 list" where
  "word_bytes w = [ucast w, ucast (drop_bit 8 w), ucast (drop_bit 16 w), ucast (drop_bit 24 w)]"

section \<open>ELF headers (elf.h)\<close>

definition ELF_MAGIC :: u8 where "ELF_MAGIC = 0x7F"
definition ET_EXEC :: u16 where "ET_EXEC = 2"
definition ET_386 :: u16 where "ET_386 = 3"
definition PT_LOAD :: u32 where "PT_LOAD = 1"
definition sizeof_Elf32_Ehdr :: nat where "sizeof_Elf32_Ehdr = 52"
definition sizeof_Elf32_Phdr :: nat where "sizeof_Elf32_Phdr = 32"

record Elf32_Ehdr =
  e_ident :: "u8 list"
  e_type :: u16
  e_machine :: u16
  e_version :: u32
  e_entry :: u32
  e_phoff :: u32
  e_shoff :: u32
  e_flags :: u32
  e_ehsize :: u16
  e_phentsize :: u16
  e_phnum :: u16
  e_shentsize :: u16
  e_shnum :: u16
  e_shstrndx :: u16

record Elf32_Phdr =
  p_type :: u32
  p_offset :: u32
  p_vaddr :: u32
  p_paddr :: u32
  p_filesz :: u32
  p_memsz :: u32
  p_flags :: u32
  p_align :: u32

text \<open>
  The structures are packed (\<open>#pragma pack(1)\<close>) and the machine is little endian: a field
  is the bytes at its offset. \<open>sys_read\<close> fills the structure from its first byte; bytes it
  did not deliver are those of an uninitialised local variable, and the model leaves them
  unspecified (an index beyond the list).
\<close>

definition le16 :: "u8 list \<Rightarrow> nat \<Rightarrow> u16" where
  "le16 bs i = ucast (bs ! i) OR push_bit 8 (ucast (bs ! (i + 1)))"

definition le32 :: "u8 list \<Rightarrow> nat \<Rightarrow> u32" where
  "le32 bs i = ucast (bs ! i) OR push_bit 8 (ucast (bs ! (i + 1)))
                 OR push_bit 16 (ucast (bs ! (i + 2))) OR push_bit 24 (ucast (bs ! (i + 3)))"

definition read_ehdr :: "u8 list \<Rightarrow> Elf32_Ehdr" where
  "read_ehdr bs =
     \<lparr>e_ident = map (\<lambda>i. bs ! i) [0..<16],
      e_type = le16 bs 16, e_machine = le16 bs 18, e_version = le32 bs 20,
      e_entry = le32 bs 24, e_phoff = le32 bs 28, e_shoff = le32 bs 32, e_flags = le32 bs 36,
      e_ehsize = le16 bs 40, e_phentsize = le16 bs 42, e_phnum = le16 bs 44,
      e_shentsize = le16 bs 46, e_shnum = le16 bs 48, e_shstrndx = le16 bs 50\<rparr>"

definition read_phdr :: "u8 list \<Rightarrow> Elf32_Phdr" where
  "read_phdr bs =
     \<lparr>p_type = le32 bs 0, p_offset = le32 bs 4, p_vaddr = le32 bs 8, p_paddr = le32 bs 12,
      p_filesz = le32 bs 16, p_memsz = le32 bs 20, p_flags = le32 bs 24, p_align = le32 bs 28\<rparr>"

section \<open>Loading an image (task.c)\<close>

text \<open>
  The read loop of \<open>load_phdr\<close>: \<open>size\<close> is a \<open>uint32_t\<close>, \<open>curr_size\<close> an \<open>int\<close> between 1 and the
  page size. The bytes read go to the physical page behind \<open>vaddr\<close> in the new directory.
\<close>

function load_phdr_read :: "int \<Rightarrow> u32 \<Rightarrow> u32 \<Rightarrow> u32 \<Rightarrow> kernel \<Rightarrow> int \<times> kernel" where
  "load_phdr_read file page_dir vaddr sz s =
     (if sz = 0 then (0, s)
      else (let curr_size = (if sz > MEM_PAGE_SIZE then MEM_PAGE_SIZE else sz);
                paddr = memory_get_paddr page_dir vaddr s;
                (cnt, bytes, s1) = sys_read file (unat curr_size) s;
                s2 = s1\<lparr>pmem := store_bytes paddr bytes (pmem s1)\<rparr>
            in if cnt < uint curr_size then (-1, s2)
               else load_phdr_read file page_dir (vaddr + curr_size) (sz - curr_size) s2))"
  by pat_completeness auto

termination
proof (relation "measure (\<lambda>(file, page_dir, vaddr, sz, s). unat sz)", goal_cases)
  case 1
  show ?case by simp
next
  case (2 fd page_dir vaddr sz s curr_size paddr x y s1 z s2)
  have "unat (sz - (if sz > MEM_PAGE_SIZE then MEM_PAGE_SIZE else sz)) < unat sz"
  proof (cases "sz > MEM_PAGE_SIZE")
    case True
    then have "unat (sz - MEM_PAGE_SIZE) = unat sz - unat MEM_PAGE_SIZE"
      by (simp add: unat_sub)
    moreover from True have "unat MEM_PAGE_SIZE < unat sz" by (simp add: word_less_nat_alt)
    ultimately show ?thesis using True by (simp add: MEM_PAGE_SIZE_def)
  next
    case False
    then show ?thesis using 2(1) by (simp add: unat_gt_0)
  qed
  then show ?case using 2 by simp
qed

text \<open>
  \<open>load_phdr\<close>. \<open>memory_alloc_for_page_dir\<close> returns a \<open>uint32_t\<close> that is stored in an \<open>int\<close>.
  The assertion on the alignment of \<open>p_vaddr\<close> is not checked.
\<close>

definition load_phdr :: "int \<Rightarrow> Elf32_Phdr \<Rightarrow> u32 \<Rightarrow> kernel \<Rightarrow> int \<times> kernel" where
  "load_phdr file phdr page_dir s =
     (let (err, s1) = memory_alloc_for_page_dir page_dir (p_vaddr phdr) (p_memsz phdr)
                        (PTE_P OR PTE_U OR PTE_W) s
      in if sint err < 0 then (-1, s1)
         else (let (r, s2) = sys_lseek file (p_offset phdr) s1
               in if r < 0 then (-1, s2)
                  else load_phdr_read file page_dir (p_vaddr phdr) (p_filesz phdr) s2))"

text \<open>
  The loop of \<open>load_elf_file\<close> over the \<open>e_phnum\<close> program headers; \<open>n\<close> counts those still to
  read. \<open>cnt\<close> is an \<open>int\<close> and \<open>sizeof\<close> is unsigned, so they are compared as unsigned words.
  False is \<open>goto load_failed\<close>.
\<close>

fun load_phdrs :: "nat \<Rightarrow> int \<Rightarrow> Elf32_Ehdr \<Rightarrow> u32 \<Rightarrow> task_ref \<Rightarrow> u32 \<Rightarrow> kernel \<Rightarrow> bool \<times> kernel" where
  "load_phdrs 0 file elf_hdr phoff task page_dir s = (True, s)"
| "load_phdrs (Suc n) file elf_hdr phoff task page_dir s =
     (let (r, s1) = sys_lseek file phoff s in
      if r < 0 then (False, s1)
      else (let (cnt, bytes, s2) = sys_read file sizeof_Elf32_Phdr s1 in
            if (word_of_int cnt :: u32) < of_nat sizeof_Elf32_Phdr then (False, s2)
            else (let elf_phdr = read_phdr bytes;
                      phoff1 = phoff + ucast (e_phentsize elf_hdr)
                  in if p_type elf_phdr \<noteq> PT_LOAD \<or> p_vaddr elf_phdr < MEMORY_TASK_BASE
                     then load_phdrs n file elf_hdr phoff1 task page_dir s2
                     else (let (err, s3) = load_phdr file elf_phdr page_dir s2 in
                           if err < 0 then (False, s3)
                           else load_phdrs n file elf_hdr phoff1 task page_dir
                                  (task_upd task
                                     (\<lambda>t. t\<lparr>heap_start := p_vaddr elf_phdr + p_memsz elf_phdr,
                                             heap_end := p_vaddr elf_phdr + p_memsz elf_phdr\<rparr>)
                                     s3)))))"

definition load_failed :: "int \<Rightarrow> kernel \<Rightarrow> u32 \<times> kernel" where
  "load_failed file s = (if file \<ge> 0 then (0, snd (sys_close file s)) else (0, s))"

definition load_elf_file :: "task_ref \<Rightarrow> string \<Rightarrow> u32 \<Rightarrow> kernel \<Rightarrow> u32 \<times> kernel" where
  "load_elf_file task fname page_dir s =
     (let (file, s1) = sys_open fname s in
      if file < 0 then load_failed file s1
      else (let (cnt, bytes, s2) = sys_read file sizeof_Elf32_Ehdr s1;
                elf_hdr = read_ehdr bytes
            in if (word_of_int cnt :: u32) < of_nat sizeof_Elf32_Ehdr then load_failed file s2
               else if e_ident elf_hdr ! 0 \<noteq> ELF_MAGIC \<or> e_ident elf_hdr ! 1 \<noteq> 0x45
                       \<or> e_ident elf_hdr ! 2 \<noteq> 0x4C \<or> e_ident elf_hdr ! 3 \<noteq> 0x46
               then load_failed file s2
               else if e_type elf_hdr \<noteq> ET_EXEC \<or> e_machine elf_hdr \<noteq> ET_386
                       \<or> e_entry elf_hdr = 0
               then load_failed file s2
               else if e_phentsize elf_hdr = 0 \<or> e_phoff elf_hdr = 0
               then load_failed file s2
               else (case load_phdrs (unat (e_phnum elf_hdr)) file elf_hdr (e_phoff elf_hdr)
                            task page_dir s2 of
                       (False, s3) \<Rightarrow> load_failed file s3
                     | (True, s3) \<Rightarrow> (e_entry elf_hdr, snd (sys_close file s3)))))"

section \<open>Replacing the image: execve (task.c, memory.c)\<close>

text \<open>
  \<open>memory_copy_uvm_data\<close> copies \<open>size\<close> bytes into the address space of \<open>page_dir\<close>, page by
  page. The source lies in the address space in use; the model is given its bytes.
\<close>

function memory_copy_uvm_data :: "u32 \<Rightarrow> u32 \<Rightarrow> u8 list \<Rightarrow> u32 \<Rightarrow> kernel \<Rightarrow> int \<times> kernel" where
  "memory_copy_uvm_data dest page_dir src sz s =
     (if sz = 0 then (0, s)
      else (let to_paddr = memory_get_paddr page_dir dest s in
            if to_paddr = 0 then (-1, s)
            else (let offset_in_page = to_paddr AND (MEM_PAGE_SIZE - 1);
                      curr_size = (if MEM_PAGE_SIZE - offset_in_page > sz then sz
                                   else MEM_PAGE_SIZE - offset_in_page);
                      s1 = s\<lparr>pmem := store_bytes to_paddr (take (unat curr_size) src) (pmem s)\<rparr>
                  in memory_copy_uvm_data (dest + curr_size) page_dir
                       (drop (unat curr_size) src) (sz - curr_size) s1)))"
  by pat_completeness auto

termination
proof (relation "measure (\<lambda>(dest, page_dir, src, sz, s). unat sz)", goal_cases)
  case 1
  show ?case by simp
next
  case (2 dest page_dir src sz s to_paddr offset_in_page curr_size s1)
  have le: "to_paddr AND 0xFFF \<le> 0xFFF" by (rule word_and_le1)
  then have u: "unat (to_paddr AND 0xFFF) \<le> 0xFFF" by (simp add: word_le_nat_alt)
  have r: "unat (0x1000 - (to_paddr AND 0xFFF)) = 0x1000 - unat (to_paddr AND 0xFFF)"
    using u by (subst unat_sub) (simp_all add: word_le_nat_alt)
  have pos: "0 < unat (0x1000 - (to_paddr AND 0xFFF))" using u r by simp
  have "unat (sz - curr_size) < unat sz"
  proof (cases "MEM_PAGE_SIZE - offset_in_page > sz")
    case True
    then show ?thesis using 2 by (simp add: unat_gt_0)
  next
    case False
    then have c: "curr_size = 0x1000 - (to_paddr AND 0xFFF)" and l: "curr_size \<le> sz"
      using 2 by (simp_all add: MEM_PAGE_SIZE_def)
    from l have "unat (sz - curr_size) = unat sz - unat curr_size" by (simp add: unat_sub)
    moreover from l have "unat curr_size \<le> unat sz" by (simp add: word_le_nat_alt)
    ultimately show ?thesis using pos c by simp
  qed
  then show ?case by simp
qed

text \<open>
  Modelled from the spec: \<open>klib.c\<close> and \<open>memory.h\<close> are missing. \<open>get_file_name\<close> is the part
  of a path after its last separator, \<open>strings_count\<close> the number of entries of an argument
  vector, and \<open>kernel_strlen\<close> the length of a string. The user stack ends at a fixed high
  address, with a reserved argument area just below it.
\<close>

definition get_file_name :: "string \<Rightarrow> string" where
  "get_file_name path = rev (takeWhile (\<lambda>c. c \<noteq> CHR ''/'' \<and> c \<noteq> CHR 0x5C) (rev path))"

definition strings_count :: "string list \<Rightarrow> int" where
  "strings_count argv = int (length argv)"

definition kernel_strlen :: "string \<Rightarrow> int" where
  "kernel_strlen str = int (length str)"

definition MEM_TASK_STACK_TOP :: u32 where "MEM_TASK_STACK_TOP = 0xE0000000"
definition MEM_TASK_STACK_SIZE :: u32 where "MEM_TASK_STACK_SIZE = MEM_PAGE_SIZE * 500"
definition MEM_TASK_ARG_SIZE :: u32 where "MEM_TASK_ARG_SIZE = MEM_PAGE_SIZE * 4"

text \<open>
  \<open>copy_args\<close>. The argument strings are given as values; each is copied with its
  terminator. \<open>task_args_t\<close> has three words, of which \<open>ret_addr\<close> is never set: the model
  writes 0 there. The table of pointers is written through the physical address of its
  first entry. The assertions are not checked.
\<close>

definition sizeof_task_args_t :: u32 where "sizeof_task_args_t = 12"

definition string_bytes :: "string \<Rightarrow> u8 list" where
  "string_bytes str = map of_char str @ [0]"

definition copy_arg :: "u32 \<Rightarrow> u32 \<Rightarrow> string list \<Rightarrow> nat \<Rightarrow> u32 \<times> kernel \<Rightarrow> u32 \<times> kernel" where
  "copy_arg page_dir dest_argv_tb argv i acc =
     (let (dest_arg, s) = acc;
          src = argv ! i;
          len = kernel_strlen src + 1;
          (err, s1) = memory_copy_uvm_data dest_arg page_dir (string_bytes src) (word_of_int len) s;
          s2 = s1\<lparr>pmem := store_bytes (dest_argv_tb + 4 * of_nat i) (word_bytes dest_arg) (pmem s1)\<rparr>
      in (dest_arg + word_of_int len, s2))"

definition copy_args :: "u32 \<Rightarrow> u32 \<Rightarrow> int \<Rightarrow> string list \<Rightarrow> kernel \<Rightarrow> int \<times> kernel" where
  "copy_args dest page_dir argc argv s =
     (let args_argv = dest + sizeof_task_args_t;
          dest_arg0 = dest + sizeof_task_args_t + 4 * (word_of_int argc + 1);
          dest_argv_tb = memory_get_paddr page_dir (dest + sizeof_task_args_t) s;
          (dest_arg, s1) = fold (copy_arg page_dir dest_argv_tb argv) [0..<nat argc] (dest_arg0, s);
          s2 = (if argc \<noteq> 0
                then s1\<lparr>pmem := store_bytes (dest_argv_tb + 4 * word_of_int argc) (word_bytes 0)
                                   (pmem s1)\<rparr>
                else s1)
      in memory_copy_uvm_data dest page_dir
           (word_bytes 0 @ word_bytes (word_of_int argc) @ word_bytes args_argv)
           sizeof_task_args_t s2)"

definition exec_failed :: "task_ref \<Rightarrow> u32 \<Rightarrow> u32 \<Rightarrow> kernel \<Rightarrow> int \<times> kernel" where
  "exec_failed task old_page_dir new_page_dir s =
     (if new_page_dir \<noteq> 0
      then (-1, memory_destroy_uvm new_page_dir
                  (mmu_set_page_dir old_page_dir
                     (task_upd task (\<lambda>t. t\<lparr>tss := (tss t)\<lparr>cr3 := old_page_dir\<rparr>\<rparr>) s)))
      else (-1, s))"

text \<open>
  \<open>sys_execve\<close>. The name and the argument vector are the strings its pointers denote in the
  caller's address space; \<open>env\<close> is not used.
\<close>

definition sys_execve :: "string \<Rightarrow> string list \<Rightarrow> string list \<Rightarrow> kernel \<Rightarrow> int \<times> kernel" where
  "sys_execve fname argv env s =
     (case task_current s of
        None \<Rightarrow> (-1, s)
      | Some task \<Rightarrow>
          (let s0 = task_upd task
                      (\<lambda>t. t\<lparr>name := kernel_strncpy (get_file_name fname) TASK_NAME_SIZE\<rparr>) s;
               old_page_dir = cr3 (tss (task_tab s0 task));
               (new_page_dir, s1) = memory_create_uvm s0
           in if new_page_dir = 0 then exec_failed task old_page_dir new_page_dir s1
              else (let (entry, s2) = load_elf_file task fname new_page_dir s1 in
                    if entry = 0 then exec_failed task old_page_dir new_page_dir s2
                    else (let stack_top = MEM_TASK_STACK_TOP - MEM_TASK_ARG_SIZE;
                              (err, s3) = memory_alloc_for_page_dir new_page_dir
                                            (MEM_TASK_STACK_TOP - MEM_TASK_STACK_SIZE)
                                            MEM_TASK_STACK_SIZE (PTE_P OR PTE_U OR PTE_W) s2
                          in if sint err < 0 then exec_failed task old_page_dir new_page_dir s3
                             else (let argc = strings_count argv;
                                       (err1, s4) = copy_args stack_top new_page_dir argc argv s3
                                   in if err1 < 0
                                      then exec_failed task old_page_dir new_page_dir s4
                                      else (let s5 = task_upd task
                                                  (\<lambda>t. t\<lparr>frame := (frame t)
                                                     \<lparr>f_eip := entry, f_eax := 0, f_ebx := 0,
                                                      f_ecx := 0, f_edx := 0, f_esi := 0,
                                                      f_edi := 0, f_ebp := 0,
                                                      f_eflags := EFLAGS_DEFAULT OR EFLAGS_IF,
                                                      f_esp := stack_top - 4 * SYSCALL_PARAM_COUNT\<rparr>,
                                                    tss := (tss t)\<lparr>cr3 := new_page_dir\<rparr>\<rparr>) s4;
                                                s6 = mmu_set_page_dir new_page_dir s5;
                                                s7 = memory_destroy_uvm old_page_dir s6
                                            in (0, s7)))))))"

section \<open>A small machine for the closed examples\<close>

text \<open>
  Two user tasks and the idle task: the first task runs and has forked the task in slot 0 of
  the table, which waits behind it in the ready queue. Sixteen pages of physical memory
  from 1 MiB, the first six of them in use.
\<close>

definition demo_task :: "string \<Rightarrow> task_state \<Rightarrow> u32 \<Rightarrow> u32 \<Rightarrow> u16 \<Rightarrow> task_t" where
  "demo_task n st stack dir sel =
     zero_task\<lparr>state := st, name := n, time_slice := 10, slice_ticks := 10,
       heap_start := 0x80004000, heap_end := 0x80004000,
       tss := zero_tss\<lparr>esp0 := stack + 0x1000, cr3 := dir\<rparr>, tss_sel := sel\<rparr>"

definition demo_addr :: "task_ref \<Rightarrow> u32" where
  "demo_addr t = (case t of First_task \<Rightarrow> 0x20000 | Idle_task \<Rightarrow> 0x20400
                  | Table_task i \<Rightarrow> 0x30000 + 0x400 * of_nat i)"

definition demo_kernel :: kernel where
  "demo_kernel =
     \<lparr>curr_task = Some First_task,
      ready_list = [First_task, Table_task 0],
      task_list = [Idle_task, First_task, Table_task 0],
      sleep_list = [],
      task_tab = (\<lambda>_. zero_task)
        (Idle_task := demo_task ''idle task'' TASK_CREATED 0x100000 0x101000 0x30,
         First_task := (demo_task ''first task'' TASK_RUNNING 0x102000 0x103000 0x38)
                         \<lparr>pid := 0x20000\<rparr>,
         Table_task 0 := (demo_task ''first task'' TASK_READY 0x104000 0x105000 0x40)
                         \<lparr>pid := 0x30000, parent := Some First_task\<rparr>),
      task_addr = demo_addr,
      app_code_sel = 0x28,
      app_data_sel = 0x20,
      gdt_table = replicate 9 0x80 @ replicate 247 0,
      paddr_alloc = \<lparr>alloc_start = 0x100000, alloc_size = 0x10000, page_size = 0x1000,
                      bitmap = replicate 6 True @ replicate 10 False\<rparr>,
      pmem = (\<lambda>_. 0),
      kernel_page_dir = 0x10000,
      cr3_reg = 0x103000,
      sys_files = [],
      disk = (\<lambda>_. None)\<rparr>"

text \<open>The same machine with every physical page in use.\<close>

definition full_memory_kernel :: kernel where
  "full_memory_kernel =
     demo_kernel\<lparr>paddr_alloc := (paddr_alloc demo_kernel)\<lparr>bitmap := replicate 16 True\<rparr>\<rparr>"

text \<open>The same machine with two free pages left, the last two.\<close>

definition fork_kernel :: kernel where
  "fork_kernel =
     demo_kernel\<lparr>paddr_alloc := (paddr_alloc demo_kernel)
       \<lparr>bitmap := replicate 14 True @ [False, False]\<rparr>\<rparr>"

text \<open>
  The task in slot 0 has exited with status 7 and is a zombie; its parent, the first task,
  runs.
\<close>

definition zombie_kernel :: kernel where
  "zombie_kernel =
     demo_kernel\<lparr>ready_list := [First_task],
       task_tab := (task_tab demo_kernel)
         (Table_task 0 := (task_tab demo_kernel (Table_task 0))
                            \<lparr>state := TASK_ZOMBIE, status := 7\<rparr>)\<rparr>"


text \<open>
  An image with a complete header and no program header at all: type 2, machine 3, entry
  \<open>0x80000000\<close>, \<open>e_phoff = 52\<close>, \<open>e_phentsize = 32\<close>, \<open>e_phnum = 0\<close>.
\<close>

definition elf_no_segments :: "u8 list" where
  "elf_no_segments =
     [0x7F, 0x45, 0x4C, 0x46, 1, 1, 1, 0, 0, 0, 0, 0, 0, 0, 0, 0,
      2, 0, 3, 0, 1, 0, 0, 0, 0, 0, 0, 0x80, 52, 0, 0, 0, 0, 0, 0, 0, 0, 0, 0, 0,
      52, 0, 32, 0, 0, 0, 40, 0, 0, 0, 0, 0]"

text \<open>
  An image with the same header but \<open>e_phnum = 1\<close>, followed by its one program header, of
  type 4 (a note, not \<open>PT_LOAD\<close>).
\<close>

definition elf_note_header :: "u8 list" where
  "elf_note_header =
     [0x7F, 0x45, 0x4C, 0x46, 1, 1, 1, 0, 0, 0, 0, 0, 0, 0, 0, 0,
      2, 0, 3, 0, 1, 0, 0, 0, 0, 0, 0, 0x80, 52, 0, 0, 0, 0, 0, 0, 0, 0, 0, 0, 0,
      52, 0, 32, 0, 1, 0, 40, 0, 0, 0, 0, 0]"

definition elf_note_phdr :: "u8 list" where
  "elf_note_phdr =
     [4, 0, 0, 0, 0, 0, 0, 0, 0, 0, 0, 0, 0, 0, 0, 0,
      0, 0, 0, 0, 0, 0, 0, 0, 0, 0, 0, 0, 0, 0, 0, 0]"

definition elf_note_only :: "u8 list" where
  "elf_note_only = elf_note_header @ elf_note_phdr"

text \<open>A complete header for another machine: \<open>e_machine = 62\<close>.\<close>

definition elf_wrong_machine :: "u8 list" where
  "elf_wrong_machine =
     [0x7F, 0x45, 0x4C, 0x46, 1, 1, 1, 0, 0, 0, 0, 0, 0, 0, 0, 0,
      2, 0, 62, 0, 1, 0, 0, 0, 0, 0, 0, 0x80, 52, 0, 0, 0, 0, 0, 0, 0, 0, 0, 0, 0,
      52, 0, 32, 0, 0, 0, 40, 0, 0, 0, 0, 0]"

text \<open>The machine with these images and a text of five bytes on its disk, and a system file table of two entries.\<close>

definition exec_kernel :: kernel where
  "exec_kernel =
     demo_kernel\<lparr>sys_files := [zero_file, zero_file],
       disk := (\<lambda>_. None)(''empty.elf'' := Some elf_no_segments,
                            ''note.elf'' := Some elf_note_only,
                            ''amd64.elf'' := Some elf_wrong_machine,
                            ''notes.txt'' := Some [0x68, 0x65, 0x6C, 0x6C, 0x6F])\<rparr>"
section \<open>Scheduler invariants\<close>

text \<open>
  The invariant the specification states: a task has state Running exactly when it is the
  current task, and a Running task is not on the ready queue.
\<close>

definition spec_running_invariant :: "kernel \<Rightarrow> bool" where
  "spec_running_invariant s \<longleftrightarrow>
     (\<forall>t. state (task_tab s t) = TASK_RUNNING \<longleftrightarrow> curr_task s = Some t) \<and>
     (\<forall>t. state (task_tab s t) = TASK_RUNNING \<longrightarrow> t \<notin> set (ready_list s))"

text \<open>
  The invariant the code keeps. The ready and sleep queues hold each task at most once and
  share none, the idle task is on neither, the current task is the one \<open>task_next_run\<close>
  selects (the head of the ready queue, where it stays while it runs, or the idle task when
  the queue is empty), and every other task on the ready queue has state Ready.
\<close>

definition sched_ok :: "kernel \<Rightarrow> bool" where
  "sched_ok s \<longleftrightarrow>
     distinct (ready_list s) \<and> Idle_task \<notin> set (ready_list s) \<and>
     distinct (sleep_list s) \<and> set (sleep_list s) \<inter> set (ready_list s) = {} \<and>
     curr_task s = Some (task_next_run s) \<and>
     (\<forall>t \<in> set (ready_list s). Some t \<noteq> curr_task s \<longrightarrow> state (task_tab s t) = TASK_READY)"

text \<open>
  What \<open>task_dispatch\<close> needs to establish \<open>sched_ok\<close>, and the part of it the loop over the
  sleep queue keeps.
\<close>

definition dispatch_pre :: "kernel \<Rightarrow> bool" where
  "dispatch_pre s \<longleftrightarrow>
     distinct (ready_list s) \<and> Idle_task \<notin> set (ready_list s) \<and>
     distinct (sleep_list s) \<and> set (sleep_list s) \<inter> set (ready_list s) = {} \<and>
     (\<forall>t \<in> set (ready_list s). t \<noteq> task_next_run s \<longrightarrow> state (task_tab s t) = TASK_READY)"

definition queues_ok :: "kernel \<Rightarrow> bool" where
  "queues_ok s \<longleftrightarrow>
     distinct (ready_list s) \<and> Idle_task \<notin> set (ready_list s) \<and>
     distinct (sleep_list s) \<and> set (sleep_list s) \<inter> set (ready_list s) = {}"

text \<open>The idle task runs alone while the first task sleeps with one tick left.\<close>

definition tick_kernel :: kernel where
  "tick_kernel =
     demo_kernel\<lparr>curr_task := Some Idle_task, ready_list := [], sleep_list := [First_task],
       task_list := [Idle_task, First_task],
       task_tab := (\<lambda>_. zero_task)
         (Idle_task := demo_task ''idle task'' TASK_RUNNING 0x100000 0x101000 0x30,
          First_task := (demo_task ''first task'' TASK_SLEEP 0x102000 0x103000 0x38)
                          \<lparr>pid := 0x20000, sleep_ticks := 1\<rparr>)\<rparr>"

section \<open>What the memory functions leave alone\<close>

text \<open>\<open>s'\<close> differs from \<open>s\<close> in the page allocator and in physical memory at most.\<close>

definition mem_frame :: "kernel \<Rightarrow> kernel \<Rightarrow> bool" where
  "mem_frame s s' \<longleftrightarrow>
     curr_task s' = curr_task s \<and> ready_list s' = ready_list s \<and>
     sleep_list s' = sleep_list s \<and> task_list s' = task_list s \<and>
     task_tab s' = task_tab s \<and> task_addr s' = task_addr s \<and>
     app_code_sel s' = app_code_sel s \<and> app_data_sel s' = app_data_sel s \<and>
     gdt_table s' = gdt_table s \<and> kernel_page_dir s' = kernel_page_dir s \<and>
     cr3_reg s' = cr3_reg s \<and> sys_files s' = sys_files s \<and> disk s' = disk s"


section \<open>Which images are accepted\<close>

text \<open>
  The program headers of an image, as \<open>load_elf_file\<close> finds them: \<open>e_phnum\<close> entries from
  \<open>e_phoff\<close> on, \<open>e_phentsize\<close> bytes apart.
\<close>

definition elf_program_headers :: "u8 list \<Rightarrow> Elf32_Phdr list" where
  "elf_program_headers bytes =
     (let h = read_ehdr bytes
      in map (\<lambda>i. read_phdr (drop (unat (e_phoff h) + i * unat (e_phentsize h)) bytes))
           [0..<unat (e_phnum h)])"

text \<open>
  The intake condition in the words of the specification: the magic, \<open>e_type = 2\<close>,
  \<open>e_machine = 3\<close>, a non-zero entry, \<open>e_phentsize > 0\<close> and at least one \<open>PT_LOAD\<close> header.
\<close>

definition spec_elf_intake :: "u8 list \<Rightarrow> bool" where
  "spec_elf_intake bytes \<longleftrightarrow>
     (let h = read_ehdr bytes
      in take 4 (e_ident h) = [0x7F, 0x45, 0x4C, 0x46] \<and> e_type h = 2 \<and> e_machine h = 3 \<and>
         e_entry h \<noteq> 0 \<and> e_phentsize h > 0 \<and>
         list_ex (\<lambda>ph. p_type ph = 1) (elf_program_headers bytes))"

text \<open>
  The condition on the header alone: a complete header of 52 bytes with the magic,
  \<open>e_type = 2\<close>, \<open>e_machine = 3\<close>, a non-zero entry, \<open>e_phentsize > 0\<close> and a non-zero \<open>e_phoff\<close>.
\<close>

definition elf_header_accepted :: "u8 list \<Rightarrow> bool" where
  "elf_header_accepted bytes \<longleftrightarrow>
     52 \<le> length bytes \<and>
     (let h = read_ehdr bytes
      in take 4 (e_ident h) = [0x7F, 0x45, 0x4C, 0x46] \<and> e_type h = 2 \<and> e_machine h = 3 \<and>
         e_entry h \<noteq> 0 \<and> e_phentsize h > 0 \<and> e_phoff h \<noteq> 0)"

text \<open>The file of that name is missing or its header is not accepted.\<close>

definition bad_image :: "kernel \<Rightarrow> string \<Rightarrow> bool" where
  "bad_image s fname =
     (case disk s fname of None \<Rightarrow> True | Some bytes \<Rightarrow> \<not> elf_header_accepted bytes)"
section \<open>Tasks sharing a mutex\<close>

text \<open>
  A task that finds the mutex taken is switched away inside \<open>mutex_lock\<close>, after the call of
  \<open>task_dispatch\<close>; the function returns in that task when the task is dispatched again.
  To say when \<open>mutex_lock\<close> returns, a configuration holds the mutex, the kernel and
  \<open>in_lock\<close>, the tasks suspended inside \<open>mutex_lock\<close>. Its steps are the calls the current
  task makes (\<open>mutex_lock\<close>, \<open>mutex_unlock\<close>, \<open>sys_yield\<close>), the return from \<open>mutex_lock\<close> of a
  task that was suspended there and runs again, and the timer tick, which can come at any
  moment. A task suspended in \<open>mutex_lock\<close> makes no other call before it returns, and the
  idle task, whose body is a halt loop, makes no call at all.
\<close>

record msys =
  mx :: mutex_t
  ks :: kernel
  in_lock :: "task_ref set"

definition lock_blocks :: "mutex_t \<Rightarrow> task_ref \<Rightarrow> bool" where
  "lock_blocks m t \<longleftrightarrow> locked_count m \<noteq> 0 \<and> owner m \<noteq> Some t"

inductive mstep :: "msys \<Rightarrow> msys \<Rightarrow> bool" where
  m_lock: "curr_task (ks c) = Some t \<Longrightarrow> t \<noteq> Idle_task \<Longrightarrow> t \<notin> in_lock c \<Longrightarrow>
     mstep c \<lparr>mx = fst (mutex_lock (mx c) (ks c)), ks = snd (mutex_lock (mx c) (ks c)),
              in_lock = (if lock_blocks (mx c) t then insert t (in_lock c) else in_lock c)\<rparr>"
| m_unlock: "curr_task (ks c) = Some t \<Longrightarrow> t \<noteq> Idle_task \<Longrightarrow> t \<notin> in_lock c \<Longrightarrow>
     mstep c \<lparr>mx = fst (mutex_unlock (mx c) (ks c)), ks = snd (mutex_unlock (mx c) (ks c)),
              in_lock = in_lock c\<rparr>"
| m_return: "curr_task (ks c) = Some t \<Longrightarrow> t \<in> in_lock c \<Longrightarrow>
     mstep c (c\<lparr>in_lock := in_lock c - {t}\<rparr>)"
| m_yield: "curr_task (ks c) = Some t \<Longrightarrow> t \<noteq> Idle_task \<Longrightarrow> t \<notin> in_lock c \<Longrightarrow>
     mstep c (c\<lparr>ks := snd (sys_yield (ks c))\<rparr>)"
| m_tick: "mstep c (c\<lparr>ks := task_time_tick (ks c)\<rparr>)"

inductive mreach :: "msys \<Rightarrow> bool" where
  m_init: "sched_ok s \<Longrightarrow> mreach \<lparr>mx = mutex_init, ks = s, in_lock = {}\<rparr>"
| m_step: "mreach c \<Longrightarrow> mstep c c' \<Longrightarrow> mreach c'"

text \<open>What every reachable configuration satisfies.\<close>

definition minv :: "msys \<Rightarrow> bool" where
  "minv c \<longleftrightarrow>
     sched_ok (ks c) \<and>
     0 \<le> locked_count (mx c) \<and>
     (owner (mx c) \<noteq> None \<longrightarrow> 1 \<le> locked_count (mx c)) \<and>
     distinct (wait_list (mx c)) \<and>
     Idle_task \<notin> set (wait_list (mx c)) \<and>
     set (wait_list (mx c)) \<inter> set (ready_list (ks c)) = {} \<and>
     set (wait_list (mx c)) \<inter> set (sleep_list (ks c)) = {} \<and>
     set (wait_list (mx c)) \<subseteq> in_lock c \<and>
     (\<forall>t \<in> in_lock c. t \<notin> set (wait_list (mx c)) \<longrightarrow>
        owner (mx c) = Some t \<and> 1 \<le> locked_count (mx c))"

text \<open>
  A run of the two tasks of \<open>demo_kernel\<close>: the first task locks the mutex and yields; the
  second asks for the mutex and is suspended; the first unlocks, which hands the mutex
  over, and yields; the second task runs again, still inside \<open>mutex_lock\<close>.
\<close>

definition mrun0 :: msys where
  "mrun0 = \<lparr>mx = mutex_init, ks = demo_kernel, in_lock = {}\<rparr>"

definition mrun1 :: msys where
  "mrun1 = \<lparr>mx = fst (mutex_lock (mx mrun0) (ks mrun0)), ks = snd (mutex_lock (mx mrun0) (ks mrun0)),
            in_lock = (if lock_blocks (mx mrun0) First_task then insert First_task (in_lock mrun0)
                       else in_lock mrun0)\<rparr>"

definition mrun2 :: msys where
  "mrun2 = mrun1\<lparr>ks := snd (sys_yield (ks mrun1))\<rparr>"

definition mrun3 :: msys where
  "mrun3 = \<lparr>mx = fst (mutex_lock (mx mrun2) (ks mrun2)), ks = snd (mutex_lock (mx mrun2) (ks mrun2)),
            in_lock = (if lock_blocks (mx mrun2) (Table_task 0)
                       then insert (Table_task 0) (in_lock mrun2) else in_lock mrun2)\<rparr>"

definition mrun4 :: msys where
  "mrun4 = \<lparr>mx = fst (mutex_unlock (mx mrun3) (ks mrun3)),
            ks = snd (mutex_unlock (mx mrun3) (ks mrun3)), in_lock = in_lock mrun3\<rparr>"

definition mrun5 :: msys where
  "mrun5 = mrun4\<lparr>ks := snd (sys_yield (ks mrun4))\<rparr>"


section \<open>Semaphore: a wait and a notify with no waiter\<close>

text \<open>
  Claim C7. \<open>sem_wait\<close> decrements the count only when it is positive: it then does nothing
  else, and with a count of 0 or less it leaves the count alone and puts the caller on the
  wait queue. \<open>sem_notify\<close> increments the count only when the wait queue is empty: it then
  does nothing else, and with a task waiting it leaves the count alone and takes the first
  waiting task off the queue. So after a pair in which no waiter was enqueued or woken the
  count is what it was, the wait queue is still empty and neither call touched the
  scheduler: a \<open>sem_wait\<close> that finds the count positive followed by a \<open>sem_notify\<close>, and a
  \<open>sem_notify\<close> that finds the queue empty followed by a \<open>sem_wait\<close>, from any count that is
  not negative, 0 included.
\<close>

theorem sem_wait_notify_pair_count:
  "(0 < sem_cnt sem \<and> sem_wait_list sem = [] \<longrightarrow>
      sem_cnt (fst (sem_notify (fst (sem_wait sem s)) s')) = sem_cnt sem
      \<and> sem_wait_list (fst (sem_notify (fst (sem_wait sem s)) s')) = []
      \<and> snd (sem_wait sem s) = s
      \<and> snd (sem_notify (fst (sem_wait sem s)) s') = s')
   \<and> (0 \<le> sem_cnt sem \<and> sem_wait_list sem = [] \<longrightarrow>
      sem_cnt (fst (sem_wait (fst (sem_notify sem s)) s')) = sem_cnt sem
      \<and> sem_wait_list (fst (sem_wait (fst (sem_notify sem s)) s')) = []
      \<and> snd (sem_notify sem s) = s
      \<and> snd (sem_wait (fst (sem_notify sem s)) s') = s')
   \<and> (0 < sem_cnt sem \<longrightarrow>
      sem_wait sem s = (sem\<lparr>sem_cnt := sem_cnt sem - 1\<rparr>, s))
   \<and> (sem_cnt sem \<le> 0 \<longrightarrow>
      sem_cnt (fst (sem_wait sem s)) = sem_cnt sem)
   \<and> (sem_cnt sem \<le> 0 \<and> task_current s = Some cur \<longrightarrow>
      sem_wait_list (fst (sem_wait sem s)) = sem_wait_list sem @ [cur])
   \<and> (sem_wait_list sem = [] \<longrightarrow>
      sem_notify sem s = (sem\<lparr>sem_cnt := sem_cnt sem + 1\<rparr>, s))
   \<and> (sem_wait_list sem \<noteq> [] \<longrightarrow>
      sem_cnt (fst (sem_notify sem s)) = sem_cnt sem
      \<and> sem_wait_list (fst (sem_notify sem s)) = tl (sem_wait_list sem))"
proof -
  have w: "0 < sem_cnt sem \<Longrightarrow> sem_wait sem s = (sem\<lparr>sem_cnt := sem_cnt sem - 1\<rparr>, s)" for sem s
    by (simp add: sem_wait_def)
  have n: "sem_wait_list sem = [] \<Longrightarrow> sem_notify sem s = (sem\<lparr>sem_cnt := sem_cnt sem + 1\<rparr>, s)"
    for sem s
    by (simp add: sem_notify_def list_count_def)
  have b: "sem_cnt sem \<le> 0 \<Longrightarrow> sem_cnt (fst (sem_wait sem s)) = sem_cnt sem"
    by (simp add: sem_wait_def split: option.splits)
  have q: "sem_cnt sem \<le> 0 \<Longrightarrow> task_current s = Some cur \<Longrightarrow>
      sem_wait_list (fst (sem_wait sem s)) = sem_wait_list sem @ [cur]"
    by (simp add: sem_wait_def list_insert_last_def)
  have k: "sem_wait_list sem \<noteq> [] \<Longrightarrow>
      sem_cnt (fst (sem_notify sem s)) = sem_cnt sem
      \<and> sem_wait_list (fst (sem_notify sem s)) = tl (sem_wait_list sem)"
    by (cases "sem_wait_list sem") (simp_all add: sem_notify_def list_count_def list_remove_first_def)
  show ?thesis
    using b q k by (simp add: w n)
qed

text \<open>
  A semaphore of count 3 and one of count 0, as \<open>sem_init\<close> makes them, and a semaphore on
  which the task in slot 0 waits.
\<close>

theorem sem_wait_notify_pair_count_witness:
  "0 < sem_cnt (sem_init 3) \<and> sem_wait_list (sem_init 3) = []
   \<and> sem_cnt (fst (sem_notify (fst (sem_wait (sem_init 3) demo_kernel)) demo_kernel)) = 3
   \<and> sem_cnt (fst (sem_wait (sem_init 3) demo_kernel)) = 2
   \<and> 0 \<le> sem_cnt (sem_init 0) \<and> sem_cnt (sem_init 0) \<le> 0 \<and> sem_wait_list (sem_init 0) = []
   \<and> sem_cnt (fst (sem_notify (sem_init 0) demo_kernel)) = 1
   \<and> sem_cnt (fst (sem_wait (fst (sem_notify (sem_init 0) demo_kernel)) demo_kernel)) = 0
   \<and> task_current demo_kernel = Some First_task
   \<and> sem_cnt (fst (sem_wait (sem_init 0) demo_kernel)) = 0
   \<and> sem_wait_list (fst (sem_wait (sem_init 0) demo_kernel)) = [First_task]
   \<and> sem_wait_list \<lparr>sem_cnt = 0, sem_wait_list = [Table_task 0]\<rparr> \<noteq> []
   \<and> sem_cnt (fst (sem_notify \<lparr>sem_cnt = 0, sem_wait_list = [Table_task 0]\<rparr> demo_kernel)) = 0
   \<and> sem_wait_list (fst (sem_notify \<lparr>sem_cnt = 0, sem_wait_list = [Table_task 0]\<rparr> demo_kernel)) = []"
proof -
  have c: "task_current demo_kernel = Some First_task"
    by (simp add: task_current_def demo_kernel_def)
  have i: "sem_cnt (sem_init 3) = 3" "sem_cnt (sem_init 0) = 0"
    "sem_wait_list (sem_init 3) = []" "sem_wait_list (sem_init 0) = []"
    by (simp_all add: sem_init_def list_init_def)
  note t3 = sem_wait_notify_pair_count [of "sem_init 3" demo_kernel demo_kernel First_task]
  note t0 = sem_wait_notify_pair_count [of "sem_init 0" demo_kernel demo_kernel First_task]
  note tw = sem_wait_notify_pair_count [of "\<lparr>sem_cnt = 0, sem_wait_list = [Table_task 0]\<rparr>"
      demo_kernel demo_kernel First_task]
  have a: "sem_cnt (fst (sem_notify (fst (sem_wait (sem_init 3) demo_kernel)) demo_kernel)) = 3"
    using t3 [THEN conjunct1] by (simp add: i)
  have a': "sem_cnt (fst (sem_wait (sem_init 3) demo_kernel)) = 2"
    using t3 [THEN conjunct2, THEN conjunct2, THEN conjunct1] by (simp add: i)
  have b: "sem_cnt (fst (sem_wait (fst (sem_notify (sem_init 0) demo_kernel)) demo_kernel)) = 0"
    using t0 [THEN conjunct2, THEN conjunct1] by (simp add: i)
  have b': "sem_cnt (fst (sem_notify (sem_init 0) demo_kernel)) = 1"
    using t0 [THEN conjunct2, THEN conjunct2, THEN conjunct2, THEN conjunct2, THEN conjunct2, THEN conjunct1] by (simp add: i)
  have e: "sem_cnt (fst (sem_wait (sem_init 0) demo_kernel)) = 0"
    using t0 [THEN conjunct2, THEN conjunct2, THEN conjunct2, THEN conjunct1] by (simp add: i)
  have e': "sem_wait_list (fst (sem_wait (sem_init 0) demo_kernel)) = [First_task]"
    using t0 [THEN conjunct2, THEN conjunct2, THEN conjunct2, THEN conjunct2, THEN conjunct1] c by (simp add: i)
  have d: "sem_cnt (fst (sem_notify \<lparr>sem_cnt = 0, sem_wait_list = [Table_task 0]\<rparr> demo_kernel)) = 0"
    "sem_wait_list (fst (sem_notify \<lparr>sem_cnt = 0, sem_wait_list = [Table_task 0]\<rparr> demo_kernel)) = []"
    using tw [THEN conjunct2, THEN conjunct2, THEN conjunct2, THEN conjunct2, THEN conjunct2, THEN conjunct2] by simp_all
  show ?thesis
    by (simp add: a a' b b' c d e e' i)
qed

section \<open>Sleeping: the tick count of msleep\<close>

text \<open>
  Within the range where \<open>ms + (OS_TICK_MS - 1)\<close> does not wrap, the count handed to
  \<open>task_set_sleep\<close> is at least one tick and at least \<open>ms / OS_TICK_MS\<close> rounded up.
\<close>

lemma sys_msleep_ticks_in_range:
  assumes "ms \<le> 0xFFFFFFF6"
  shows "unat ms \<le> unat (sys_msleep_ticks ms) * 10 \<and> 1 \<le> unat (sys_msleep_ticks ms)"
proof -
  define m where "m = (if ms < 10 then 10 else ms)"
  have m: "unat m \<le> 4294967286" "10 \<le> unat m" "unat ms \<le> unat m"
    using assms by (auto simp: m_def word_le_nat_alt word_less_nat_alt)
  have "unat (m + 9) = unat m + 9"
    using m by (simp add: unat_word_ariths)
  then have d: "unat ((m + 9) div 10) = (unat m + 9) div 10"
    by (simp add: unat_div)
  have t: "sys_msleep_ticks ms = (m + 9) div 10"
    by (simp add: sys_msleep_ticks_def OS_TICK_MS_def m_def)
  show ?thesis unfolding t d using m by linarith
qed

text \<open>
  Claim C9. The claim fails for the largest arguments: \<open>ms\<close> is a \<open>uint32_t\<close>, and for
  \<open>ms = 0xFFFFFFFF\<close> the sum \<open>ms + (OS_TICK_MS - 1)\<close> wraps to 8, so the tick count is 0.
  \<open>task_set_sleep\<close> then returns at once: the caller, already taken off the ready queue, is
  put on no queue and keeps its state, and the other task is dispatched.
\<close>

theorem sys_msleep_wraps_to_zero_ticks:
  "sys_msleep_ticks 0xFFFFFFFF = 0
   \<and> sleep_list (sys_msleep 0xFFFFFFFF demo_kernel) = []
   \<and> ready_list (sys_msleep 0xFFFFFFFF demo_kernel) = [Table_task 0]
   \<and> curr_task (sys_msleep 0xFFFFFFFF demo_kernel) = Some (Table_task 0)
   \<and> state (task_tab (sys_msleep 0xFFFFFFFF demo_kernel) First_task) = TASK_RUNNING
   \<and> sleep_ticks (task_tab (sys_msleep 0xFFFFFFFF demo_kernel) First_task) = 0"
proof -
  have t: "sys_msleep_ticks 0xFFFFFFFF = 0"
    by (simp add: sys_msleep_ticks_def OS_TICK_MS_def)
  show ?thesis
    unfolding sys_msleep_def t
    by (simp add: demo_kernel_def demo_task_def zero_task_def task_set_block_def
        task_set_sleep_def task_dispatch_def task_next_run_def task_current_def
        task_switch_from_to_def task_upd_def list_remove_def list_count_def list_first_def
        Let_def)
qed

section \<open>The scheduler: who runs, and who is on the ready queue\<close>

subsection \<open>Dispatch\<close>


lemma task_next_run_simps:
  "ready_list s = [] \<Longrightarrow> task_next_run s = Idle_task"
  "ready_list s = t # r \<Longrightarrow> task_next_run s = t"
  by (simp_all add: task_next_run_def list_count_def list_first_def)

lemma sched_ok_dispatch_pre: "sched_ok s \<Longrightarrow> dispatch_pre s"
  by (auto simp: sched_ok_def dispatch_pre_def)

lemma dispatch_fields:
  "ready_list (task_dispatch s) = ready_list s"
  "sleep_list (task_dispatch s) = sleep_list s"
  "curr_task (task_dispatch s) = Some (task_next_run s)"
  "task_next_run (task_dispatch s) = task_next_run s"
  by (auto simp: task_dispatch_def task_upd_def task_switch_from_to_def task_current_def Let_def
      task_next_run_def)

lemma dispatch_state:
  "state (task_tab (task_dispatch s) t) =
     (if t = task_next_run s \<and> curr_task s \<noteq> Some t then TASK_RUNNING else state (task_tab s t))"
  by (auto simp: task_dispatch_def task_upd_def task_switch_from_to_def task_current_def Let_def)

lemma dispatch_ok: "dispatch_pre s \<Longrightarrow> sched_ok (task_dispatch s)"
  unfolding sched_ok_def dispatch_pre_def
  by (auto simp: dispatch_fields dispatch_state)

lemma yield_ok: "sched_ok s \<Longrightarrow> sched_ok (snd (sys_yield s))"
proof -
  assume ok: "sched_ok s"
  show ?thesis
  proof (cases "list_count (ready_list s) > 1")
    case False
    then show ?thesis using ok by (simp add: sys_yield_def)
  next
    case True
    then obtain c r where r: "ready_list s = c # r" "r \<noteq> []"
      by (cases "ready_list s") (auto simp: list_count_def)
    with ok have c: "curr_task s = Some c" by (simp add: sched_ok_def task_next_run_simps)
    from ok r have cI: "c \<noteq> Idle_task" by (auto simp: sched_ok_def)
    let ?s1 = "task_set_ready c (task_set_block c s)"
    have "dispatch_pre ?s1"
      using ok r c cI
      unfolding dispatch_pre_def sched_ok_def
      by (auto simp: task_set_ready_def task_set_block_def task_upd_def list_remove_def
          list_insert_last_def task_next_run_def list_count_def list_first_def
          split: list.splits)
    then have "sched_ok (task_dispatch ?s1)" by (rule dispatch_ok)
    then show ?thesis using True c by (simp add: sys_yield_def task_current_def)
  qed
qed


lemma sleep_tick_one_facts:
  assumes "queues_ok s" and "task \<in> set (sleep_list s)"
  shows "queues_ok (sleep_tick_one task s)"
    and "curr_task (sleep_tick_one task s) = curr_task s"
    and "set (sleep_list s) - {task} \<subseteq> set (sleep_list (sleep_tick_one task s))"
    and "\<exists>ws. ready_list (sleep_tick_one task s) = ready_list s @ ws \<and> set ws \<subseteq> {task} \<and>
           (\<forall>t \<in> set ws. state (task_tab (sleep_tick_one task s) t) = TASK_READY)"
    and "state (task_tab (sleep_tick_one task s) t) = state (task_tab s t) \<or>
        (t = task \<and> state (task_tab (sleep_tick_one task s) t) = TASK_READY)"
  using assms unfolding queues_ok_def
  by (auto simp: sleep_tick_one_def task_set_ready_def task_set_wakeup_def task_upd_def
      list_remove_def list_insert_last_def Let_def)

lemma sleep_list_tick_inv:
  "distinct ts \<Longrightarrow> set ts \<subseteq> set (sleep_list s) \<Longrightarrow> queues_ok s \<Longrightarrow>
   queues_ok (sleep_list_tick ts s) \<and>
   curr_task (sleep_list_tick ts s) = curr_task s \<and>
   (\<exists>ws. ready_list (sleep_list_tick ts s) = ready_list s @ ws \<and> set ws \<subseteq> set ts \<and>
      (\<forall>t \<in> set ws. state (task_tab (sleep_list_tick ts s) t) = TASK_READY)) \<and>
   (\<forall>t. state (task_tab (sleep_list_tick ts s) t) = state (task_tab s t) \<or>
        (t \<in> set ts \<and> state (task_tab (sleep_list_tick ts s) t) = TASK_READY))"
proof (induction ts arbitrary: s)
  case Nil
  then show ?case by simp
next
  case (Cons task rest)
  define s2 where "s2 = sleep_tick_one task s"
  have step: "sleep_list_tick (task # rest) s = sleep_list_tick rest s2"
    by (simp add: s2_def)
  from Cons.prems have d: "distinct rest" "task \<notin> set rest" "task \<in> set (sleep_list s)"
    "set rest \<subseteq> set (sleep_list s)" by auto
  note f = sleep_tick_one_facts [OF Cons.prems(3) d(3), folded s2_def]
  have sub: "set rest \<subseteq> set (sleep_list s2)"
    using d f(3) by blast
  note IH = Cons.IH [OF d(1) sub f(1)]
  from IH have a: "queues_ok (sleep_list_tick rest s2)" by (rule conjunct1)
  from IH f(2) have b: "curr_task (sleep_list_tick rest s2) = curr_task s" by simp
  from IH have st: "\<And>t. state (task_tab (sleep_list_tick rest s2) t) = state (task_tab s2 t) \<or>
        (t \<in> set rest \<and> state (task_tab (sleep_list_tick rest s2) t) = TASK_READY)" by blast
  from IH obtain ws where ws: "ready_list (sleep_list_tick rest s2) = ready_list s2 @ ws"
    "set ws \<subseteq> set rest" "\<forall>t \<in> set ws. state (task_tab (sleep_list_tick rest s2) t) = TASK_READY"
    by blast
  from f(4) obtain w0 where w0: "ready_list s2 = ready_list s @ w0" "set w0 \<subseteq> {task}"
    "\<forall>t \<in> set w0. state (task_tab s2 t) = TASK_READY" by blast
  have w0r: "\<forall>t \<in> set w0. state (task_tab (sleep_list_tick rest s2) t) = TASK_READY"
  proof
    fix t assume "t \<in> set w0"
    with w0 have "t = task" "state (task_tab s2 t) = TASK_READY" by auto
    with st [of t] d(2) show "state (task_tab (sleep_list_tick rest s2) t) = TASK_READY" by auto
  qed
  have c: "\<exists>ws. ready_list (sleep_list_tick rest s2) = ready_list s @ ws \<and>
        set ws \<subseteq> set (task # rest) \<and>
        (\<forall>t \<in> set ws. state (task_tab (sleep_list_tick rest s2) t) = TASK_READY)"
    using ws w0 w0r by (intro exI [of _ "w0 @ ws"]) auto
  have e: "\<forall>t. state (task_tab (sleep_list_tick rest s2) t) = state (task_tab s t) \<or>
        (t \<in> set (task # rest) \<and> state (task_tab (sleep_list_tick rest s2) t) = TASK_READY)"
  proof
    fix t
    from st [of t] f(5) [of t]
    show "state (task_tab (sleep_list_tick rest s2) t) = state (task_tab s t) \<or>
        (t \<in> set (task # rest) \<and> state (task_tab (sleep_list_tick rest s2) t) = TASK_READY)"
      by auto
  qed
  show ?case unfolding step using a b c e by blast
qed


lemma sched_ok_queues: "sched_ok s \<Longrightarrow> queues_ok s"
  by (simp add: sched_ok_def queues_ok_def)

lemma sched_ok_cur:
  "sched_ok s \<Longrightarrow> ready_list s = [] \<Longrightarrow> curr_task s = Some Idle_task"
  "sched_ok s \<Longrightarrow> ready_list s = c # r \<Longrightarrow> curr_task s = Some c"
  by (simp_all add: sched_ok_def task_next_run_simps)

lemma task_next_run_mem: "task_next_run s = Idle_task \<or> task_next_run s \<in> set (ready_list s)"
  by (cases "ready_list s") (simp_all add: task_next_run_simps)

lemma sched_ok_cur_mem: "sched_ok s \<Longrightarrow> curr_task s = Some c \<Longrightarrow> c = Idle_task \<or> c \<in> set (ready_list s)"
  using task_next_run_mem [of s] by (auto simp: sched_ok_def)

text \<open>The current task's slice: after the countdown and the move to the tail.\<close>

lemma tick_slice_facts:
  assumes ok: "sched_ok s" and c: "curr_task s = Some cur"
  defines "s1 \<equiv> task_upd cur (\<lambda>t. t\<lparr>slice_ticks := slice_ticks t - 1\<rparr>) s"
  defines "s2 \<equiv> (if slice_ticks (task_tab s1 cur) = 0
                     then task_set_ready cur (task_set_block cur
                            (task_upd cur (\<lambda>t. t\<lparr>slice_ticks := time_slice t\<rparr>) s1))
                     else s1)"
  shows "queues_ok s2" and "curr_task s2 = Some cur" and "sleep_list s2 = sleep_list s"
    and "\<forall>t \<in> set (ready_list s2). t \<noteq> task_next_run s2 \<longrightarrow> state (task_tab s2 t) = TASK_READY"
    and "ready_list s2 = [] \<longrightarrow> cur = Idle_task"
proof -
  show "curr_task s2 = Some cur" "sleep_list s2 = sleep_list s"
    using c by (auto simp: s2_def s1_def task_set_ready_def task_set_block_def task_upd_def)
  show "queues_ok s2"
    using ok c sched_ok_cur_mem [OF ok c] unfolding sched_ok_def queues_ok_def
    by (auto simp: s2_def s1_def task_set_ready_def task_set_block_def task_upd_def
        list_remove_def list_insert_last_def)
  show "ready_list s2 = [] \<longrightarrow> cur = Idle_task"
    using ok c
    by (cases "ready_list s")
       (auto simp: sched_ok_def task_next_run_simps s2_def s1_def task_set_ready_def
          task_set_block_def task_upd_def list_remove_def list_insert_last_def)
  show "\<forall>t \<in> set (ready_list s2). t \<noteq> task_next_run s2 \<longrightarrow> state (task_tab s2 t) = TASK_READY"
  proof (cases "ready_list s")
    case Nil
    with ok c show ?thesis
      by (auto simp: sched_ok_def task_next_run_simps s2_def s1_def task_set_ready_def
          task_set_block_def task_upd_def list_remove_def list_insert_last_def)
  next
    case (Cons h r)
    with ok c have h: "h = cur" by (simp add: sched_ok_def task_next_run_simps)
    from ok Cons h have nI: "cur \<noteq> Idle_task" "cur \<notin> set r" "distinct r"
      by (auto simp: sched_ok_def)
    from ok Cons h c have rd: "\<forall>t \<in> set r. state (task_tab s t) = TASK_READY"
      by (auto simp: sched_ok_def)
    show ?thesis
    proof (cases "slice_ticks (task_tab s1 cur) = 0")
      case False
      then have "s2 = s1" by (simp add: s2_def)
      then show ?thesis using Cons h nI rd
        by (auto simp: s1_def task_upd_def task_next_run_def list_count_def list_first_def)
    next
      case True
      then have e: "s2 = task_set_ready cur (task_set_block cur
                            (task_upd cur (\<lambda>t. t\<lparr>slice_ticks := time_slice t\<rparr>) s1))"
        by (simp add: s2_def)
      have rl: "ready_list s2 = r @ [cur]"
        using nI Cons h
        by (simp add: e s1_def task_set_ready_def task_set_block_def task_upd_def
            list_remove_def list_insert_last_def)
      have stc: "state (task_tab s2 cur) = TASK_READY"
        using nI by (simp add: e s1_def task_set_ready_def task_set_block_def task_upd_def)
      have sto: "\<And>t. t \<noteq> cur \<Longrightarrow> state (task_tab s2 t) = state (task_tab s t)"
        using nI by (simp add: e s1_def task_set_ready_def task_set_block_def task_upd_def)
      show ?thesis unfolding rl
      proof (intro ballI impI)
        fix t assume "t \<in> set (r @ [cur])"
        then show "state (task_tab s2 t) = TASK_READY"
          using stc sto [of t] rd by (cases "t = cur") auto
      qed
    qed
  qed
qed


lemma tick_ok: "sched_ok s \<Longrightarrow> sched_ok (task_time_tick s)"
proof -
  assume ok: "sched_ok s"
  then obtain cur where c: "curr_task s = Some cur" by (auto simp: sched_ok_def)
  define s1 where "s1 = task_upd cur (\<lambda>t. t\<lparr>slice_ticks := slice_ticks t - 1\<rparr>) s"
  define s2 where "s2 = (if slice_ticks (task_tab s1 cur) = 0
                     then task_set_ready cur (task_set_block cur
                            (task_upd cur (\<lambda>t. t\<lparr>slice_ticks := time_slice t\<rparr>) s1))
                     else s1)"
  define s3 where "s3 = sleep_list_tick (sleep_list s2) s2"
  have e: "task_time_tick s = task_dispatch s3"
    using c by (simp add: task_time_tick_def task_current_def Let_def s1_def s2_def s3_def)
  note f = tick_slice_facts [OF ok c, folded s1_def, folded s2_def]
  from f(1) have ds: "distinct (sleep_list s2)" by (simp add: queues_ok_def)
  note l = sleep_list_tick_inv [OF ds subset_refl f(1), folded s3_def]
  from l have q3: "queues_ok s3" by (rule conjunct1)
  from l obtain ws where ws: "ready_list s3 = ready_list s2 @ ws" "set ws \<subseteq> set (sleep_list s2)"
    "\<forall>t \<in> set ws. state (task_tab s3 t) = TASK_READY"
    by blast
  from l have st: "\<And>t. state (task_tab s3 t) = state (task_tab s2 t) \<or>
        (t \<in> set (sleep_list s2) \<and> state (task_tab s3 t) = TASK_READY)" by blast
  have nr: "ready_list s2 \<noteq> [] \<Longrightarrow> task_next_run s3 = task_next_run s2"
    using ws by (cases "ready_list s2") (simp_all add: task_next_run_simps)
  have "\<forall>t \<in> set (ready_list s3). t \<noteq> task_next_run s3 \<longrightarrow> state (task_tab s3 t) = TASK_READY"
  proof (intro ballI impI)
    fix t assume t: "t \<in> set (ready_list s3)" "t \<noteq> task_next_run s3"
    show "state (task_tab s3 t) = TASK_READY"
    proof (cases "t \<in> set (ready_list s2)")
      case True
      then have "ready_list s2 \<noteq> []" by auto
      with t nr have "t \<noteq> task_next_run s2" by simp
      with True f(4) have "state (task_tab s2 t) = TASK_READY" by blast
      with st [of t] show ?thesis by auto
    next
      case False
      with t ws show ?thesis by auto
    qed
  qed
  with q3 have "dispatch_pre s3" by (simp add: dispatch_pre_def queues_ok_def)
  then show ?thesis unfolding e by (rule dispatch_ok)
qed


lemma block_pre:
  assumes ok: "sched_ok s" and c: "curr_task s = Some c"
  shows "dispatch_pre (task_set_block c s)"
proof (cases "ready_list s")
  case Nil
  with ok show ?thesis
    by (auto simp: sched_ok_def dispatch_pre_def task_set_block_def list_remove_def)
next
  case (Cons h r)
  with ok c have h: "h = c" by (simp add: sched_ok_def task_next_run_simps)
  from ok Cons h have nI: "c \<noteq> Idle_task" "c \<notin> set r" "distinct r"
    by (auto simp: sched_ok_def)
  have rl: "ready_list (task_set_block c s) = r"
    using nI Cons h by (simp add: task_set_block_def list_remove_def)
  have o: "sleep_list (task_set_block c s) = sleep_list s"
    "task_tab (task_set_block c s) = task_tab s"
    by (simp_all add: task_set_block_def)
  from ok Cons h c nI have rd: "\<forall>t \<in> set r. state (task_tab s t) = TASK_READY"
    by (auto simp: sched_ok_def)
  show ?thesis
    using ok Cons h nI rd unfolding dispatch_pre_def rl o sched_ok_def by auto
qed

lemma sem_wait_ok: "sched_ok s \<Longrightarrow> sched_ok (snd (sem_wait sem s))"
proof -
  assume ok: "sched_ok s"
  then obtain c where c: "curr_task s = Some c" by (auto simp: sched_ok_def)
  show ?thesis
    using ok c dispatch_ok [OF block_pre [OF ok c]]
    by (simp add: sem_wait_def task_current_def)
qed

lemma mutex_lock_ok: "sched_ok s \<Longrightarrow> sched_ok (snd (mutex_lock m s))"
proof -
  assume ok: "sched_ok s"
  then obtain c where c: "curr_task s = Some c" by (auto simp: sched_ok_def)
  show ?thesis
    using ok c dispatch_ok [OF block_pre [OF ok c]]
    by (simp add: mutex_lock_def task_current_def Let_def)
qed

lemma msleep_ok:
  assumes ok: "sched_ok s" and nI: "curr_task s \<noteq> Some Idle_task"
  shows "sched_ok (sys_msleep ms s)"
proof -
  from ok obtain c where c: "curr_task s = Some c" by (auto simp: sched_ok_def)
  with nI have cI: "c \<noteq> Idle_task" by simp
  with sched_ok_cur_mem [OF ok c] have cm: "c \<in> set (ready_list s)" by simp
  note b = block_pre [OF ok c]
  have cr: "c \<notin> set (ready_list (task_set_block c s))"
    using ok cI by (auto simp: task_set_block_def list_remove_def sched_ok_def)
  have cs: "c \<notin> set (sleep_list (task_set_block c s))"
    using ok cm by (auto simp: task_set_block_def sched_ok_def)
  have "dispatch_pre (task_set_sleep c (sys_msleep_ticks ms) (task_set_block c s))"
    using b cr cs unfolding dispatch_pre_def
    by (auto simp: task_set_sleep_def task_upd_def list_insert_last_def task_next_run_def)
  then show ?thesis using c by (simp add: sys_msleep_def dispatch_ok)
qed

text \<open>
  Claim C2, as amended. From a state with \<open>sched_ok\<close>, each scheduler operation (dispatch,
  yield, the tick accounting, and blocking in \<open>sys_msleep\<close>, \<open>sem_wait\<close> or \<open>mutex_lock\<close>)
  ends in a state with \<open>sched_ok\<close>: the current task is the head of the ready queue and
  stays on the queue while it runs (or is the idle task when the queue is empty), and no
  other task on the ready queue has state Running. Whenever \<open>task_dispatch\<close> switches, the
  task it switches to is the one \<open>task_next_run\<close> selected and its state is Running.
  \<open>sys_msleep\<close> is called by a user task, never by the idle task.
\<close>

theorem scheduler_keeps_current_at_head:
  assumes "sched_ok s"
  shows "sched_ok (task_dispatch s)
       \<and> sched_ok (snd (sys_yield s))
       \<and> sched_ok (task_time_tick s)
       \<and> (curr_task s \<noteq> Some Idle_task \<longrightarrow> sched_ok (sys_msleep ms s))
       \<and> sched_ok (snd (sem_wait sem s))
       \<and> sched_ok (snd (mutex_lock m s))
       \<and> (curr_task (task_dispatch s') \<noteq> curr_task s' \<longrightarrow>
            curr_task (task_dispatch s') = Some (task_next_run s') \<and>
            state (task_tab (task_dispatch s') (task_next_run s')) = TASK_RUNNING)"
  using assms dispatch_ok [OF sched_ok_dispatch_pre] yield_ok tick_ok msleep_ok sem_wait_ok
    mutex_lock_ok
  by (auto simp: dispatch_fields dispatch_state)

text \<open>
  Claim C2, as stated, fails. While the first task sleeps the idle task runs, and the
  specification's invariant holds. The tick that ends the sleep puts the first task on the
  ready queue and dispatches it: it is then Running and on the ready queue, and the idle task,
  no longer current, still has state Running.
\<close>

theorem spec_running_invariant_broken_by_tick:
  "spec_running_invariant tick_kernel \<and> \<not> spec_running_invariant (task_time_tick tick_kernel)"
proof -
  have a: "spec_running_invariant tick_kernel"
    by (auto simp: spec_running_invariant_def tick_kernel_def demo_kernel_def demo_task_def zero_task_def)
  have b: "state (task_tab (task_time_tick tick_kernel) Idle_task) = TASK_RUNNING"
    "curr_task (task_time_tick tick_kernel) = Some First_task"
    "state (task_tab (task_time_tick tick_kernel) First_task) = TASK_RUNNING"
    "ready_list (task_time_tick tick_kernel) = [First_task]"
    by (simp_all add: tick_kernel_def demo_kernel_def demo_task_def zero_task_def
         task_time_tick_def task_current_def task_upd_def task_set_ready_def task_set_block_def
         task_set_wakeup_def task_dispatch_def task_next_run_def task_switch_from_to_def
         sleep_tick_one_def list_remove_def list_count_def list_first_def list_insert_last_def
         Let_def)
  from b have "\<not> spec_running_invariant (task_time_tick tick_kernel)"
    unfolding spec_running_invariant_def by (metis list.set_intros(1))
  with a show ?thesis by simp
qed

lemma sched_ok_demo_kernel: "sched_ok demo_kernel"
  by (simp add: sched_ok_def demo_kernel_def demo_task_def zero_task_def task_next_run_def
      list_count_def list_first_def)

theorem scheduler_keeps_current_at_head_witness:
  "sched_ok demo_kernel
   \<and> curr_task demo_kernel \<noteq> Some Idle_task
   \<and> sched_ok (task_time_tick demo_kernel)
   \<and> sched_ok (sys_msleep 100 demo_kernel)
   \<and> sched_ok (snd (sys_yield demo_kernel))
   \<and> curr_task (snd (sys_yield demo_kernel)) = Some (Table_task 0)
   \<and> ready_list (snd (sys_yield demo_kernel)) = [Table_task 0, First_task]
   \<and> curr_task (task_dispatch (task_set_block First_task demo_kernel)) \<noteq>
       curr_task (task_set_block First_task demo_kernel)
   \<and> state (task_tab (task_dispatch (task_set_block First_task demo_kernel))
        (task_next_run (task_set_block First_task demo_kernel))) = TASK_RUNNING"
proof -
  have c: "curr_task demo_kernel \<noteq> Some Idle_task"
    by (simp add: demo_kernel_def)
  have d: "curr_task (task_dispatch (task_set_block First_task demo_kernel)) \<noteq>
       curr_task (task_set_block First_task demo_kernel)"
    by (simp add: dispatch_fields task_next_run_def list_count_def list_first_def
        task_set_block_def list_remove_def demo_kernel_def)
  have y: "curr_task (snd (sys_yield demo_kernel)) = Some (Table_task 0)"
    "ready_list (snd (sys_yield demo_kernel)) = [Table_task 0, First_task]"
    by (simp_all add: sys_yield_def task_current_def dispatch_fields task_next_run_def
        list_count_def list_first_def task_set_block_def task_set_ready_def task_upd_def
        list_remove_def list_insert_last_def demo_kernel_def)
  from scheduler_keeps_current_at_head [OF sched_ok_demo_kernel,
      of 100 "sem_init 0" mutex_init "task_set_block First_task demo_kernel"]
    sched_ok_demo_kernel c d y
  show ?thesis by simp
qed

section \<open>The mutex: owner and count when mutex_lock returns\<close>

lemma sleep_tick_one_sets:
  "set (sleep_list (sleep_tick_one task s)) \<subseteq> set (sleep_list s)"
  "set (ready_list (sleep_tick_one task s)) \<subseteq> set (ready_list s) \<union> {task}"
  by (auto simp: sleep_tick_one_def task_set_ready_def task_set_wakeup_def task_upd_def
      list_remove_def list_insert_last_def Let_def dest: set_remove1_subset [THEN subsetD])

lemma sleep_list_tick_sets:
  "set (sleep_list (sleep_list_tick ts s)) \<subseteq> set (sleep_list s) \<and>
   set (ready_list (sleep_list_tick ts s)) \<subseteq> set (ready_list s) \<union> set ts"
proof (induction ts arbitrary: s)
  case Nil
  show ?case by simp
next
  case (Cons task rest)
  from Cons.IH [of "sleep_tick_one task s"] sleep_tick_one_sets [of task s]
  show ?case by auto
qed

lemma tick_sets:
  "set (sleep_list (task_time_tick s)) \<subseteq> set (sleep_list s)"
  "set (ready_list (task_time_tick s)) \<subseteq> set (ready_list s) \<union> set (sleep_list s) \<union> set_option (curr_task s)"
proof -
  show "set (sleep_list (task_time_tick s)) \<subseteq> set (sleep_list s)"
  proof (cases "curr_task s")
    case None then show ?thesis by (simp add: task_time_tick_def task_current_def)
  next
    case (Some cur)
    define s2 where "s2 = (if slice_ticks (task_tab (task_upd cur (\<lambda>t. t\<lparr>slice_ticks := slice_ticks t - 1\<rparr>) s) cur) = 0
                     then task_set_ready cur (task_set_block cur
                            (task_upd cur (\<lambda>t. t\<lparr>slice_ticks := time_slice t\<rparr>) (task_upd cur (\<lambda>t. t\<lparr>slice_ticks := slice_ticks t - 1\<rparr>) s)))
                     else (task_upd cur (\<lambda>t. t\<lparr>slice_ticks := slice_ticks t - 1\<rparr>) s))"
    have e: "task_time_tick s = task_dispatch (sleep_list_tick (sleep_list s2) s2)"
      using Some by (simp add: task_time_tick_def task_current_def Let_def s2_def)
    have "sleep_list s2 = sleep_list s"
      by (simp add: s2_def task_set_ready_def task_set_block_def task_upd_def)
    with sleep_list_tick_sets [of "sleep_list s2" s2] show ?thesis
      by (simp add: e dispatch_fields)
  qed
  show "set (ready_list (task_time_tick s)) \<subseteq> set (ready_list s) \<union> set (sleep_list s) \<union> set_option (curr_task s)"
  proof (cases "curr_task s")
    case None then show ?thesis by (simp add: task_time_tick_def task_current_def)
  next
    case (Some cur)
    define s2 where "s2 = (if slice_ticks (task_tab (task_upd cur (\<lambda>t. t\<lparr>slice_ticks := slice_ticks t - 1\<rparr>) s) cur) = 0
                     then task_set_ready cur (task_set_block cur
                            (task_upd cur (\<lambda>t. t\<lparr>slice_ticks := time_slice t\<rparr>) (task_upd cur (\<lambda>t. t\<lparr>slice_ticks := slice_ticks t - 1\<rparr>) s)))
                     else (task_upd cur (\<lambda>t. t\<lparr>slice_ticks := slice_ticks t - 1\<rparr>) s))"
    have e: "task_time_tick s = task_dispatch (sleep_list_tick (sleep_list s2) s2)"
      using Some by (simp add: task_time_tick_def task_current_def Let_def s2_def)
    have "sleep_list s2 = sleep_list s" "set (ready_list s2) \<subseteq> set (ready_list s) \<union> {cur}"
      by (auto simp: s2_def task_set_ready_def task_set_block_def task_upd_def
          list_remove_def list_insert_last_def dest: set_remove1_subset [THEN subsetD])
    with sleep_list_tick_sets [of "sleep_list s2" s2] Some show ?thesis
      by (auto simp: e dispatch_fields)
  qed
qed


lemma mutex_lock_free:
  "locked_count m = 0 \<Longrightarrow> mutex_lock m s = (m\<lparr>locked_count := 1, owner := curr_task s\<rparr>, s)"
  by (simp add: mutex_lock_def task_current_def)

lemma mutex_lock_again:
  "locked_count m \<noteq> 0 \<Longrightarrow> owner m = curr_task s \<Longrightarrow>
   mutex_lock m s = (m\<lparr>locked_count := locked_count m + 1\<rparr>, s)"
  by (simp add: mutex_lock_def task_current_def)

lemma mutex_lock_block:
  "locked_count m \<noteq> 0 \<Longrightarrow> owner m \<noteq> Some t \<Longrightarrow> curr_task s = Some t \<Longrightarrow>
   mutex_lock m s = (m\<lparr>wait_list := wait_list m @ [t]\<rparr>, task_dispatch (task_set_block t s))"
  by (simp add: mutex_lock_def task_current_def list_insert_last_def)

lemma mutex_unlock_other:
  "owner m \<noteq> curr_task s \<Longrightarrow> mutex_unlock m s = (m, s)"
  by (simp add: mutex_unlock_def task_current_def)

lemma mutex_unlock_nested:
  "owner m = curr_task s \<Longrightarrow> locked_count m \<noteq> 1 \<Longrightarrow>
   mutex_unlock m s = (m\<lparr>locked_count := locked_count m - 1\<rparr>, s)"
  by (simp add: mutex_unlock_def task_current_def Let_def)

lemma mutex_unlock_last:
  "owner m = curr_task s \<Longrightarrow> locked_count m = 1 \<Longrightarrow> wait_list m = [] \<Longrightarrow>
   mutex_unlock m s = (m\<lparr>locked_count := 0, owner := None\<rparr>, s)"
  by (simp add: mutex_unlock_def task_current_def Let_def list_count_def)

lemma mutex_unlock_handoff:
  "owner m = curr_task s \<Longrightarrow> locked_count m = 1 \<Longrightarrow> wait_list m = h # rest \<Longrightarrow>
   mutex_unlock m s =
     (\<lparr>owner = Some h, locked_count = 1, wait_list = rest\<rparr>,
      task_dispatch (task_set_ready h s))"
  by (simp add: mutex_unlock_def task_current_def Let_def list_count_def list_remove_first_def)

lemma ready_pre:
  assumes ok: "sched_ok s" and h: "h \<notin> set (ready_list s)" "h \<notin> set (sleep_list s)"
  shows "dispatch_pre (task_set_ready h s)"
proof (cases "h = Idle_task")
  case True
  with ok show ?thesis by (simp add: task_set_ready_def sched_ok_dispatch_pre)
next
  case False
  have nr: "ready_list s \<noteq> [] \<Longrightarrow> task_next_run (task_set_ready h s) = task_next_run s"
    using False
    by (cases "ready_list s")
       (simp_all add: task_next_run_simps task_set_ready_def task_upd_def list_insert_last_def)
  show ?thesis
    unfolding dispatch_pre_def
  proof (intro conjI ballI impI)
    fix t assume t: "t \<in> set (ready_list (task_set_ready h s))"
      "t \<noteq> task_next_run (task_set_ready h s)"
    show "state (task_tab (task_set_ready h s) t) = TASK_READY"
    proof (cases "t = h")
      case True
      then show ?thesis using False by (simp add: task_set_ready_def task_upd_def)
    next
      case nh: False
      with t False have tr: "t \<in> set (ready_list s)"
        by (simp add: task_set_ready_def task_upd_def list_insert_last_def)
      then have "ready_list s \<noteq> []" by auto
      with nr t have "t \<noteq> task_next_run s" by simp
      with ok tr have "state (task_tab s t) = TASK_READY" by (auto simp: sched_ok_def)
      with nh False show ?thesis by (simp add: task_set_ready_def task_upd_def)
    qed
  qed (use ok h False in \<open>auto simp: sched_ok_def task_set_ready_def task_upd_def list_insert_last_def\<close>)
qed

lemma minv_cur:
  assumes "minv c" and "curr_task (ks c) = Some t"
  shows "t \<notin> set (wait_list (mx c))"
  using assms sched_ok_cur_mem [of "ks c" t] by (auto simp: minv_def)


lemma block_fields:
  "sched_ok s \<Longrightarrow> curr_task s = Some t \<Longrightarrow> t \<noteq> Idle_task \<Longrightarrow>
   set (ready_list (task_dispatch (task_set_block t s))) = set (ready_list s) - {t} \<and>
   sleep_list (task_dispatch (task_set_block t s)) = sleep_list s"
  by (auto simp: dispatch_fields task_set_block_def list_remove_def sched_ok_def)

lemma minv_lock:
  assumes inv: "minv c" and c: "curr_task (ks c) = Some t" and nI: "t \<noteq> Idle_task"
    and nl: "t \<notin> in_lock c"
  shows "minv \<lparr>mx = fst (mutex_lock (mx c) (ks c)), ks = snd (mutex_lock (mx c) (ks c)),
              in_lock = (if lock_blocks (mx c) t then insert t (in_lock c) else in_lock c)\<rparr>"
proof -
  from inv have ok: "sched_ok (ks c)" by (simp add: minv_def)
  note tw = minv_cur [OF inv c]
  from sched_ok_cur_mem [OF ok c] nI have tr: "t \<in> set (ready_list (ks c))" by simp
  consider (free) "locked_count (mx c) = 0"
    | (again) "locked_count (mx c) \<noteq> 0" "owner (mx c) = Some t"
    | (block) "locked_count (mx c) \<noteq> 0" "owner (mx c) \<noteq> Some t" by blast
  then show ?thesis
  proof cases
    case free
    then have nb: "\<not> lock_blocks (mx c) t" by (simp add: lock_blocks_def)
    from inv free have "\<forall>u \<in> in_lock c. u \<in> set (wait_list (mx c))"
      by (auto simp: minv_def)
    with inv nl show ?thesis
      unfolding mutex_lock_free [OF free] using nb free c
      by (auto simp: minv_def)
  next
    case again
    then have nb: "\<not> lock_blocks (mx c) t" by (simp add: lock_blocks_def)
    from inv again nl have "\<forall>u \<in> in_lock c. u \<in> set (wait_list (mx c))"
      by (auto simp: minv_def)
    with inv nl show ?thesis
      using nb again c by (auto simp: minv_def mutex_lock_again)
  next
    case block
    then have b: "lock_blocks (mx c) t" by (simp add: lock_blocks_def)
    note e = mutex_lock_block [OF block c]
    note f = block_fields [OF ok c nI]
    have ok': "sched_ok (task_dispatch (task_set_block t (ks c)))"
      by (rule dispatch_ok [OF block_pre [OF ok c]])
    from inv tr have ts: "t \<notin> set (sleep_list (ks c))" by (auto simp: minv_def sched_ok_def)
    show ?thesis
      unfolding e using b inv ok' f tw ts nI
      by (auto simp: minv_def)
  qed
qed


lemma minv_unlock:
  assumes inv: "minv c" and c: "curr_task (ks c) = Some t" and nl: "t \<notin> in_lock c"
  shows "minv \<lparr>mx = fst (mutex_unlock (mx c) (ks c)), ks = snd (mutex_unlock (mx c) (ks c)),
              in_lock = in_lock c\<rparr>"
proof -
  from inv have ok: "sched_ok (ks c)" by (simp add: minv_def)
  show ?thesis
  proof (cases "owner (mx c) = Some t")
    case False
    with c have "owner (mx c) \<noteq> curr_task (ks c)" by simp
    from mutex_unlock_other [OF this] inv show ?thesis by (simp add: minv_def)
  next
    case True
    with c have o: "owner (mx c) = curr_task (ks c)" by simp
    from inv True nl have all: "\<forall>u \<in> in_lock c. u \<in> set (wait_list (mx c))"
      by (auto simp: minv_def)
    from inv True have pos: "1 \<le> locked_count (mx c)" by (simp add: minv_def)
    show ?thesis
    proof (cases "locked_count (mx c) = 1")
      case False
      from mutex_unlock_nested [OF o False] inv pos False all show ?thesis
        by (auto simp: minv_def)
    next
      case one: True
      show ?thesis
      proof (cases "wait_list (mx c)")
        case Nil
        from mutex_unlock_last [OF o one Nil] inv all Nil show ?thesis
          by (auto simp: minv_def)
      next
        case (Cons h rest)
        note e = mutex_unlock_handoff [OF o one Cons]
        from inv Cons have h: "h \<notin> set (ready_list (ks c))" "h \<notin> set (sleep_list (ks c))"
          "h \<noteq> Idle_task" "h \<notin> set rest" "distinct rest" "h \<in> in_lock c"
          by (auto simp: minv_def)
        have ok': "sched_ok (task_dispatch (task_set_ready h (ks c)))"
          by (rule dispatch_ok [OF ready_pre [OF ok h(1,2)]])
        have f: "set (ready_list (task_dispatch (task_set_ready h (ks c)))) =
                   insert h (set (ready_list (ks c)))"
          "sleep_list (task_dispatch (task_set_ready h (ks c))) = sleep_list (ks c)"
          using h(3)
          by (auto simp: dispatch_fields task_set_ready_def task_upd_def list_insert_last_def)
        show ?thesis
          unfolding e using inv Cons h ok' f all
          by (auto simp: minv_def)
      qed
    qed
  qed
qed

lemma minv_return:
  assumes inv: "minv c" and c: "curr_task (ks c) = Some t"
  shows "minv (c\<lparr>in_lock := in_lock c - {t}\<rparr>)"
  using inv minv_cur [OF inv c] by (auto simp: minv_def)

lemma yield_sets:
  "sched_ok s \<Longrightarrow> set (ready_list (snd (sys_yield s))) = set (ready_list s) \<and>
     sleep_list (snd (sys_yield s)) = sleep_list s"
proof -
  assume ok: "sched_ok s"
  then obtain cur where c: "curr_task s = Some cur" by (auto simp: sched_ok_def)
  show ?thesis
  proof (cases "list_count (ready_list s) > 1")
    case False
    then show ?thesis by (simp add: sys_yield_def)
  next
    case True
    then have ne: "ready_list s \<noteq> []" by (auto simp: list_count_def)
    with ok c sched_ok_cur_mem [OF ok c] have "cur \<in> set (ready_list s)" "cur \<noteq> Idle_task"
      by (cases "ready_list s"; auto simp: sched_ok_def task_next_run_simps)+
    moreover from ok have "distinct (ready_list s)" by (simp add: sched_ok_def)
    ultimately show ?thesis using True c
      by (auto simp: sys_yield_def task_current_def dispatch_fields task_set_ready_def
          task_set_block_def task_upd_def list_remove_def list_insert_last_def)
  qed
qed

lemma minv_yield:
  assumes inv: "minv c"
  shows "minv (c\<lparr>ks := snd (sys_yield (ks c))\<rparr>)"
proof -
  from inv have ok: "sched_ok (ks c)" by (simp add: minv_def)
  from yield_ok [OF ok] yield_sets [OF ok] inv show ?thesis
    by (simp add: minv_def)
qed

lemma minv_tick:
  assumes inv: "minv c"
  shows "minv (c\<lparr>ks := task_time_tick (ks c)\<rparr>)"
proof -
  from inv have ok: "sched_ok (ks c)" by (simp add: minv_def)
  then obtain cur where c: "curr_task (ks c) = Some cur" by (auto simp: sched_ok_def)
  note cw = minv_cur [OF inv c]
  from tick_ok [OF ok] tick_sets [of "ks c"] inv c cw show ?thesis
    by (auto simp: minv_def)
qed

lemma minv_init: "sched_ok s \<Longrightarrow> minv \<lparr>mx = mutex_init, ks = s, in_lock = {}\<rparr>"
  by (simp add: minv_def mutex_init_def list_init_def)

lemma mreach_minv: "mreach c \<Longrightarrow> minv c"
proof (induction rule: mreach.induct)
  case (m_init s)
  then show ?case by (rule minv_init)
next
  case (m_step c c')
  from m_step.hyps(2) m_step.IH show ?case
  proof (cases rule: mstep.cases)
    case (m_lock t)
    with minv_lock [OF m_step.IH m_lock(2,3,4)] show ?thesis by simp
  next
    case (m_unlock t)
    with minv_unlock [OF m_step.IH m_unlock(2,4)] show ?thesis by simp
  next
    case (m_return t)
    with minv_return [OF m_step.IH m_return(2)] show ?thesis by simp
  next
    case (m_yield t)
    with minv_yield [OF m_step.IH] show ?thesis by simp
  next
    case m_tick
    with minv_tick [OF m_step.IH] show ?thesis by simp
  qed
qed


lemma lock_block_leaves:
  assumes ok: "sched_ok s" and c: "curr_task s = Some t" and nI: "t \<noteq> Idle_task"
  shows "curr_task (task_dispatch (task_set_block t s)) \<noteq> Some t"
proof -
  have "task_next_run (task_set_block t s) = Idle_task \<or>
        task_next_run (task_set_block t s) \<in> set (ready_list (task_set_block t s))"
    by (rule task_next_run_mem)
  moreover from ok nI have "t \<notin> set (ready_list (task_set_block t s))"
    by (auto simp: task_set_block_def list_remove_def sched_ok_def)
  ultimately show ?thesis using nI by (auto simp: dispatch_fields)
qed

text \<open>
  Claim C6. In every configuration reachable from an unlocked mutex, for the current task
  \<open>t\<close>:
  \<^item> if \<open>t\<close> was suspended inside \<open>mutex_lock\<close> and runs again, so that \<open>mutex_lock\<close> returns in
    it, \<open>t\<close> owns the mutex and the count is at least 1;
  \<^item> if \<open>t\<close> calls \<open>mutex_lock\<close> and the call does not block, it returns at once with \<open>t\<close> as
    owner and a count of at least 1, the scheduler untouched;
  \<^item> if the call blocks, \<open>t\<close> joins the tail of the wait queue, owner and count stay, and
    another task is dispatched: \<open>mutex_lock\<close> does not return in \<open>t\<close> then;
  \<^item> the owner locking again only increments the count;
  \<^item> the unlock that brings the count to zero with a waiting task makes the head of the
    queue the owner with count 1 in the same step that puts it on the ready queue.
\<close>

theorem mutex_lock_returns_owned:
  assumes r: "mreach c" and c: "curr_task (ks c) = Some t"
  shows "(t \<in> in_lock c \<longrightarrow> owner (mx c) = Some t \<and> 1 \<le> locked_count (mx c))
       \<and> (t \<notin> in_lock c \<and> \<not> lock_blocks (mx c) t \<longrightarrow>
            owner (fst (mutex_lock (mx c) (ks c))) = Some t \<and>
            1 \<le> locked_count (fst (mutex_lock (mx c) (ks c))) \<and>
            snd (mutex_lock (mx c) (ks c)) = ks c)
       \<and> (t \<noteq> Idle_task \<and> lock_blocks (mx c) t \<longrightarrow>
            wait_list (fst (mutex_lock (mx c) (ks c))) = wait_list (mx c) @ [t] \<and>
            owner (fst (mutex_lock (mx c) (ks c))) = owner (mx c) \<and>
            locked_count (fst (mutex_lock (mx c) (ks c))) = locked_count (mx c) \<and>
            curr_task (snd (mutex_lock (mx c) (ks c))) \<noteq> Some t)
       \<and> (owner (mx c) = Some t \<longrightarrow>
            mutex_lock (mx c) (ks c) = ((mx c)\<lparr>locked_count := locked_count (mx c) + 1\<rparr>, ks c))
       \<and> (owner (mx c) = Some t \<and> locked_count (mx c) = 1 \<and> wait_list (mx c) = h # rest \<longrightarrow>
            mutex_unlock (mx c) (ks c) =
              (\<lparr>owner = Some h, locked_count = 1, wait_list = rest\<rparr>,
               task_dispatch (task_set_ready h (ks c))) \<and>
            h \<in> set (ready_list (snd (mutex_unlock (mx c) (ks c)))))"
proof -
  note inv = mreach_minv [OF r]
  from inv have ok: "sched_ok (ks c)" by (simp add: minv_def)
  have a: "t \<in> in_lock c \<longrightarrow> owner (mx c) = Some t \<and> 1 \<le> locked_count (mx c)"
    using inv minv_cur [OF inv c] by (auto simp: minv_def)
  have b: "t \<notin> in_lock c \<and> \<not> lock_blocks (mx c) t \<longrightarrow>
            owner (fst (mutex_lock (mx c) (ks c))) = Some t \<and>
            1 \<le> locked_count (fst (mutex_lock (mx c) (ks c))) \<and>
            snd (mutex_lock (mx c) (ks c)) = ks c"
    using inv c
    by (auto simp: lock_blocks_def minv_def mutex_lock_def task_current_def)
  have b': "t \<noteq> Idle_task \<and> lock_blocks (mx c) t \<longrightarrow>
            wait_list (fst (mutex_lock (mx c) (ks c))) = wait_list (mx c) @ [t] \<and>
            owner (fst (mutex_lock (mx c) (ks c))) = owner (mx c) \<and>
            locked_count (fst (mutex_lock (mx c) (ks c))) = locked_count (mx c) \<and>
            curr_task (snd (mutex_lock (mx c) (ks c))) \<noteq> Some t"
    using c lock_block_leaves [OF ok c]
    by (auto simp: lock_blocks_def mutex_lock_block)
  have d: "owner (mx c) = Some t \<longrightarrow>
            mutex_lock (mx c) (ks c) = ((mx c)\<lparr>locked_count := locked_count (mx c) + 1\<rparr>, ks c)"
    using inv c by (auto simp: minv_def mutex_lock_again)
  have e: "owner (mx c) = Some t \<and> locked_count (mx c) = 1 \<and> wait_list (mx c) = h # rest \<longrightarrow>
            mutex_unlock (mx c) (ks c) =
              (\<lparr>owner = Some h, locked_count = 1, wait_list = rest\<rparr>,
               task_dispatch (task_set_ready h (ks c))) \<and>
            h \<in> set (ready_list (snd (mutex_unlock (mx c) (ks c))))"
  proof (intro impI, elim conjE)
    assume o: "owner (mx c) = Some t" and one: "locked_count (mx c) = 1"
      and w: "wait_list (mx c) = h # rest"
    from o c have o': "owner (mx c) = curr_task (ks c)" by simp
    from inv w have "h \<noteq> Idle_task" by (auto simp: minv_def)
    then show "mutex_unlock (mx c) (ks c) =
              (\<lparr>owner = Some h, locked_count = 1, wait_list = rest\<rparr>,
               task_dispatch (task_set_ready h (ks c))) \<and>
            h \<in> set (ready_list (snd (mutex_unlock (mx c) (ks c))))"
      unfolding mutex_unlock_handoff [OF o' one w]
      by (simp add: dispatch_fields task_set_ready_def task_upd_def list_insert_last_def)
  qed
  from a b b' d e show ?thesis by blast
qed


lemma yield_rotate:
  assumes "ready_list s = a # b # r" and "curr_task s = Some a" and "a \<noteq> Idle_task"
  shows "ready_list (snd (sys_yield s)) = b # r @ [a]"
    and "curr_task (snd (sys_yield s)) = Some b"
  using assms
  by (simp_all add: sys_yield_def task_current_def dispatch_fields task_set_ready_def
      task_set_block_def task_upd_def list_remove_def list_insert_last_def list_count_def
      task_next_run_def list_first_def)

lemma mrun0_facts:
  "mx mrun0 = \<lparr>owner = None, locked_count = 0, wait_list = []\<rparr>"
  "curr_task (ks mrun0) = Some First_task"
  "ready_list (ks mrun0) = [First_task, Table_task 0]"
  "in_lock mrun0 = {}"
  by (simp_all add: mrun0_def mutex_init_def list_init_def demo_kernel_def)

lemma mrun1_facts:
  "mx mrun1 = \<lparr>owner = Some First_task, locked_count = 1, wait_list = []\<rparr>"
  "curr_task (ks mrun1) = Some First_task"
  "ready_list (ks mrun1) = [First_task, Table_task 0]"
  "in_lock mrun1 = {}"
  by (simp_all add: mrun1_def mrun0_facts mutex_lock_free lock_blocks_def)

lemma mrun2_facts:
  "mx mrun2 = \<lparr>owner = Some First_task, locked_count = 1, wait_list = []\<rparr>"
  "curr_task (ks mrun2) = Some (Table_task 0)"
  "ready_list (ks mrun2) = [Table_task 0, First_task]"
  "in_lock mrun2 = {}"
  by (simp_all add: mrun2_def mrun1_facts yield_rotate [OF mrun1_facts(3) mrun1_facts(2)])

lemma mrun3_facts:
  "mx mrun3 = \<lparr>owner = Some First_task, locked_count = 1, wait_list = [Table_task 0]\<rparr>"
  "curr_task (ks mrun3) = Some First_task"
  "ready_list (ks mrun3) = [First_task]"
  "in_lock mrun3 = {Table_task 0}"
proof -
  have e: "mutex_lock (mx mrun2) (ks mrun2) =
     ((mx mrun2)\<lparr>wait_list := wait_list (mx mrun2) @ [Table_task 0]\<rparr>,
      task_dispatch (task_set_block (Table_task 0) (ks mrun2)))"
    by (rule mutex_lock_block) (simp_all add: mrun2_facts)
  show "mx mrun3 = \<lparr>owner = Some First_task, locked_count = 1, wait_list = [Table_task 0]\<rparr>"
    "curr_task (ks mrun3) = Some First_task"
    "ready_list (ks mrun3) = [First_task]"
    "in_lock mrun3 = {Table_task 0}"
    unfolding mrun3_def e
    by (simp_all add: mrun2_facts lock_blocks_def dispatch_fields task_set_block_def
        list_remove_def task_next_run_def list_count_def list_first_def)
qed

lemma mrun4_facts:
  "mx mrun4 = \<lparr>owner = Some (Table_task 0), locked_count = 1, wait_list = []\<rparr>"
  "curr_task (ks mrun4) = Some First_task"
  "ready_list (ks mrun4) = [First_task, Table_task 0]"
  "in_lock mrun4 = {Table_task 0}"
proof -
  have e: "mutex_unlock (mx mrun3) (ks mrun3) =
     (\<lparr>owner = Some (Table_task 0), locked_count = 1, wait_list = []\<rparr>,
      task_dispatch (task_set_ready (Table_task 0) (ks mrun3)))"
    by (rule mutex_unlock_handoff) (simp_all add: mrun3_facts)
  show "mx mrun4 = \<lparr>owner = Some (Table_task 0), locked_count = 1, wait_list = []\<rparr>"
    "curr_task (ks mrun4) = Some First_task"
    "ready_list (ks mrun4) = [First_task, Table_task 0]"
    "in_lock mrun4 = {Table_task 0}"
    unfolding mrun4_def e
    by (simp_all add: mrun3_facts dispatch_fields task_set_ready_def task_upd_def
        list_insert_last_def task_next_run_def list_count_def list_first_def)
qed

lemma mrun5_facts:
  "mx mrun5 = \<lparr>owner = Some (Table_task 0), locked_count = 1, wait_list = []\<rparr>"
  "curr_task (ks mrun5) = Some (Table_task 0)"
  "ready_list (ks mrun5) = [Table_task 0, First_task]"
  "in_lock mrun5 = {Table_task 0}"
  by (simp_all add: mrun5_def mrun4_facts yield_rotate [OF mrun4_facts(3) mrun4_facts(2)])

lemma mreach_mrun3: "mreach mrun3"
proof -
  have r0: "mreach mrun0"
    unfolding mrun0_def by (rule m_init [OF sched_ok_demo_kernel])
  have "mstep mrun0 mrun1"
    unfolding mrun1_def by (rule m_lock) (simp_all add: mrun0_facts)
  with r0 have r1: "mreach mrun1" by (rule m_step)
  have "mstep mrun1 mrun2"
    unfolding mrun2_def by (rule m_yield [of _ First_task]) (simp_all add: mrun1_facts)
  with r1 have r2: "mreach mrun2" by (rule m_step)
  have "mstep mrun2 mrun3"
    unfolding mrun3_def by (rule m_lock) (simp_all add: mrun2_facts)
  with r2 show ?thesis by (rule m_step)
qed

lemma mreach_mrun5: "mreach mrun5"
proof -
  have "mstep mrun3 mrun4"
    unfolding mrun4_def by (rule m_unlock [of _ First_task]) (simp_all add: mrun3_facts)
  with mreach_mrun3 have r4: "mreach mrun4" by (rule m_step)
  have "mstep mrun4 mrun5"
    unfolding mrun5_def by (rule m_yield [of _ First_task]) (simp_all add: mrun4_facts)
  with r4 show ?thesis by (rule m_step)
qed

theorem mutex_lock_returns_owned_witness:
  "mreach mrun5 \<and> curr_task (ks mrun5) = Some (Table_task 0)
   \<and> Table_task 0 \<in> in_lock mrun5
   \<and> owner (mx mrun5) = Some (Table_task 0) \<and> 1 \<le> locked_count (mx mrun5)
   \<and> mreach mrun3 \<and> curr_task (ks mrun3) = Some First_task
   \<and> owner (mx mrun3) = Some First_task \<and> locked_count (mx mrun3) = 1
   \<and> wait_list (mx mrun3) = [Table_task 0]
   \<and> fst (mutex_unlock (mx mrun3) (ks mrun3)) =
        \<lparr>owner = Some (Table_task 0), locked_count = 1, wait_list = []\<rparr>
   \<and> fst (mutex_lock (mx mrun3) (ks mrun3)) =
        \<lparr>owner = Some First_task, locked_count = 2, wait_list = [Table_task 0]\<rparr>"
proof -
  note r3 = mreach_mrun3
  from mutex_lock_returns_owned [OF mreach_mrun5 mrun5_facts(2)]
    mutex_lock_returns_owned [OF r3 mrun3_facts(2), of "Table_task 0" "[]"]
    mreach_mrun5 r3
  show ?thesis by (simp add: mrun5_facts mrun3_facts)
qed

section \<open>TTY input: a byte from the keyboard\<close>

lemma tty_fifo_put_fields:
  assumes "fifo_count f < fifo_size f" and "0 \<le> fifo_write f"
  shows "tty_fifo_put f c =
     (0, f\<lparr>fifo_buf := (fifo_buf f)[nat (fifo_write f) := c],
           fifo_write := (if fifo_write f + 1 \<ge> fifo_size f then 0 else fifo_write f + 1),
           fifo_count := fifo_count f + 1\<rparr>)"
  using assms by (simp add: tty_fifo_put_def Let_def)

lemma fifo_index_distinct:
  fixes r :: int
  assumes "0 < n" "i < c" "c < n" "0 \<le> i"
  shows "(r + i) mod n \<noteq> (r + c) mod n"
proof
  assume "(r + i) mod n = (r + c) mod n"
  then have "(r + c) mod n = (r + i) mod n" by simp
  then have "n dvd (r + c) - (r + i)" by (simp only: mod_eq_dvd_iff)
  then have "n dvd c - i" by simp
  moreover have "0 < c - i" "c - i < n" using assms by auto
  ultimately show False using zdvd_imp_le by fastforce
qed

lemma fifo_next_index:
  fixes r :: int
  assumes "0 < n" "w = (r + c) mod n"
  shows "(if w + 1 \<ge> n then 0 else w + 1) = (r + (c + 1)) mod n"
proof -
  have w: "0 \<le> w" "w < n" using assms by simp_all
  have "(r + (c + 1)) mod n = (w + 1) mod n"
    using assms(2) by (simp add: add.assoc [symmetric] mod_add_left_eq)
  also have "\<dots> = (if w + 1 \<ge> n then 0 else w + 1)"
  proof (cases "w + 1 \<ge> n")
    case True
    with w have "w + 1 = n" by simp
    then show ?thesis by simp
  next
    case False
    with w show ?thesis by simp
  qed
  finally show ?thesis by simp
qed

lemma tty_fifo_put_appends:
  assumes wf: "fifo_wf f" and room: "fifo_count f < fifo_size f"
  shows "fst (tty_fifo_put f c) = 0"
    and "fifo_contents (snd (tty_fifo_put f c)) = fifo_contents f @ [c]"
    and "fifo_wf (snd (tty_fifo_put f c))"
proof -
  from wf have w0: "0 \<le> fifo_write f" "fifo_write f < fifo_size f"
    by (simp_all add: fifo_wf_def)
  note e = tty_fifo_put_fields [OF room w0(1)]
  show "fst (tty_fifo_put f c) = 0" by (simp add: e)
  let ?n = "fifo_size f"
  have len: "nat (fifo_write f) < length (fifo_buf f)"
    using wf w0 by (simp add: fifo_wf_def)
  have cnt: "nat (fifo_count f + 1) = Suc (nat (fifo_count f))"
    using wf by (simp add: fifo_wf_def nat_add_distrib)
  have old: "\<And>i. i < nat (fifo_count f) \<Longrightarrow>
      (fifo_buf f)[nat (fifo_write f) := c] ! nat ((fifo_read f + int i) mod ?n) =
      fifo_buf f ! nat ((fifo_read f + int i) mod ?n)"
  proof -
    fix i assume i: "i < nat (fifo_count f)"
    have "(fifo_read f + int i) mod ?n \<noteq> (fifo_read f + fifo_count f) mod ?n"
      using wf room i by (intro fifo_index_distinct) (auto simp: fifo_wf_def)
    moreover have "0 \<le> (fifo_read f + int i) mod ?n" using wf by (simp add: fifo_wf_def)
    moreover have "fifo_write f = (fifo_read f + fifo_count f) mod ?n"
      using wf by (simp add: fifo_wf_def)
    ultimately have "nat ((fifo_read f + int i) mod ?n) \<noteq> nat (fifo_write f)"
      using w0(1) by (simp only: eq_nat_nat_iff) simp
    then show "(fifo_buf f)[nat (fifo_write f) := c] ! nat ((fifo_read f + int i) mod ?n) =
      fifo_buf f ! nat ((fifo_read f + int i) mod ?n)" by simp
  qed
  have last: "(fifo_buf f)[nat (fifo_write f) := c] !
        nat ((fifo_read f + int (nat (fifo_count f))) mod ?n) = c"
    using wf len by (simp add: fifo_wf_def)
  show "fifo_contents (snd (tty_fifo_put f c)) = fifo_contents f @ [c]"
    unfolding e using old last
    by (simp add: fifo_contents_def cnt)
  show "fifo_wf (snd (tty_fifo_put f c))"
    unfolding e using wf room w0
    using fifo_next_index [of ?n "fifo_write f" "fifo_read f" "fifo_count f"]
    by (auto simp: fifo_wf_def)
qed


text \<open>
  \<open>tty_in\<close> on a TTY whose input FIFO has room. While the count of the input semaphore is at
  least the capacity, \<open>tty_in\<close> returns at once: the TTY and the scheduler are as before and
  nothing is reported. Otherwise, when the input FIFO has room, the byte becomes the last
  byte of the FIFO and the input semaphore is signalled by \<open>sem_notify\<close>: its count goes up
  by one when no task waits, and else the first waiting task is taken off the wait queue and
  made ready.
\<close>

theorem tty_in_discards_or_appends:
  "(ibuf_size \<le> sem_count (isem tty) \<longrightarrow> tty_in ibuf_size ch tty s = (tty, s))
   \<and> (sem_count (isem tty) < ibuf_size \<and> fifo_wf (ififo tty) \<and>
        fifo_count (ififo tty) < fifo_size (ififo tty) \<longrightarrow>
        fifo_contents (ififo (fst (tty_in ibuf_size ch tty s))) = fifo_contents (ififo tty) @ [ch]
        \<and> fifo_count (ififo (fst (tty_in ibuf_size ch tty s))) = fifo_count (ififo tty) + 1
        \<and> fifo_wf (ififo (fst (tty_in ibuf_size ch tty s)))
        \<and> (isem (fst (tty_in ibuf_size ch tty s)), snd (tty_in ibuf_size ch tty s)) =
            sem_notify (isem tty) s
        \<and> (sem_wait_list (isem tty) = [] \<longrightarrow>
             sem_cnt (isem (fst (tty_in ibuf_size ch tty s))) = sem_cnt (isem tty) + 1 \<and>
             snd (tty_in ibuf_size ch tty s) = s)
        \<and> (sem_wait_list (isem tty) = w # ws \<longrightarrow>
             sem_cnt (isem (fst (tty_in ibuf_size ch tty s))) = sem_cnt (isem tty) \<and>
             sem_wait_list (isem (fst (tty_in ibuf_size ch tty s))) = ws \<and>
             snd (tty_in ibuf_size ch tty s) = task_dispatch (task_set_ready w s)))"
proof (intro conjI impI)
  assume "ibuf_size \<le> sem_count (isem tty)"
  then show "tty_in ibuf_size ch tty s = (tty, s)" by (simp add: tty_in_def)
next
  assume a: "sem_count (isem tty) < ibuf_size \<and> fifo_wf (ififo tty) \<and>
        fifo_count (ififo tty) < fifo_size (ififo tty)"
  then have wf: "fifo_wf (ififo tty)" and room: "fifo_count (ififo tty) < fifo_size (ififo tty)"
    and lt: "\<not> ibuf_size \<le> sem_count (isem tty)" by auto
  have e: "tty_in ibuf_size ch tty s =
      (tty\<lparr>ififo := snd (tty_fifo_put (ififo tty) ch), isem := fst (sem_notify (isem tty) s)\<rparr>,
       snd (sem_notify (isem tty) s))"
    using lt by (simp add: tty_in_def Let_def split: prod.splits)
  note p = tty_fifo_put_appends [OF wf room, of ch]
  show "fifo_contents (ififo (fst (tty_in ibuf_size ch tty s))) = fifo_contents (ififo tty) @ [ch]"
    by (simp add: e p)
  show "fifo_count (ififo (fst (tty_in ibuf_size ch tty s))) = fifo_count (ififo tty) + 1"
    using room by (simp add: e tty_fifo_put_def Let_def)
  show "fifo_wf (ififo (fst (tty_in ibuf_size ch tty s)))"
    by (simp add: e p)
  show "(isem (fst (tty_in ibuf_size ch tty s)), snd (tty_in ibuf_size ch tty s)) =
            sem_notify (isem tty) s"
    by (simp add: e)
  show "sem_cnt (isem (fst (tty_in ibuf_size ch tty s))) = sem_cnt (isem tty) + 1"
    if "sem_wait_list (isem tty) = []"
    using that by (simp add: e sem_notify_def list_count_def)
  show "snd (tty_in ibuf_size ch tty s) = s" if "sem_wait_list (isem tty) = []"
    using that by (simp add: e sem_notify_def list_count_def)
  show "sem_cnt (isem (fst (tty_in ibuf_size ch tty s))) = sem_cnt (isem tty)"
    if "sem_wait_list (isem tty) = w # ws"
    using that by (simp add: e sem_notify_def list_count_def list_remove_first_def)
  show "sem_wait_list (isem (fst (tty_in ibuf_size ch tty s))) = ws"
    if "sem_wait_list (isem tty) = w # ws"
    using that by (simp add: e sem_notify_def list_count_def list_remove_first_def)
  show "snd (tty_in ibuf_size ch tty s) = task_dispatch (task_set_ready w s)"
    if "sem_wait_list (isem tty) = w # ws"
    using that by (simp add: e sem_notify_def list_count_def list_remove_first_def)
qed

text \<open>
  Claim C10. The claim: a byte that arrives while the count of the input semaphore is below
  the capacity is appended to the input FIFO and the semaphore is signalled. \<open>tty_in\<close> looks
  at the semaphore only and never at the result of \<open>tty_fifo_put\<close>. When the FIFO itself is
  full while the semaphore is below the capacity, as it is between the \<open>sem_wait\<close> and the
  \<open>tty_fifo_get\<close> of a reader, \<open>tty_in\<close> takes the second branch, \<open>tty_fifo_put\<close> refuses the
  byte and the FIFO is unchanged, and the semaphore is signalled all the same: the byte is
  lost and the semaphore, at 512, counts a byte that the FIFO does not hold.
\<close>

theorem tty_in_full_fifo_drops_byte:
  "\<not> 512 \<le> sem_count (isem full_tty)
   \<and> ififo (fst (tty_in 512 0x62 full_tty demo_kernel)) = ififo full_tty
   \<and> fifo_contents (ififo (fst (tty_in 512 0x62 full_tty demo_kernel))) \<noteq>
       fifo_contents (ififo full_tty) @ [0x62]
   \<and> sem_cnt (isem (fst (tty_in 512 0x62 full_tty demo_kernel))) = 512
   \<and> sem_cnt (isem full_tty) = 511"
  by (simp add: tty_in_def full_tty_def tty_open_dev_def sem_count_def tty_fifo_put_def
      sem_notify_def list_count_def Let_def)

lemma fifo_wf_open: "fifo_wf (ififo (tty_open_dev 512 512))"
  by (simp add: fifo_wf_def tty_open_dev_def tty_fifo_init_def)

theorem tty_in_discards_or_appends_witness:
  "sem_count (isem (tty_open_dev 512 512)) < 512
   \<and> fifo_wf (ififo (tty_open_dev 512 512))
   \<and> fifo_count (ififo (tty_open_dev 512 512)) < fifo_size (ififo (tty_open_dev 512 512))
   \<and> sem_wait_list (isem (tty_open_dev 512 512)) = []
   \<and> fifo_contents (ififo (fst (tty_in 512 0x61 (tty_open_dev 512 512) demo_kernel))) = [0x61]
   \<and> sem_cnt (isem (fst (tty_in 512 0x61 (tty_open_dev 512 512) demo_kernel))) = 1
   \<and> 512 \<le> sem_count (isem (full_tty\<lparr>isem := sem_init 512\<rparr>))
   \<and> tty_in 512 0x62 (full_tty\<lparr>isem := sem_init 512\<rparr>) demo_kernel =
        (full_tty\<lparr>isem := sem_init 512\<rparr>, demo_kernel)"
proof -
  have a: "sem_count (isem (tty_open_dev 512 512)) < 512"
    "fifo_count (ififo (tty_open_dev 512 512)) < fifo_size (ififo (tty_open_dev 512 512))"
    "sem_wait_list (isem (tty_open_dev 512 512)) = []"
    "fifo_contents (ififo (tty_open_dev 512 512)) = []"
    "sem_cnt (isem (tty_open_dev 512 512)) = 0"
    by (simp_all add: tty_open_dev_def tty_fifo_init_def sem_init_def sem_count_def
        list_init_def fifo_contents_def)
  have b: "512 \<le> sem_count (isem (full_tty\<lparr>isem := sem_init 512\<rparr>))"
    by (simp add: sem_init_def sem_count_def)
  from tty_in_discards_or_appends [where ibuf_size = 512 and tty = "tty_open_dev 512 512"
      and ch = "0x61" and s = demo_kernel]
    tty_in_discards_or_appends [where ibuf_size = 512
      and tty = "full_tty\<lparr>isem := sem_init 512\<rparr>" and ch = "0x62" and s = demo_kernel]
    a b fifo_wf_open
  show ?thesis by simp
qed

section \<open>Memory: allocation failures\<close>

subsection \<open>An allocator with no free page\<close>

lemma bitmap_find_run_full:
  "list_all (\<lambda>x. x) bits \<Longrightarrow> 0 < n \<Longrightarrow> bitmap_find_run n bits i = None"
proof (induction bits arbitrary: i)
  case Nil
  show ?case by simp
next
  case (Cons b bs)
  then obtain m where m: "n = Suc m" by (cases n) auto
  from Cons.prems have "b" by simp
  with m have "\<not> list_all (\<lambda>x. \<not> x) (take n (b # bs))" by simp
  with Cons show ?case by simp
qed

lemma addr_alloc_page_full:
  "list_all (\<lambda>x. x) (bitmap (paddr_alloc s)) \<Longrightarrow> addr_alloc_page (Suc 0) s = (0, s)"
  by (simp add: addr_alloc_page_def bitmap_alloc_nbits_def bitmap_find_run_full Let_def)

lemma full_memory_kernel_full: "list_all (\<lambda>x. x) (bitmap (paddr_alloc full_memory_kernel))"
  by (simp add: full_memory_kernel_def demo_kernel_def list_all_iff)

subsection \<open>sbrk when the page allocation fails\<close>

text \<open>
  Claim C4. The claim fails where the allocator has no free page. The first task's heap ends
  on a page boundary and it asks for one page more. \<open>addr_alloc_page\<close> returns 0, and
  \<open>memory_alloc_for_page_dir\<close> reports that with \<open>return 0\<close>, its value for success too, so the
  test \<open>err < 0\<close> of \<open>sys_sbrk\<close> does not see it: \<open>sys_sbrk\<close> returns the previous \<open>heap_end\<close>,
  not the sentinel, and \<open>heap_end\<close> is moved up over a page that is neither allocated nor
  mapped.
\<close>

theorem sys_sbrk_ignores_allocation_failure:
  "fst (addr_alloc_page 1 full_memory_kernel) = 0
   \<and> heap_end (task_tab full_memory_kernel First_task) = 0x80004000
   \<and> fst (sys_sbrk 4096 full_memory_kernel) = 0x80004000
   \<and> fst (sys_sbrk 4096 full_memory_kernel) \<noteq> - 1
   \<and> heap_end (task_tab (snd (sys_sbrk 4096 full_memory_kernel)) First_task) = 0x80005000
   \<and> pmem (snd (sys_sbrk 4096 full_memory_kernel)) = pmem full_memory_kernel
   \<and> paddr_alloc (snd (sys_sbrk 4096 full_memory_kernel)) = paddr_alloc full_memory_kernel"
proof -
  note a = addr_alloc_page_full [OF full_memory_kernel_full]
  have c: "task_current full_memory_kernel = Some First_task"
    "heap_end (task_tab full_memory_kernel First_task) = 0x80004000"
    "cr3 (tss (task_tab full_memory_kernel First_task)) = 0x103000"
    by (simp_all add: full_memory_kernel_def demo_kernel_def demo_task_def zero_task_def
        task_current_def)
  have pc: "nat (sint (up2 (0x1000 :: u32) MEM_PAGE_SIZE div MEM_PAGE_SIZE)) = Suc 0"
    by (simp add: up2_def MEM_PAGE_SIZE_def)
  have m: "memory_alloc_page_for 0x80004000 0x1000 (PTE_P OR PTE_U OR PTE_W) full_memory_kernel
           = (0, full_memory_kernel)"
    by (simp add: memory_alloc_page_for_def c memory_alloc_for_page_dir_def pc a Let_def)
  show ?thesis
    by (simp add: a sys_sbrk_def c m MEM_PAGE_SIZE_def Let_def task_upd_def)
qed

section \<open>Frames of the memory functions\<close>

lemma mem_frame_refl: "mem_frame s s"
  by (simp add: mem_frame_def)

lemma mem_frame_trans: "mem_frame s s1 \<Longrightarrow> mem_frame s1 s2 \<Longrightarrow> mem_frame s s2"
  by (simp add: mem_frame_def)

lemma mem_frame_upd: "mem_frame s s' \<Longrightarrow> mem_frame s (s'\<lparr>pmem := m\<rparr>)"
  "mem_frame s s' \<Longrightarrow> mem_frame s (s'\<lparr>paddr_alloc := a\<rparr>)"
  by (simp_all add: mem_frame_def)

lemma addr_alloc_page_frame: "mem_frame s (snd (addr_alloc_page n s))"
  by (simp add: addr_alloc_page_def mem_frame_def Let_def split: prod.splits)

lemma addr_free_page_frame: "mem_frame s (addr_free_page a n s)"
  by (simp add: addr_free_page_def mem_frame_def Let_def)

lemma fold_frame:
  assumes "\<And>x s1. mem_frame s1 (f x s1)"
  shows "mem_frame s (fold f xs s)"
proof (induction xs arbitrary: s)
  case Nil show ?case by (simp add: mem_frame_refl)
next
  case (Cons x xs)
  from assms [of s x] Cons [of "f x s"] show ?case
    by (simp add: mem_frame_trans)
qed

lemma destroy_ptes_frame: "mem_frame s (destroy_ptes t s)"
  unfolding destroy_ptes_def
  by (rule fold_frame) (simp add: Let_def addr_free_page_frame mem_frame_refl)

lemma destroy_pdes_frame: "mem_frame s (destroy_pdes d s)"
  unfolding destroy_pdes_def
  by (rule fold_frame)
     (auto simp: Let_def mem_frame_refl intro: mem_frame_trans destroy_ptes_frame addr_free_page_frame)

lemma memory_destroy_uvm_frame: "mem_frame s (memory_destroy_uvm d s)"
  unfolding memory_destroy_uvm_def
  by (rule mem_frame_trans [OF destroy_pdes_frame addr_free_page_frame])

lemma find_pte_frame: "mem_frame s (snd (find_pte d v a s))"
  using addr_alloc_page_frame [of s 1]
  by (auto simp: find_pte_def Let_def mem_frame_refl mem_frame_upd split: prod.splits)

lemma find_pte_frameD: "find_pte d v a s = (p, s') \<Longrightarrow> mem_frame s s'"
  using find_pte_frame [of s d v a] by simp

lemma memory_free_page_frame: "mem_frame s (memory_free_page a s)"
proof (cases "a < MEMORY_TASK_BASE")
  case True
  then show ?thesis by (simp add: memory_free_page_def addr_free_page_frame)
next
  case False
  show ?thesis
  proof (cases "task_current s")
    case None
    with False show ?thesis by (simp add: memory_free_page_def mem_frame_refl)
  next
    case (Some cur)
    obtain p s1 where f: "find_pte (cr3 (tss (task_tab s cur))) a False s = (p, s1)"
      by (cases "find_pte (cr3 (tss (task_tab s cur))) a False s")
    note m = find_pte_frameD [OF f]
    from mem_frame_trans [OF m addr_free_page_frame]
    have "mem_frame s (addr_free_page (pte_paddr (pmem s1 p)) 1 s1)" .
    with False Some f m show ?thesis
      by (simp add: memory_free_page_def Let_def mem_frame_upd)
  qed
qed

lemma memory_create_uvm_frame: "mem_frame s (snd (memory_create_uvm s))"
  using addr_alloc_page_frame [of s 1]
  by (auto simp: memory_create_uvm_def Let_def mem_frame_upd split: prod.splits)


lemma mem_frame_fields:
  assumes "mem_frame s s'"
  shows "curr_task s' = curr_task s" "ready_list s' = ready_list s" "sleep_list s' = sleep_list s"
    "task_list s' = task_list s" "task_tab s' = task_tab s" "task_addr s' = task_addr s"
    "app_code_sel s' = app_code_sel s" "app_data_sel s' = app_data_sel s"
    "gdt_table s' = gdt_table s" "kernel_page_dir s' = kernel_page_dir s"
    "cr3_reg s' = cr3_reg s" "sys_files s' = sys_files s" "disk s' = disk s"
  using assms by (simp_all add: mem_frame_def)

lemmas addr_free_page_fields = mem_frame_fields [OF addr_free_page_frame]
lemmas addr_alloc_page_fields = mem_frame_fields [OF addr_alloc_page_frame]
lemmas memory_free_page_fields = mem_frame_fields [OF memory_free_page_frame]
lemmas memory_destroy_uvm_fields = mem_frame_fields [OF memory_destroy_uvm_frame]
lemmas memory_create_uvm_fields = mem_frame_fields [OF memory_create_uvm_frame]

lemma bitmap_set_bit_one: "bitmap_set_bit bits i (Suc 0) b = bits[i := b]"
  by (simp add: bitmap_set_bit_def)

lemma fold_id: "(\<And>x. x \<in> set xs \<Longrightarrow> f x s = s) \<Longrightarrow> fold f xs s = s"
  by (induction xs) simp_all

lemma destroy_pdes_none:
  "(\<And>a. \<not> entry_present (pmem s a)) \<Longrightarrow> destroy_pdes d s = s"
  unfolding destroy_pdes_def by (rule fold_id) (simp add: Let_def)

lemma clear_task_fields:
  "gdt_table (clear_task t s) = gdt_table s" "paddr_alloc (clear_task t s) = paddr_alloc s"
  "pmem (clear_task t s) = pmem s" "ready_list (clear_task t s) = ready_list s"
  "curr_task (clear_task t s) = curr_task s"
  by (simp_all add: clear_task_def task_upd_def)

lemma sys_wait_keeps_gdt: "gdt_table (snd (sys_wait s)) = gdt_table s"
  by (simp add: sys_wait_def Let_def task_dispatch_def task_upd_def task_set_block_def
      task_switch_from_to_def clear_task_fields memory_free_page_fields
      memory_destroy_uvm_fields split: option.splits)

lemma task_uninit_gdt:
  "gdt_table (task_uninit t s) =
     (if tss_sel (task_tab s t) \<noteq> 0
      then (gdt_table s)[nat (uint (tss_sel (task_tab s t)) div 8) := 0] else gdt_table s)"
  by (simp add: task_uninit_def Let_def clear_task_fields memory_free_page_fields
      memory_destroy_uvm_fields gdt_free_sel_def)

subsection \<open>wait and the resources of the child\<close>

lemma zombie_kernel_facts:
  "task_current zombie_kernel = Some First_task"
  "parent (task_tab zombie_kernel (Table_task 0)) = Some First_task"
  "state (task_tab zombie_kernel (Table_task 0)) = TASK_ZOMBIE"
  "pid (task_tab zombie_kernel (Table_task 0)) = 0x30000"
  "status (task_tab zombie_kernel (Table_task 0)) = 7"
  "tss_sel (task_tab zombie_kernel (Table_task 0)) = 0x40"
  "cr3 (tss (task_tab zombie_kernel (Table_task 0))) = 0x105000"
  "esp0 (tss (task_tab zombie_kernel (Table_task 0))) = 0x105000"
  "gdt_table zombie_kernel = replicate 9 0x80 @ replicate 247 0"
  "paddr_alloc zombie_kernel = \<lparr>alloc_start = 0x100000, alloc_size = 0x10000,
      page_size = 0x1000, bitmap = replicate 6 True @ replicate 10 False\<rparr>"
  "pmem zombie_kernel = (\<lambda>_. 0)"
  by (simp_all add: zombie_kernel_def demo_kernel_def demo_task_def zero_task_def zero_tss_def
      task_current_def)

lemma zombie_find:
  "find (\<lambda>i. parent (task_tab zombie_kernel (Table_task i)) = Some First_task \<and>
             state (task_tab zombie_kernel (Table_task i)) = TASK_ZOMBIE) [0..<TASK_NR] = Some 0"
  by (simp add: TASK_NR_def upt_rec [of 0] zombie_kernel_facts)

text \<open>
  Claim C3. The claim fails for the TSS slot. With a zombie child (pid \<open>0x30000\<close>, exit
  status 7, TSS selector \<open>0x40\<close>) \<open>sys_wait\<close> returns the pid and the status and frees the
  child's page directory and kernel stack page (pages 5 and 4 of the bitmap), but it never
  calls \<open>gdt_free_sel\<close>: slot 8 of the descriptor table stays marked present, and the
  structure that held the selector is cleared. \<open>task_uninit\<close>, which releases the same three
  resources, does free the slot.
\<close>

theorem sys_wait_leaves_tss_slot:
  "fst (sys_wait zombie_kernel) = Reaped 0x30000 7
   \<and> tss_sel (task_tab zombie_kernel (Table_task 0)) = 0x40
   \<and> gdt_table zombie_kernel ! 8 = 0x80
   \<and> gdt_table (snd (sys_wait zombie_kernel)) ! 8 = 0x80
   \<and> tss_sel (task_tab (snd (sys_wait zombie_kernel)) (Table_task 0)) = 0
   \<and> bitmap (paddr_alloc (snd (sys_wait zombie_kernel))) = replicate 4 True @ replicate 12 False
   \<and> gdt_table (task_uninit (Table_task 0) zombie_kernel) ! 8 = 0"
proof -
  have np: "\<And>a. \<not> entry_present (pmem zombie_kernel a)"
    by (simp add: zombie_kernel_facts entry_present_def)
  have d: "memory_destroy_uvm 0x105000 zombie_kernel = addr_free_page 0x105000 (Suc 0) zombie_kernel"
    by (simp add: memory_destroy_uvm_def destroy_pdes_none [OF np])
  have w: "sys_wait zombie_kernel =
      (Reaped 0x30000 7, clear_task (Table_task 0)
         (addr_free_page 0x104000 (Suc 0) (addr_free_page 0x105000 (Suc 0) zombie_kernel)))"
    by (simp add: sys_wait_def zombie_kernel_facts zombie_find Let_def d
        addr_free_page_fields memory_free_page_def MEM_PAGE_SIZE_def MEMORY_TASK_BASE_def)
  have g8: "(replicate 9 128 @ replicate 247 0) ! 8 = (128 :: u16)"
    by (simp add: nth_append)
  have u: "gdt_table (task_uninit (Table_task 0) zombie_kernel) ! 8 = 0"
    by (simp add: task_uninit_gdt zombie_kernel_facts)
  have i: "unat ((0x105000 - 0x100000) div 0x1000 :: u32) = 5"
    "unat ((0x104000 - 0x100000) div 0x1000 :: u32) = 4" by simp_all
  have l: "replicate 6 True @ replicate 10 False =
      [True, True, True, True, True, True, False, False, False, False, False, False, False,
       False, False, False]"
    "replicate 4 True @ replicate 12 False =
      [True, True, True, True, False, False, False, False, False, False, False, False, False,
       False, False, False]"
    by (simp_all add: numeral_eq_Suc)
  have b: "bitmap (paddr_alloc (addr_free_page 0x104000 (Suc 0) (addr_free_page 0x105000 (Suc 0) zombie_kernel)))
           = replicate 4 True @ replicate 12 False"
    by (simp add: addr_free_page_def Let_def zombie_kernel_facts bitmap_set_bit_one i l)
  have t: "tss_sel (task_tab (clear_task (Table_task 0) s) (Table_task 0)) = 0" for s
    by (simp add: clear_task_def task_upd_def zero_task_def)
  show ?thesis
    by (simp add: w clear_task_fields addr_free_page_fields g8 u b t zombie_kernel_facts)
qed


section \<open>fork when the address space cannot be copied\<close>


lemma find_upt_Some:
  assumes "i \<le> k" "k < j" "P k" "\<And>m. i \<le> m \<Longrightarrow> m < k \<Longrightarrow> \<not> P m"
  shows "find P [i..<j] = Some k"
proof -
  have "\<exists>n<length [i..<j]. P ([i..<j] ! n) \<and> k = [i..<j] ! n \<and> (\<forall>m<n. \<not> P ([i..<j] ! m))"
    using assms by (intro exI [of _ "k - i"]) auto
  then show ?thesis by (simp only: find_Some_iff)
qed

lemma bitmap_find_run_first:
  "bitmap_find_run (Suc 0) (replicate n True @ False # rest) i = Some (i + n)"
  by (induction n arbitrary: i) simp_all

text \<open>Once \<open>task_init\<close> has succeeded, \<open>sys_fork\<close> starts the child whatever \<open>memory_copy_uvm\<close> returns.\<close>

lemma sys_fork_never_sees_copy_failure:
  assumes p: "task_current s = Some parent_task" and c: "alloc_task s = Some child_task"
    and i: "fst (task_init child_task (name (task_tab s parent_task)) 0
                  (f_eip (frame (task_tab s parent_task)))
                  (f_esp (frame (task_tab s parent_task)) + 4 * SYSCALL_PARAM_COUNT) s) = 0"
  shows "fst (sys_fork s) = pid (task_tab (snd (sys_fork s)) child_task)"
    and "child_task \<in> set (ready_list (snd (sys_fork s)))"
    and "state (task_tab (snd (sys_fork s)) child_task) = TASK_READY"
proof -
  from c have nI: "child_task \<noteq> Idle_task" by (auto simp: alloc_task_def)
  obtain e s1 where t: "task_init child_task (name (task_tab s parent_task)) 0
                  (f_eip (frame (task_tab s parent_task)))
                  (f_esp (frame (task_tab s parent_task)) + 4 * SYSCALL_PARAM_COUNT) s = (e, s1)"
    by (cases "task_init child_task (name (task_tab s parent_task)) 0
                  (f_eip (frame (task_tab s parent_task)))
                  (f_esp (frame (task_tab s parent_task)) + 4 * SYSCALL_PARAM_COUNT) s")
  with i have e: "e = 0" by simp
  show "fst (sys_fork s) = pid (task_tab (snd (sys_fork s)) child_task)"
    using p c t e
    by (simp add: sys_fork_def Let_def split: prod.splits)
  show "child_task \<in> set (ready_list (snd (sys_fork s)))"
    using p c t e nI
    by (simp add: sys_fork_def Let_def task_start_def task_set_ready_def task_upd_def
        list_insert_last_def split: prod.splits)
  show "state (task_tab (snd (sys_fork s)) child_task) = TASK_READY"
    using p c t e nI
    by (simp add: sys_fork_def Let_def task_start_def task_set_ready_def task_upd_def
        list_insert_last_def split: prod.splits)
qed


lemma fork_kernel_facts:
  "task_current fork_kernel = Some First_task"
  "curr_task fork_kernel = Some First_task"
  "ready_list fork_kernel = [First_task, Table_task 0]"
  "name (task_tab fork_kernel First_task) = ''first task''"
  "name (task_tab fork_kernel (Table_task 0)) = ''first task''"
  "name (task_tab fork_kernel (Table_task (Suc 0))) = []"
  "cr3 (tss (task_tab fork_kernel First_task)) = 0x103000"
  "file_table (task_tab fork_kernel First_task) = (\<lambda>_. None)"
  "frame (task_tab fork_kernel First_task) = zero_frame"
  "gdt_table fork_kernel = replicate 9 0x80 @ replicate 247 0"
  "paddr_alloc fork_kernel = \<lparr>alloc_start = 0x100000, alloc_size = 0x10000,
      page_size = 0x1000, bitmap = replicate 14 True @ [False, False]\<rparr>"
  "task_addr fork_kernel = demo_addr"
  "app_code_sel fork_kernel = 0x28" "app_data_sel fork_kernel = 0x20"
  by (simp_all add: fork_kernel_def demo_kernel_def demo_task_def zero_task_def zero_tss_def
      task_current_def)

lemma fork_alloc_task: "alloc_task fork_kernel = Some (Table_task 1)"
proof -
  have "find (\<lambda>i. name (task_tab fork_kernel (Table_task i)) = []) [0..<TASK_NR] = Some 1"
  proof (rule find_upt_Some)
    fix m :: nat assume "m < 1"
    then have "m = 0" by simp
    then show "name (task_tab fork_kernel (Table_task m)) \<noteq> []"
      by (simp add: fork_kernel_facts)
  qed (simp_all add: TASK_NR_def fork_kernel_facts)
  then show ?thesis by (simp add: alloc_task_def)
qed

lemma fork_gdt_alloc:
  "gdt_alloc_desc fork_kernel =
     (72, fork_kernel\<lparr>gdt_table := (replicate 9 0x80 @ replicate 247 0)[9 := 0x80]\<rparr>)"
proof -
  have "find (\<lambda>i. gdt_table fork_kernel ! i = 0) [1..<GDT_TABLE_SIZE] = Some 9"
    by (rule find_upt_Some) (simp_all add: GDT_TABLE_SIZE_def fork_kernel_facts nth_append)
  then show ?thesis
    by (simp add: gdt_alloc_desc_def fork_kernel_facts SEG_P_PRESENT_def)
qed

lemma alloc_first_free:
  assumes "bitmap (paddr_alloc s) = replicate n True @ False # rest"
  shows "addr_alloc_page (Suc 0) s =
     (alloc_start (paddr_alloc s) + of_nat n * page_size (paddr_alloc s),
      s\<lparr>paddr_alloc := (paddr_alloc s)\<lparr>bitmap := replicate (Suc n) True @ rest\<rparr>\<rparr>)"
  using assms
  by (simp add: addr_alloc_page_def bitmap_alloc_nbits_def bitmap_find_run_first Let_def
      bitmap_set_bit_one list_update_append replicate_app_Cons_same)


lemma fork_tss_init:
  "fst (tss_init (Table_task 1) 0 0 20 fork_kernel) = 0"
  "bitmap (paddr_alloc (snd (tss_init (Table_task 1) 0 0 20 fork_kernel))) = replicate 16 True"
  "gdt_table (snd (tss_init (Table_task 1) 0 0 20 fork_kernel)) ! 9 = 0x89"
  "tss_sel (task_tab (snd (tss_init (Table_task 1) 0 0 20 fork_kernel)) (Table_task 1)) = 72"
  "esp0 (tss (task_tab (snd (tss_init (Table_task 1) 0 0 20 fork_kernel)) (Table_task 1))) = 0x10F000"
  "cr3 (tss (task_tab (snd (tss_init (Table_task 1) 0 0 20 fork_kernel)) (Table_task 1))) = 0x10F000"
  apply (simp_all add: tss_init_def fork_gdt_alloc Let_def segment_desc_set_def
      memory_alloc_page_def memory_create_uvm_def task_upd_def fork_kernel_facts
      alloc_first_free sizeof_tss_t_def SEG_P_PRESENT_def SEG_DPL0_def SEG_TYPE_TSS_def
      MEM_PAGE_SIZE_def)
  done


lemma memory_create_uvm_full:
  "list_all (\<lambda>x. x) (bitmap (paddr_alloc s)) \<Longrightarrow> memory_create_uvm s = (0, s)"
  by (simp add: memory_create_uvm_def addr_alloc_page_full)

lemma memory_copy_uvm_full:
  "list_all (\<lambda>x. x) (bitmap (paddr_alloc s)) \<Longrightarrow> memory_copy_uvm d s = (- 1, s)"
  by (simp add: memory_copy_uvm_def memory_create_uvm_full)

lemma copy_opened_files_none:
  "(\<And>i. file_table (task_tab s p) i = None) \<Longrightarrow> copy_opened_files p c s = s"
  unfolding copy_opened_files_def by (rule fold_id) simp

lemma fork_task_init:
  "fst (task_init (Table_task 1) ''first task'' 0 0 20 fork_kernel) = 0"
  "bitmap (paddr_alloc (snd (task_init (Table_task 1) ''first task'' 0 0 20 fork_kernel)))
     = replicate 16 True"
  "gdt_table (snd (task_init (Table_task 1) ''first task'' 0 0 20 fork_kernel)) ! 9 = 0x89"
  "task_tab (snd (task_init (Table_task 1) ''first task'' 0 0 20 fork_kernel)) First_task
     = task_tab fork_kernel First_task"
  "ready_list (snd (task_init (Table_task 1) ''first task'' 0 0 20 fork_kernel))
     = [First_task, Table_task 0]"
  "pid (task_tab (snd (task_init (Table_task 1) ''first task'' 0 0 20 fork_kernel))
     (Table_task 1)) = 0x30400"
  "name (task_tab (snd (task_init (Table_task 1) ''first task'' 0 0 20 fork_kernel))
     (Table_task 1)) = ''first task''"
  "tss_sel (task_tab (snd (task_init (Table_task 1) ''first task'' 0 0 20 fork_kernel))
     (Table_task 1)) = 72"
  "esp0 (tss (task_tab (snd (task_init (Table_task 1) ''first task'' 0 0 20 fork_kernel))
     (Table_task 1))) = 0x10F000"
  by (simp_all add: task_init_def case_prod_beta fork_tss_init Let_def task_upd_def
      kernel_strncpy_def TASK_NAME_SIZE_def list_insert_last_def mem_frame_fields
      tss_init_def fork_gdt_alloc segment_desc_set_def
      memory_alloc_page_def memory_create_uvm_def fork_kernel_facts
      alloc_first_free sizeof_tss_t_def SEG_P_PRESENT_def SEG_DPL0_def SEG_TYPE_TSS_def
      MEM_PAGE_SIZE_def demo_addr_def)


lemmas fork_task_init_Suc = fork_task_init [unfolded One_nat_def]

lemma fork_copy_fails:
  "memory_copy_uvm d (snd (task_init (Table_task 1) ''first task'' 0 0 20 fork_kernel))
     = (- 1, snd (task_init (Table_task 1) ''first task'' 0 0 20 fork_kernel))"
  by (rule memory_copy_uvm_full) (simp add: fork_task_init_Suc list_all_iff)

text \<open>
  Claim C1. The claim: when duplicating the parent's address space fails, \<open>sys_fork\<close> frees
  the child's task slot, TSS selector, kernel stack and page directory and returns -1; the
  failure never yields a started child. In the code the value of \<open>memory_copy_uvm\<close> is stored
  in the unsigned field \<open>tss.cr3\<close> and that is compared with 0, so the failure value -1 is
  never seen. With two free pages left, \<open>task_init\<close> takes both (kernel stack and page
  directory), \<open>memory_copy_uvm\<close> fails, and yet \<open>sys_fork\<close> returns the child's pid 0x30400,
  the child is on the ready list in state Ready with \<open>cr3 = 0xFFFFFFFF\<close>, and its slot, its
  TSS descriptor (GDT entry 9), its kernel stack and its directory are all still taken.
\<close>

theorem sys_fork_starts_child_after_copy_failure:
  "fst (memory_copy_uvm (cr3 (tss (task_tab fork_kernel First_task)))
          (snd (task_init (Table_task 1) ''first task'' 0 0 20 fork_kernel))) = - 1
   \<and> fst (sys_fork fork_kernel) = 0x30400
   \<and> ready_list (snd (sys_fork fork_kernel)) = [First_task, Table_task 0, Table_task 1]
   \<and> state (task_tab (snd (sys_fork fork_kernel)) (Table_task 1)) = TASK_READY
   \<and> cr3 (tss (task_tab (snd (sys_fork fork_kernel)) (Table_task 1))) = 0xFFFFFFFF
   \<and> name (task_tab (snd (sys_fork fork_kernel)) (Table_task 1)) = ''first task''
   \<and> tss_sel (task_tab (snd (sys_fork fork_kernel)) (Table_task 1)) = 72
   \<and> gdt_table (snd (sys_fork fork_kernel)) ! 9 = 0x89
   \<and> esp0 (tss (task_tab (snd (sys_fork fork_kernel)) (Table_task 1))) = 0x10F000
   \<and> bitmap (paddr_alloc (snd (sys_fork fork_kernel))) = replicate 16 True"
proof -
  let ?s1 = "snd (task_init (Table_task (Suc 0)) ''first task'' 0 0 20 fork_kernel)"
  have files: "copy_opened_files First_task (Table_task (Suc 0)) ?s1 = ?s1"
    by (rule copy_opened_files_none) (simp add: fork_task_init_Suc fork_kernel_facts)
  let ?s3 = "task_upd (Table_task (Suc 0)) (\<lambda>t. t\<lparr>tss := (tss t)
                     \<lparr>eax := 0, ebx := 0, ecx := 0, edx := 0, esi := 0, edi := 0, ebp := 0,
                      cs := 0, ds := 0, es := 0, fs := 0, gs := 0, eflags := 0\<rparr>,
                     parent := Some First_task\<rparr>) ?s1"
  have copy: "memory_copy_uvm d ?s3 = (- 1, ?s3)" for d
    by (rule memory_copy_uvm_full) (simp add: fork_task_init_Suc list_all_iff task_upd_def)
  have fork: "sys_fork fork_kernel =
      (let s5 = task_upd (Table_task 1) (\<lambda>t. t\<lparr>tss := (tss t)\<lparr>cr3 := - 1\<rparr>\<rparr>)
                 (task_upd (Table_task 1) (\<lambda>t. t\<lparr>tss := (tss t)
                     \<lparr>eax := 0, ebx := 0, ecx := 0, edx := 0, esi := 0, edi := 0, ebp := 0,
                      cs := 0, ds := 0, es := 0, fs := 0, gs := 0, eflags := 0\<rparr>,
                     parent := Some First_task\<rparr>) ?s1);
           s6 = task_start (Table_task 1) s5
       in (pid (task_tab s6 (Table_task 1)), s6))"
    by (simp add: sys_fork_def fork_kernel_facts fork_alloc_task case_prod_beta Let_def
        SYSCALL_PARAM_COUNT_def fork_task_init_Suc files copy
        zero_frame_def)
  show ?thesis
    by (simp add: fork fork_copy_fails [unfolded One_nat_def] Let_def task_start_def task_set_ready_def task_upd_def
        list_insert_last_def fork_task_init_Suc)
qed


section \<open>The image loader and execve\<close>

subsection \<open>Files with a bad header\<close>


lemma load_failed_fst: "fst (load_failed file s) = 0"
  by (simp add: load_failed_def)

lemma exec_failed_fst: "fst (exec_failed task old new s) = - 1"
  by (simp add: exec_failed_def)

lemma read_ehdr_take:
  "52 \<le> length bytes \<Longrightarrow> read_ehdr (take 52 bytes) = read_ehdr bytes"
  by (simp add: read_ehdr_def le16_def le32_def)

lemma find_SomeD: "find P xs = Some x \<Longrightarrow> x \<in> set xs \<and> P x"
  by (auto simp: find_Some_iff)

lemma sys_open_read:
  assumes "sys_open fname s = (fd, s1)" "0 \<le> fd"
  shows "\<exists>bytes. disk s fname = Some bytes \<and>
           fst (sys_read fd n s1) = int (length (take n bytes)) \<and>
           fst (snd (sys_read fd n s1)) = take n bytes"
proof -
  from assms obtain bytes where d: "disk s fname = Some bytes"
    by (cases "disk s fname") (auto simp: sys_open_def)
  from assms d obtain fl sa where fa: "file_alloc s = (Some fl, sa)"
    by (cases "file_alloc s"; cases "fst (file_alloc s)") (auto simp: sys_open_def)
  then have fll: "fl < length (sys_files s)"
    and sa: "sa = s\<lparr>sys_files := (sys_files s)[fl := zero_file\<lparr>file_ref := 1\<rparr>]\<rparr>"
    by (auto simp: file_alloc_def split: option.splits dest: find_SomeD)
  obtain r sb where ta: "task_alloc_fd fl sa = (r, sb)" by (cases "task_alloc_fd fl sa")
  with assms d fa have r: "r = fd"
    and s1: "s1 = sb\<lparr>sys_files := (sys_files sb)[fl := (sys_files sb ! fl)\<lparr>file_data := bytes\<rparr>]\<rparr>"
    by (auto simp: sys_open_def split: if_splits)
  from ta r assms(2) obtain cur i where c: "task_current sa = Some cur" and i: "i < TASK_OFILE_NR"
    and fd: "fd = int i"
    and sb: "sb = task_upd cur (\<lambda>t. t\<lparr>file_table := (file_table t)(i := Some fl)\<rparr>) sa"
    by (auto simp: task_alloc_fd_def split: option.splits dest: find_SomeD)
  have tf: "task_file fd s1 = Some fl"
    using c i fd by (simp add: task_file_def s1 sb task_upd_def task_current_def)
  have f: "sys_files s1 ! fl = zero_file\<lparr>file_ref := 1, file_data := bytes\<rparr>"
    using fll by (simp add: s1 sb sa task_upd_def)
  show ?thesis
    using d tf f by (simp add: sys_read_def Let_def zero_file_def)
qed

lemma load_elf_file_bad_image:
  assumes "bad_image s fname"
  shows "fst (load_elf_file task fname page_dir s) = 0"
proof -
  obtain fd s1 where o: "sys_open fname s = (fd, s1)" by (cases "sys_open fname s")
  show ?thesis
  proof (cases "fd < 0")
    case True
    then show ?thesis using o by (simp add: load_elf_file_def load_failed_fst)
  next
    case False
    then have "0 \<le> fd" by simp
    from sys_open_read [OF o this, of 52] obtain bytes where d: "disk s fname = Some bytes"
      and c: "fst (sys_read fd 52 s1) = int (length (take 52 bytes))"
      and b: "fst (snd (sys_read fd 52 s1)) = take 52 bytes" by blast
    from assms d have n: "\<not> elf_header_accepted bytes" by (simp add: bad_image_def)
    obtain cnt bs s2 where r: "sys_read fd 52 s1 = (cnt, bs, s2)" by (cases "sys_read fd 52 s1")
    with c b have cnt: "cnt = int (min (length bytes) 52)" and bs: "bs = take 52 bytes" by simp_all
    show ?thesis
    proof (cases "length bytes < 52")
      case True
      then have "(word_of_int cnt :: u32) < 52"
        using cnt by (simp add: min_def word_less_nat_alt unat_of_nat take_bit_nat_eq_self)
      then show ?thesis
        using o False r by (simp add: load_elf_file_def sizeof_Elf32_Ehdr_def load_failed_fst)
    next
      case False
      then have l: "52 \<le> length bytes" by simp
      then have h: "read_ehdr bs = read_ehdr bytes" by (simp add: bs read_ehdr_take)
      have i: "take 4 (e_ident (read_ehdr bytes)) =
         [e_ident (read_ehdr bytes) ! 0, e_ident (read_ehdr bytes) ! 1,
          e_ident (read_ehdr bytes) ! 2, e_ident (read_ehdr bytes) ! 3]"
        by (simp add: read_ehdr_def upt_rec numeral_eq_Suc)
      from n l i have "e_ident (read_ehdr bytes) ! 0 \<noteq> 0x7F \<or> e_ident (read_ehdr bytes) ! 1 \<noteq> 0x45
          \<or> e_ident (read_ehdr bytes) ! 2 \<noteq> 0x4C \<or> e_ident (read_ehdr bytes) ! 3 \<noteq> 0x46
          \<or> e_type (read_ehdr bytes) \<noteq> 2 \<or> e_machine (read_ehdr bytes) \<noteq> 3
          \<or> e_entry (read_ehdr bytes) = 0 \<or> e_phentsize (read_ehdr bytes) = 0
          \<or> e_phoff (read_ehdr bytes) = 0"
        by (auto simp: elf_header_accepted_def Let_def word_greater_zero_iff)
      then show ?thesis
        using o \<open>\<not> fd < 0\<close> r h
        by (auto simp: load_elf_file_def sizeof_Elf32_Ehdr_def load_failed_fst Let_def
            ELF_MAGIC_def ET_EXEC_def ET_386_def)
    qed
  qed
qed


lemma sys_execve_bad_image:
  assumes "bad_image s fname"
  shows "fst (sys_execve fname argv env s) = - 1"
proof (cases "task_current s")
  case None
  then show ?thesis by (simp add: sys_execve_def)
next
  case (Some task)
  let ?s0 = "task_upd task (\<lambda>t. t\<lparr>name := kernel_strncpy (get_file_name fname) TASK_NAME_SIZE\<rparr>) s"
  have "disk (snd (memory_create_uvm ?s0)) = disk s"
    by (simp add: memory_create_uvm_fields task_upd_def)
  with assms have "bad_image (snd (memory_create_uvm ?s0)) fname" by (simp add: bad_image_def)
  then have "fst (load_elf_file task fname d (snd (memory_create_uvm ?s0))) = 0" for d
    by (rule load_elf_file_bad_image)
  then show ?thesis
    using Some by (simp add: sys_execve_def Let_def case_prod_beta exec_failed_fst)
qed

text \<open>What \<open>sys_read\<close> and \<open>sys_lseek\<close> do on an open descriptor.\<close>

lemma task_file_sys_files [simp]: "task_file fd (s\<lparr>sys_files := x\<rparr>) = task_file fd s"
  by (simp add: task_file_def task_current_def split: option.splits)

lemma sys_read_facts:
  assumes "task_file fd s = Some fl" "fl < length (sys_files s)"
  shows "fst (sys_read fd n s)
           = int (length (take n (drop (file_pos (sys_files s ! fl)) (file_data (sys_files s ! fl)))))"
    and "fst (snd (sys_read fd n s))
           = take n (drop (file_pos (sys_files s ! fl)) (file_data (sys_files s ! fl)))"
    and "task_file fd (snd (snd (sys_read fd n s))) = Some fl"
    and "fl < length (sys_files (snd (snd (sys_read fd n s))))"
    and "file_data (sys_files (snd (snd (sys_read fd n s))) ! fl) = file_data (sys_files s ! fl)"
    and "file_pos (sys_files (snd (snd (sys_read fd n s))) ! fl)
           = file_pos (sys_files s ! fl)
             + length (take n (drop (file_pos (sys_files s ! fl)) (file_data (sys_files s ! fl))))"
  using assms by (simp_all add: sys_read_def Let_def)

lemma sys_lseek_facts:
  assumes "task_file fd s = Some fl" "fl < length (sys_files s)"
  shows "fst (sys_lseek fd off s) = 0"
    and "task_file fd (snd (sys_lseek fd off s)) = Some fl"
    and "fl < length (sys_files (snd (sys_lseek fd off s)))"
    and "file_data (sys_files (snd (sys_lseek fd off s)) ! fl) = file_data (sys_files s ! fl)"
    and "file_pos (sys_files (snd (sys_lseek fd off s)) ! fl) = unat off"
  using assms by (simp_all add: sys_lseek_def)

lemma sys_open_facts:
  assumes "sys_open fname s = (fd, s1)" "0 \<le> fd"
  shows "\<exists>bytes fl. disk s fname = Some bytes \<and> task_file fd s1 = Some fl \<and>
           fl < length (sys_files s1) \<and> file_data (sys_files s1 ! fl) = bytes \<and>
           file_pos (sys_files s1 ! fl) = 0"
proof -
  from assms obtain bytes where d: "disk s fname = Some bytes"
    by (cases "disk s fname") (auto simp: sys_open_def)
  from assms d obtain fl sa where fa: "file_alloc s = (Some fl, sa)"
    by (cases "file_alloc s"; cases "fst (file_alloc s)") (auto simp: sys_open_def)
  then have fll: "fl < length (sys_files s)"
    and sa: "sa = s\<lparr>sys_files := (sys_files s)[fl := zero_file\<lparr>file_ref := 1\<rparr>]\<rparr>"
    by (auto simp: file_alloc_def split: option.splits dest: find_SomeD)
  obtain r sb where ta: "task_alloc_fd fl sa = (r, sb)" by (cases "task_alloc_fd fl sa")
  with assms d fa have r: "r = fd"
    and s1: "s1 = sb\<lparr>sys_files := (sys_files sb)[fl := (sys_files sb ! fl)\<lparr>file_data := bytes\<rparr>]\<rparr>"
    by (auto simp: sys_open_def split: if_splits)
  from ta r assms(2) obtain cur i where c: "task_current sa = Some cur" and i: "i < TASK_OFILE_NR"
    and fd: "fd = int i"
    and sb: "sb = task_upd cur (\<lambda>t. t\<lparr>file_table := (file_table t)(i := Some fl)\<rparr>) sa"
    by (auto simp: task_alloc_fd_def split: option.splits dest: find_SomeD)
  have tf: "task_file fd s1 = Some fl"
    using c i fd by (simp add: task_file_def s1 sb task_upd_def task_current_def)
  have f: "sys_files s1 ! fl = zero_file\<lparr>file_ref := 1, file_data := bytes\<rparr>"
    and l: "fl < length (sys_files s1)"
    using fll by (simp_all add: s1 sb sa task_upd_def)
  show ?thesis
    using d tf f l by (simp add: zero_file_def)
qed

text \<open>
  Claim C8, as amended. The loader accepts a file only if it has a complete header of 52
  bytes with the magic \<open>0x7F 'E' 'L' 'F'\<close>, \<open>e_type = 2\<close>, \<open>e_machine = 3\<close>, a non-zero
  \<open>e_entry\<close>, \<open>e_phentsize > 0\<close> and a non-zero \<open>e_phoff\<close>: for every name whose file is missing
  or violates one of these conditions, \<open>load_elf_file\<close> fails (it returns 0) and \<open>sys_execve\<close>
  returns -1. Program headers that are not \<open>PT_LOAD\<close> are passed over, and that a \<open>PT_LOAD\<close>
  header was found is not a condition.
\<close>

theorem load_elf_file_rejects_bad_header:
  assumes "bad_image s fname"
  shows "fst (load_elf_file task fname page_dir s) = 0 \<and> fst (sys_execve fname argv env s) = - 1"
  using assms by (simp add: load_elf_file_bad_image sys_execve_bad_image)

lemma exec_kernel_facts:
  "task_current exec_kernel = Some First_task"
  "sys_files exec_kernel = [zero_file, zero_file]"
  "disk exec_kernel ''empty.elf'' = Some elf_no_segments"
  "disk exec_kernel ''note.elf'' = Some elf_note_only"
  "disk exec_kernel ''amd64.elf'' = Some elf_wrong_machine"
  "disk exec_kernel ''notes.txt'' = Some [0x68, 0x65, 0x6C, 0x6C, 0x6F]"
  "file_table (task_tab exec_kernel First_task) = (\<lambda>_. None)"
  by (simp_all add: exec_kernel_def demo_kernel_def demo_task_def zero_task_def task_current_def)

lemma upt_16: "[0..<16] = [0, 1, 2, 3, 4, 5, 6, 7, 8, 9, 10, 11, 12, 13, 14, 15::nat]"
  by (simp add: upt_rec)

lemma elf_wrong_machine_header:
  "length elf_wrong_machine = 52"
  "take 4 (e_ident (read_ehdr elf_wrong_machine)) = [0x7F, 0x45, 0x4C, 0x46]"
  "e_type (read_ehdr elf_wrong_machine) = 2"
  "e_machine (read_ehdr elf_wrong_machine) = 62"
  "e_entry (read_ehdr elf_wrong_machine) = 0x80000000"
  unfolding read_ehdr_def upt_16 by (simp_all add: elf_wrong_machine_def le16_def le32_def)

text \<open>
  An image whose 52 bytes are a complete header, with the magic, \<open>e_type = 2\<close> and an entry,
  but for machine 62, is refused on that field; a text file of five bytes is refused too.
\<close>

theorem load_elf_file_rejects_bad_header_witness:
  "bad_image exec_kernel ''amd64.elf''
   \<and> length elf_wrong_machine = 52
   \<and> e_machine (read_ehdr elf_wrong_machine) = 62
   \<and> fst (load_elf_file First_task ''amd64.elf'' 0x106000 exec_kernel) = 0
   \<and> fst (sys_execve ''amd64.elf'' [] [] exec_kernel) = - 1
   \<and> bad_image exec_kernel ''notes.txt''
   \<and> fst (load_elf_file First_task ''notes.txt'' 0x106000 exec_kernel) = 0
   \<and> fst (sys_execve ''notes.txt'' [] [] exec_kernel) = - 1"
  using load_elf_file_rejects_bad_header [where s = exec_kernel and fname = "''amd64.elf''"
      and task = First_task and page_dir = "0x106000" and argv = "[]" and env = "[]"]
    load_elf_file_rejects_bad_header [where s = exec_kernel and fname = "''notes.txt''"
      and task = First_task and page_dir = "0x106000" and argv = "[]" and env = "[]"]
  by (simp add: bad_image_def exec_kernel_facts elf_header_accepted_def elf_wrong_machine_header
      Let_def)

lemma exec_kernel_open:
  "disk exec_kernel fname = Some bytes \<Longrightarrow> fst (sys_open fname exec_kernel) = 0"
proof -
  assume d: "disk exec_kernel fname = Some bytes"
  have a: "find (\<lambda>i. file_ref ([zero_file, zero_file] ! i) = 0) [0..<length [zero_file, zero_file]]
           = Some 0"
    by (rule find_upt_Some) (simp_all add: zero_file_def)
  have b: "find (\<lambda>i. True) [0..<TASK_OFILE_NR] = Some 0"
    by (rule find_upt_Some) (simp_all add: TASK_OFILE_NR_def)
  show ?thesis
    by (simp add: sys_open_def d file_alloc_def exec_kernel_facts(2,7) a
        task_alloc_fd_def task_current_def b case_prod_beta zero_file_def
        exec_kernel_facts(1) [unfolded task_current_def])
qed

lemma elf_note_header:
  "length elf_note_header = 52"
  "read_ehdr elf_note_header =
     \<lparr>e_ident = [0x7F, 0x45, 0x4C, 0x46, 1, 1, 1, 0, 0, 0, 0, 0, 0, 0, 0, 0],
      e_type = 2, e_machine = 3, e_version = 1, e_entry = 0x80000000, e_phoff = 52,
      e_shoff = 0, e_flags = 0, e_ehsize = 52, e_phentsize = 32, e_phnum = 1,
      e_shentsize = 40, e_shnum = 0, e_shstrndx = 0\<rparr>"
  unfolding read_ehdr_def upt_16 by (simp_all add: elf_note_header_def le16_def le32_def)

lemma elf_note_phdr:
  "length elf_note_phdr = 32"
  "p_type (read_phdr elf_note_phdr) = 4"
  by (simp_all add: read_phdr_def elf_note_phdr_def le32_def)

text \<open>
  Claim C8, as stated, fails. The image \<open>elf_note_only\<close> has a header that passes every check
  and one program header, a note: it has no \<open>PT_LOAD\<close> header. \<open>load_elf_file\<close> reads the
  program header, passes over it, and accepts the image: it returns the entry \<open>0x80000000\<close>.
\<close>

theorem load_elf_file_accepts_image_without_load_segment:
  "disk exec_kernel ''note.elf'' = Some elf_note_only
   \<and> map p_type (elf_program_headers elf_note_only) = [4]
   \<and> \<not> spec_elf_intake elf_note_only
   \<and> fst (load_elf_file First_task ''note.elf'' 0x106000 exec_kernel) = 0x80000000"
proof -
  obtain fd s1 where o: "sys_open ''note.elf'' exec_kernel = (fd, s1)"
    by (cases "sys_open ''note.elf'' exec_kernel")
  with exec_kernel_open [OF exec_kernel_facts(4)] have fd: "fd = 0" by simp
  from sys_open_facts [OF o] fd obtain fl where f1: "task_file 0 s1 = Some fl"
    "fl < length (sys_files s1)" "file_data (sys_files s1 ! fl) = elf_note_only"
    "file_pos (sys_files s1 ! fl) = 0"
    by (auto simp: exec_kernel_facts)
  define s2 where "s2 = snd (snd (sys_read 0 52 s1))"
  define s3 where "s3 = snd (sys_lseek 0 52 s2)"
  have r1: "fst (sys_read 0 52 s1) = 52" "fst (snd (sys_read 0 52 s1)) = elf_note_header"
    using sys_read_facts(1,2) [OF f1(1,2), of 52]
    by (simp_all add: f1 elf_note_only_def elf_note_header elf_note_phdr)
  have f2: "task_file 0 s2 = Some fl" "fl < length (sys_files s2)"
    "file_data (sys_files s2 ! fl) = elf_note_only"
    using sys_read_facts(3,4,5) [OF f1(1,2), of 52] by (simp_all add: s2_def f1)
  have l1: "fst (sys_lseek 0 52 s2) = 0"
    using sys_lseek_facts(1) [OF f2(1,2)] by simp
  have f3: "task_file 0 s3 = Some fl" "fl < length (sys_files s3)"
    "file_data (sys_files s3 ! fl) = elf_note_only" "file_pos (sys_files s3 ! fl) = 52"
    using sys_lseek_facts(2,3,4,5) [OF f2(1,2), of 52] by (simp_all add: s3_def f2)
  have r2: "fst (sys_read 0 32 s3) = 32" "fst (snd (sys_read 0 32 s3)) = elf_note_phdr"
    using sys_read_facts(1,2) [OF f3(1,2), of 32]
    by (simp_all add: f3 elf_note_only_def elf_note_header elf_note_phdr)
  have lp: "fst (load_phdrs (Suc 0) 0 (read_ehdr elf_note_header) 52 First_task 0x106000 s2)"
    by (simp add: case_prod_beta l1 s3_def [symmetric] r2 Let_def sizeof_Elf32_Phdr_def
        elf_note_phdr PT_LOAD_def)
  have h: "read_ehdr elf_note_only = read_ehdr elf_note_header"
    using read_ehdr_take [of elf_note_only]
    by (simp add: elf_note_only_def elf_note_header(1) elf_note_phdr(1))
  have p: "elf_program_headers elf_note_only = [read_phdr elf_note_phdr]"
    by (simp add: elf_program_headers_def h elf_note_header(2))
       (simp add: elf_note_only_def elf_note_header(1))
  have l: "fst (load_elf_file First_task ''note.elf'' 0x106000 exec_kernel) = 0x80000000"
    using lp
    by (simp add: load_elf_file_def o fd case_prod_beta r1 s2_def [symmetric] elf_note_header
        Let_def sizeof_Elf32_Ehdr_def ELF_MAGIC_def ET_EXEC_def ET_386_def)
  show ?thesis
    by (simp add: exec_kernel_facts l spec_elf_intake_def p elf_note_phdr)
qed

text \<open>
  The test that is to demand a program header looks at \<open>e_phoff\<close> and \<open>e_phentsize\<close> only, so
  an image with \<open>e_phnum = 0\<close> passes it as well.
\<close>

lemma elf_no_segments_header:
  "length elf_no_segments = 52"
  "read_ehdr elf_no_segments =
     \<lparr>e_ident = [0x7F, 0x45, 0x4C, 0x46, 1, 1, 1, 0, 0, 0, 0, 0, 0, 0, 0, 0],
      e_type = 2, e_machine = 3, e_version = 1, e_entry = 0x80000000, e_phoff = 52,
      e_shoff = 0, e_flags = 0, e_ehsize = 52, e_phentsize = 32, e_phnum = 0,
      e_shentsize = 40, e_shnum = 0, e_shstrndx = 0\<rparr>"
  unfolding read_ehdr_def upt_16 by (simp_all add: elf_no_segments_def le16_def le32_def)

lemma load_elf_file_accepts_empty_table:
  "e_phnum (read_ehdr elf_no_segments) = 0
   \<and> fst (load_elf_file First_task ''empty.elf'' 0x106000 exec_kernel) = 0x80000000"
proof -
  obtain fd s1 where o: "sys_open ''empty.elf'' exec_kernel = (fd, s1)"
    by (cases "sys_open ''empty.elf'' exec_kernel")
  with exec_kernel_open [OF exec_kernel_facts(3)] have fd: "fd = 0" by simp
  from sys_open_facts [OF o] fd obtain fl where f1: "task_file 0 s1 = Some fl"
    "fl < length (sys_files s1)" "file_data (sys_files s1 ! fl) = elf_no_segments"
    "file_pos (sys_files s1 ! fl) = 0"
    by (auto simp: exec_kernel_facts)
  have r1: "fst (sys_read 0 52 s1) = 52" "fst (snd (sys_read 0 52 s1)) = elf_no_segments"
    using sys_read_facts(1,2) [OF f1(1,2), of 52]
    by (simp_all add: f1 elf_no_segments_header)
  show ?thesis
    by (simp add: load_elf_file_def o fd case_prod_beta r1 elf_no_segments_header
        Let_def sizeof_Elf32_Ehdr_def ELF_MAGIC_def ET_EXEC_def ET_386_def)
qed

subsection \<open>A failed execve\<close>


lemma load_elf_file_missing:
  "disk s fname = None \<Longrightarrow> load_elf_file task fname d s = (0, s)"
  by (simp add: load_elf_file_def sys_open_def load_failed_def)

lemma sys_execve_missing_file_eq:
  assumes "task_current s = Some task" "disk s fname = None"
  shows "sys_execve fname argv env s =
      exec_failed task (cr3 (tss (task_tab s task)))
        (fst (memory_create_uvm (task_upd task
           (\<lambda>t. t\<lparr>name := kernel_strncpy (get_file_name fname) TASK_NAME_SIZE\<rparr>) s)))
        (snd (memory_create_uvm (task_upd task
           (\<lambda>t. t\<lparr>name := kernel_strncpy (get_file_name fname) TASK_NAME_SIZE\<rparr>) s)))"
proof -
  let ?s0 = "task_upd task (\<lambda>t. t\<lparr>name := kernel_strncpy (get_file_name fname) TASK_NAME_SIZE\<rparr>) s"
  have d: "disk (snd (memory_create_uvm ?s0)) fname = None"
    using assms by (simp add: memory_create_uvm_fields task_upd_def)
  have c: "cr3 (tss (task_tab ?s0 task)) = cr3 (tss (task_tab s task))"
    by (simp add: task_upd_def)
  show ?thesis
    using assms(1) by (simp add: sys_execve_def Let_def case_prod_beta load_elf_file_missing [OF d] c)
qed

lemma sys_execve_missing_file:
  assumes "task_current s = Some task" "disk s fname = None"
  shows "fst (sys_execve fname argv env s) = - 1"
    and "name (task_tab (snd (sys_execve fname argv env s)) task)
           = kernel_strncpy (get_file_name fname) TASK_NAME_SIZE"
    and "cr3 (tss (task_tab (snd (sys_execve fname argv env s)) task)) = cr3 (tss (task_tab s task))"
proof -
  note e = sys_execve_missing_file_eq [OF assms]
  show "fst (sys_execve fname argv env s) = - 1"
    by (simp add: e exec_failed_def)
  show "name (task_tab (snd (sys_execve fname argv env s)) task)
           = kernel_strncpy (get_file_name fname) TASK_NAME_SIZE"
    by (simp add: e exec_failed_def memory_destroy_uvm_fields memory_create_uvm_fields
        mmu_set_page_dir_def task_upd_def)
  show "cr3 (tss (task_tab (snd (sys_execve fname argv env s)) task)) = cr3 (tss (task_tab s task))"
    by (simp add: e exec_failed_def memory_destroy_uvm_fields memory_create_uvm_fields
        mmu_set_page_dir_def task_upd_def)
qed

lemma copy_kernel_pdes_zero: "(\<And>a. m a = 0) \<Longrightarrow> copy_kernel_pdes d k m a = 0"
proof -
  have "(\<forall>a. m a = 0) \<Longrightarrow> \<forall>a. fold (\<lambda>i m1. m1(entry_addr d (of_nat i) := m1 (entry_addr k (of_nat i)))) xs m a = (0::u32)"
    for xs :: "nat list"
    by (induction xs arbitrary: m) simp_all
  then show "(\<And>a. m a = 0) \<Longrightarrow> copy_kernel_pdes d k m a = 0"
    by (simp add: copy_kernel_pdes_def)
qed

lemma demo_kernel_facts:
  "task_current demo_kernel = Some First_task"
  "disk demo_kernel = (\<lambda>_. None)"
  "name (task_tab demo_kernel First_task) = ''first task''"
  "cr3 (tss (task_tab demo_kernel First_task)) = 0x103000"
  "cr3_reg demo_kernel = 0x103000"
  "pmem demo_kernel = (\<lambda>_. 0)"
  "paddr_alloc demo_kernel = \<lparr>alloc_start = 0x100000, alloc_size = 0x10000,
      page_size = 0x1000, bitmap = replicate 6 True @ replicate 10 False\<rparr>"
  by (simp_all add: demo_kernel_def demo_task_def zero_task_def zero_tss_def task_current_def)

text \<open>
  Claim C5. The claim: when \<open>sys_execve\<close> fails after the new page directory was created, the
  old directory is reinstalled, the new one destroyed, -1 returned, and the caller is left
  unchanged, its recorded name included. In the code the first statement of \<open>sys_execve\<close>
  overwrites the task name, before anything that can fail. The first task, named
  \<open>first task\<close>, calls \<open>execve\<close> for a file that does not exist: the new directory is created
  at \<open>0x106000\<close>, the load fails, \<open>sys_execve\<close> returns -1, the old directory \<open>0x103000\<close> is
  back in the TSS and in CR3, the page of the new directory is free again, and the task is
  now named \<open>missing\<close>.
\<close>

theorem sys_execve_failure_keeps_new_name:
  "name (task_tab demo_kernel First_task) = ''first task''
   \<and> fst (memory_create_uvm
            (task_upd First_task (\<lambda>t. t\<lparr>name := ''missing''\<rparr>) demo_kernel)) = 0x106000
   \<and> fst (sys_execve ''missing'' [] [] demo_kernel) = - 1
   \<and> cr3 (tss (task_tab (snd (sys_execve ''missing'' [] [] demo_kernel)) First_task)) = 0x103000
   \<and> cr3_reg (snd (sys_execve ''missing'' [] [] demo_kernel)) = 0x103000
   \<and> bitmap (paddr_alloc (snd (sys_execve ''missing'' [] [] demo_kernel)))
       = bitmap (paddr_alloc demo_kernel)
   \<and> name (task_tab (snd (sys_execve ''missing'' [] [] demo_kernel)) First_task) = ''missing''"
proof -
  let ?s0 = "task_upd First_task (\<lambda>t. t\<lparr>name := ''missing''\<rparr>) demo_kernel"
  have n: "kernel_strncpy (get_file_name ''missing'') TASK_NAME_SIZE = ''missing''"
    by (simp add: kernel_strncpy_def get_file_name_def TASK_NAME_SIZE_def)
  have b0: "bitmap (paddr_alloc ?s0) = replicate 6 True @ False # replicate 9 False"
    by (simp add: task_upd_def demo_kernel_facts numeral_eq_Suc)
  have a: "addr_alloc_page (Suc 0) ?s0 =
      (0x106000, ?s0\<lparr>paddr_alloc := (paddr_alloc ?s0)\<lparr>bitmap := replicate 7 True @ replicate 9 False\<rparr>\<rparr>)"
    using alloc_first_free [OF b0] by (simp add: task_upd_def demo_kernel_facts)
  have c: "fst (memory_create_uvm ?s0) = 0x106000"
    by (simp add: memory_create_uvm_def a)
  let ?s1 = "?s0\<lparr>paddr_alloc := (paddr_alloc ?s0)\<lparr>bitmap := replicate 7 True @ replicate 9 False\<rparr>,
                  pmem := copy_kernel_pdes 0x106000 (kernel_page_dir ?s0) (clear_page 0x106000 (pmem ?s0))\<rparr>"
  let ?s2 = "mmu_set_page_dir 0x103000
               (task_upd First_task (\<lambda>t. t\<lparr>tss := (tss t)\<lparr>cr3 := 0x103000\<rparr>\<rparr>) ?s1)"
  have m: "memory_create_uvm ?s0 = (0x106000, ?s1)"
    by (simp add: memory_create_uvm_def a)
  have z: "\<not> entry_present (pmem ?s2 x)" for x
    by (simp add: mmu_set_page_dir_def task_upd_def entry_present_def,
        subst copy_kernel_pdes_zero)
       (simp_all add: clear_page_def demo_kernel_facts)
  have e: "sys_execve ''missing'' [] [] demo_kernel = (- 1, memory_destroy_uvm 0x106000 ?s2)"
    using sys_execve_missing_file_eq [of demo_kernel First_task "''missing''" "[]" "[]"]
    by (simp add: demo_kernel_facts n m exec_failed_def)
  have d: "memory_destroy_uvm 0x106000 ?s2 = addr_free_page 0x106000 1 ?s2"
    by (simp only: memory_destroy_uvm_def destroy_pdes_none [OF z])
  have i: "unat ((0x106000 - 0x100000) div 0x1000 :: u32) = 6" by simp
  have l: "(replicate 7 True @ replicate 9 False)[6 := False]
           = replicate 6 True @ replicate 10 False"
    by (simp add: numeral_eq_Suc)
  have p: "paddr_alloc ?s2 = \<lparr>alloc_start = 0x100000, alloc_size = 0x10000,
      page_size = 0x1000, bitmap = replicate 7 True @ replicate 9 False\<rparr>"
    by (simp add: mmu_set_page_dir_def task_upd_def demo_kernel_facts)
  have bm: "bitmap (paddr_alloc (snd (sys_execve ''missing'' [] [] demo_kernel)))
       = replicate 6 True @ replicate 10 False"
    unfolding e d by (simp add: addr_free_page_def Let_def p bitmap_set_bit_one i l)
  have r: "cr3_reg (snd (sys_execve ''missing'' [] [] demo_kernel)) = 0x103000"
    by (simp add: e exec_failed_def memory_destroy_uvm_fields mmu_set_page_dir_def)
  show ?thesis
    using sys_execve_missing_file [of demo_kernel First_task "''missing''" "[]" "[]"]
    by (simp add: demo_kernel_facts c n bm r)
qed

end
